theory Spec2Isabelle
  imports Main "HOL-Library.Word" "HOL-Library.Char_ord" "HOL-Library.List_Lexorder"
    "HOL-Library.Product_Lexorder"
begin

chapter \<open>The tag-driven deployment and rollback scripts of karma-workflows\<close>

text \<open>
  A shallow embedding of the bash scripts \<^verbatim>\<open>deploy.sh\<close> (v3.0, with the functions
  \<^verbatim>\<open>get_latest_version\<close>, \<^verbatim>\<open>increment_version\<close>, \<^verbatim>\<open>deploy_version\<close>,
  \<^verbatim>\<open>monitor_github_actions\<close> and \<^verbatim>\<open>main\<close>) and \<^verbatim>\<open>rollback.sh\<close>
  (\<^verbatim>\<open>has_staging_environment\<close>, \<^verbatim>\<open>get_deployment_history\<close>,
  \<^verbatim>\<open>perform_rollback\<close>, \<^verbatim>\<open>main\<close>).

  Shell strings are \<^typ>\<open>string\<close>; the git repository is a record of its local and remote
  tags; whatever the operator types is a list of replies, consumed one per \<^verbatim>\<open>read\<close>;
  every \<^verbatim>\<open>exit\<close> of a script (also the one \<^verbatim>\<open>set -e\<close> forces when a command
  fails) is a value of the result type.
\<close>

section \<open>Shell strings and numerals\<close>

text \<open>Decimal digits, as the bracket expression \<^verbatim>\<open>[0-9]\<close> of the scripts matches them.\<close>

definition isdigit :: "char \<Rightarrow> bool" where
  "isdigit c = (48 \<le> (of_char c :: nat) \<and> (of_char c :: nat) \<le> 57)"

definition digit_of :: "char \<Rightarrow> nat" where
  "digit_of c = of_char c - 48"

definition digit_char :: "nat \<Rightarrow> char" where
  "digit_char d = char_of (48 + d)"

text \<open>The value of a digit string read in base ten and in base eight.\<close>

definition dec_val :: "string \<Rightarrow> nat" where
  "dec_val s = foldl (\<lambda>a c. 10 * a + digit_of c) 0 s"

definition oct_val :: "string \<Rightarrow> nat" where
  "oct_val s = foldl (\<lambda>a c. 8 * a + digit_of c) 0 s"

text \<open>The shell prints the value of an arithmetic expansion in decimal, with a sign.\<close>

fun show_nat :: "nat \<Rightarrow> string" where
  "show_nat n = (if n < 10 then [digit_char n] else show_nat (n div 10) @ [digit_char (n mod 10)])"

declare show_nat.simps [simp del]

definition show_int :: "int \<Rightarrow> string" where
  "show_int i = (if i < 0 then CHR ''-'' # show_nat (nat (- i)) else show_nat (nat i))"

text \<open>
  \<^verbatim>\<open>VERSION_PREFIX="${VERSION_PREFIX:-v}"\<close>: the tag prefix, at its default (the rollback
  script has the same \<^verbatim>\<open>v\<close> written into its patterns).
\<close>

definition VERSION_PREFIX :: string where
  "VERSION_PREFIX = ''v''"

text \<open>
  Parameter expansions. \<^verbatim>\<open>${s#p}\<close> drops the literal prefix \<^verbatim>\<open>p\<close> when it is there;
  \<^verbatim>\<open>${s%-*}\<close> drops the shortest suffix that starts with the given character (from its
  last occurrence on); \<^verbatim>\<open>${s%%-*}\<close> drops the longest such suffix (from its first
  occurrence on). A string without the character is left alone.
\<close>

definition strip_prefix :: "string \<Rightarrow> string \<Rightarrow> string" where
  "strip_prefix p s = (if take (length p) s = p then drop (length p) s else s)"

definition strip_shortest_from :: "char \<Rightarrow> string \<Rightarrow> string" where
  "strip_shortest_from c s =
     (if c \<in> set s then rev (tl (dropWhile (\<lambda>x. x \<noteq> c) (rev s))) else s)"

definition strip_longest_from :: "char \<Rightarrow> string \<Rightarrow> string" where
  "strip_longest_from c s = takeWhile (\<lambda>x. x \<noteq> c) s"

text \<open>
  \<^verbatim>\<open>IFS='.' read -r major minor patch <<< "$version"\<close>: the text before the first dot, the
  text between the first and the second dot, and the rest of the line.
\<close>

definition read_dot3 :: "string \<Rightarrow> string \<times> string \<times> string" where
  "read_dot3 s =
     (let major = takeWhile (\<lambda>x. x \<noteq> CHR ''.'') s;
          r1 = drop 1 (dropWhile (\<lambda>x. x \<noteq> CHR ''.'') s);
          minor = takeWhile (\<lambda>x. x \<noteq> CHR ''.'') r1;
          patch = drop 1 (dropWhile (\<lambda>x. x \<noteq> CHR ''.'') r1)
      in (major, minor, patch))"

text \<open>
  Shell arithmetic \<^verbatim>\<open>$((x + 1))\<close> on the text of a variable. The shell computes in signed
  64-bit integers and wraps around; an empty variable counts as 0; a digit string with a
  leading zero is read in base eight, and is an error when it holds an 8 or a 9. A
  variable that is not a digit string (a name, a hexadecimal or \<^verbatim>\<open>base#n\<close> constant) would
  be evaluated against the other shell variables; that is outside this model, and kept
  apart as \<open>Unmodelled\<close>.
\<close>

datatype error = ArithError | Unmodelled

definition wrap64 :: "int \<Rightarrow> int" where
  "wrap64 i = sint (word_of_int i :: 64 word)"

definition arith_operand :: "string \<Rightarrow> error + int" where
  "arith_operand s =
     (if s = [] then Inr 0
      else if \<not> list_all isdigit s then Inl Unmodelled
      else if hd s \<noteq> CHR ''0'' then Inr (wrap64 (int (dec_val s)))
      else if list_all (\<lambda>c. c \<noteq> CHR ''8'' \<and> c \<noteq> CHR ''9'') s then Inr (wrap64 (int (oct_val s)))
      else Inl ArithError)"

definition arith_succ :: "string \<Rightarrow> error + string" where
  "arith_succ s = (case arith_operand s of Inl e \<Rightarrow> Inl e | Inr i \<Rightarrow> Inr (show_int (wrap64 (i + 1))))"

section \<open>deploy.sh: versions\<close>

text \<open>
  \<^verbatim>\<open>increment_version\<close>. The prefix and the environment suffix are cut off, the version is
  split at its dots, build metadata after \<^verbatim>\<open>-\<close> or \<^verbatim>\<open>+\<close> is cut off the patch, and
  the \<^verbatim>\<open>case\<close> on the increment type bumps one component. The \<^verbatim>\<open>case\<close> has no default
  branch: with any other increment type the three components are echoed as they were read.
\<close>

definition increment_version :: "string \<Rightarrow> string \<Rightarrow> error + string" where
  "increment_version version0 increment_type =
     (let version = strip_shortest_from CHR ''-'' (strip_prefix VERSION_PREFIX version0);
          (major, minor, patch0) = read_dot3 version;
          patch = strip_longest_from CHR ''+'' (strip_longest_from CHR ''-'' patch0);
          out = (\<lambda>ma mi pa. ma @ ''.'' @ mi @ ''.'' @ pa)
      in if increment_type = ''major'' then
           (case arith_succ major of Inl e \<Rightarrow> Inl e | Inr m \<Rightarrow> Inr (out m ''0'' ''0''))
         else if increment_type = ''minor'' then
           (case arith_succ minor of Inl e \<Rightarrow> Inl e | Inr m \<Rightarrow> Inr (out major m ''0''))
         else if increment_type = ''patch'' then
           (case arith_succ patch of Inl e \<Rightarrow> Inl e | Inr p \<Rightarrow> Inr (out major minor p))
         else Inr (out major minor patch))"

text \<open>A version triple written out as \<^verbatim>\<open>major.minor.patch\<close> in decimal.\<close>

definition render_version :: "nat \<times> nat \<times> nat \<Rightarrow> string" where
  "render_version v = (case v of (ma, mi, pa) \<Rightarrow> show_nat ma @ ''.'' @ show_nat mi @ ''.'' @ show_nat pa)"

section \<open>deploy.sh: the latest tag of an environment\<close>

text \<open>
  \<^verbatim>\<open>git tag -l "${VERSION_PREFIX}*-dev"\<close>: a shell wildcard on the whole tag name, the prefix,
  anything, and the given ending.
\<close>

definition ends_with :: "string \<Rightarrow> string \<Rightarrow> bool" where
  "ends_with suf s = (length suf \<le> length s \<and> drop (length s - length suf) s = suf)"

definition tag_glob :: "string \<Rightarrow> string \<Rightarrow> bool" where
  "tag_glob suf t =
     (take (length VERSION_PREFIX) t = VERSION_PREFIX \<and> ends_with suf (drop (length VERSION_PREFIX) t))"

text \<open>
  The extended regular expression \<^verbatim>\<open>^[0-9]+\.[0-9]+\.[0-9]+$\<close>: three non-empty digit
  strings with a dot between them, and nothing else. The production branch of
  \<^verbatim>\<open>get_latest_version\<close> greps for it behind the prefix; \<^verbatim>\<open>main\<close> tests a custom version
  against it.
\<close>

definition digits1 :: "string \<Rightarrow> bool" where
  "digits1 s = (s \<noteq> [] \<and> list_all isdigit s)"

definition match_xyz :: "string \<Rightarrow> bool" where
  "match_xyz s = (case read_dot3 s of (a, b, c) \<Rightarrow> digits1 a \<and> digits1 b \<and> digits1 c)"

definition grep_production :: "string \<Rightarrow> bool" where
  "grep_production t =
     (take (length VERSION_PREFIX) t = VERSION_PREFIX \<and> match_xyz (drop (length VERSION_PREFIX) t))"

text \<open>
  \<^verbatim>\<open>sort -V\<close>, the version sort of GNU coreutils. Two lines are compared by the version
  comparison of Debian (\<^verbatim>\<open>verrevcmp\<close>): alternately a stretch of non-digits, compared
  character by character in the order \<open>~\<close>, end of string, digits, letters, everything
  else; then a stretch of digits, compared as a number (leading zeros skipped, the longer
  number is the greater, equally long ones compare by their first different digit). Lines
  that compare equal are put in byte order. (The comparison first sets aside a file
  extension, a final stretch of \<^verbatim>\<open>.\<close> followed by a letter and alphanumerics. No line that
  reaches \<^verbatim>\<open>sort -V\<close> here has one: they end in \<^verbatim>\<open>-dev\<close> or \<^verbatim>\<open>-staging\<close>, or have a digit
  after each dot.)
\<close>

definition isalpha :: "char \<Rightarrow> bool" where
  "isalpha c = ((65 \<le> (of_char c :: nat) \<and> (of_char c :: nat) \<le> 90) \<or>
                (97 \<le> (of_char c :: nat) \<and> (of_char c :: nat) \<le> 122))"

definition order :: "string \<Rightarrow> int" where
  "order s = (case s of [] \<Rightarrow> - 1
              | c # _ \<Rightarrow> if isdigit c then 0
                         else if isalpha c then int (of_char c)
                         else if c = CHR ''~'' then - 2
                         else int (of_char c) + 256)"

definition at_digit :: "string \<Rightarrow> bool" where
  "at_digit s = (case s of [] \<Rightarrow> False | c # _ \<Rightarrow> isdigit c)"

definition at_nondigit :: "string \<Rightarrow> bool" where
  "at_nondigit s = (case s of [] \<Rightarrow> False | c # _ \<Rightarrow> \<not> isdigit c)"

fun digits_cmp :: "string \<Rightarrow> string \<Rightarrow> int \<Rightarrow> string \<times> string \<times> int" where
  "digits_cmp (x # xs) (y # ys) first_diff =
     (if isdigit x \<and> isdigit y
      then digits_cmp xs ys (if first_diff = 0 then int (of_char x) - int (of_char y) else first_diff)
      else (x # xs, y # ys, first_diff))"
| "digits_cmp xs ys first_diff = (xs, ys, first_diff)"

function verrevcmp :: "string \<Rightarrow> string \<Rightarrow> int" where
  "verrevcmp s1 s2 =
     (if s1 = [] \<and> s2 = [] then 0
      else if at_nondigit s1 \<or> at_nondigit s2 then
        (if order s1 \<noteq> order s2 then order s1 - order s2 else verrevcmp (tl s1) (tl s2))
      else
        (case digits_cmp (dropWhile (\<lambda>c. c = CHR ''0'') s1) (dropWhile (\<lambda>c. c = CHR ''0'') s2) 0 of
           (r1, r2, first_diff) \<Rightarrow>
             if at_digit r1 then 1
             else if at_digit r2 then - 1
             else if first_diff \<noteq> 0 then first_diff
             else verrevcmp r1 r2))"
  by pat_completeness auto
termination
proof (relation "measure (\<lambda>(s1, s2). length s1 + length s2)", goal_cases)
  case 1
  show ?case by simp
next
  case (2 s1 s2)
  then show ?case by (auto simp: at_nondigit_def split: list.splits)
next
  case (3 s1 s2 r1 y r2 first_diff)
  have shrink: "length r1 \<le> length a \<and> length r2 \<le> length b \<and>
      (at_digit a \<and> at_digit b \<longrightarrow> length r1 < length a \<and> length r2 < length b) \<and>
      (\<not> (at_digit a \<and> at_digit b) \<longrightarrow> r1 = a \<and> r2 = b)"
    if "digits_cmp a b d = (r1, r2, d')" for a b d r1 r2 d'
    using that
  proof (induction a b d rule: digits_cmp.induct)
    case (1 x xs y ys first_diff)
    then show ?case
      by (fastforce simp: at_digit_def split: if_splits)
  qed (auto simp: at_digit_def)
  let ?a = "dropWhile (\<lambda>c. c = CHR ''0'') s1" and ?b = "dropWhile (\<lambda>c. c = CHR ''0'') s2"
  from 3 have dc: "digits_cmp ?a ?b 0 = (r1, r2, first_diff)" by (metis (full_types))
  have la: "length ?a \<le> length s1" and lb: "length ?b \<le> length s2"
    by (simp_all add: length_dropWhile_le)
  from 3 have nd: "\<not> at_digit r1" "\<not> at_digit r2" by simp_all
  from 3 have start: "at_digit s1 \<or> at_digit s2"
    by (auto simp: at_digit_def at_nondigit_def split: list.splits)
  have zero: "isdigit (CHR ''0'')" by (simp add: isdigit_def)
  have "length r1 + length r2 < length s1 + length s2"
  proof (cases "at_digit ?a \<and> at_digit ?b")
    case True
    with shrink [OF dc] la lb show ?thesis by linarith
  next
    case False
    with shrink [OF dc] have eq: "r1 = ?a" "r2 = ?b" by simp_all
    from start show ?thesis
    proof
      assume "at_digit s1"
      with nd(1) eq(1) have "?a \<noteq> s1" by auto
      then have "length ?a < length s1"
        by (metis takeWhile_dropWhile_id length_append self_append_conv2 length_greater_0_conv
            less_add_same_cancel2)
      with eq lb show ?thesis by simp
    next
      assume "at_digit s2"
      with nd(2) eq(2) have "?b \<noteq> s2" by auto
      then have "length ?b < length s2"
        by (metis takeWhile_dropWhile_id length_append self_append_conv2 length_greater_0_conv
            less_add_same_cancel2)
      with eq la show ?thesis by simp
    qed
  qed
  then show ?case by simp
qed

declare verrevcmp.simps [simp del]

definition version_le :: "string \<Rightarrow> string \<Rightarrow> bool" where
  "version_le a b = (verrevcmp a b < 0 \<or> (verrevcmp a b = 0 \<and> a \<le> b))"

fun insert_V :: "string \<Rightarrow> string list \<Rightarrow> string list" where
  "insert_V x [] = [x]"
| "insert_V x (y # ys) = (if version_le x y then x # y # ys else y # insert_V x ys)"

definition sort_V :: "string list \<Rightarrow> string list" where
  "sort_V xs = foldr insert_V xs []"

text \<open>\<^verbatim>\<open>tail -n 1\<close> into a variable: the last line, or the empty string when there is none.\<close>

definition tail_1 :: "string list \<Rightarrow> string" where
  "tail_1 xs = (if xs = [] then [] else last xs)"

text \<open>
  \<^verbatim>\<open>get_latest_version\<close>, given the environment word and the tag names of the repository
  (what \<^verbatim>\<open>git tag -l\<close> lists). \<open>env_tags\<close> is the listing that goes into \<^verbatim>\<open>sort -V\<close>:
  for production the tags matching \<^verbatim>\<open>v*\<close> that pass the \<^verbatim>\<open>grep\<close>, for staging those
  matching \<^verbatim>\<open>v*-staging\<close>, for any other word those matching \<^verbatim>\<open>v*-dev\<close>.
\<close>

definition env_tags :: "string \<Rightarrow> string list \<Rightarrow> string list" where
  "env_tags env tags =
     (if env = ''production'' \<or> env = ''prod'' then filter grep_production (filter (tag_glob []) tags)
      else if env = ''staging'' then filter (tag_glob ''-staging'') tags
      else filter (tag_glob ''-dev'') tags)"

definition get_latest_version :: "string \<Rightarrow> string list \<Rightarrow> string" where
  "get_latest_version env tags =
     (let latest_tag = tail_1 (sort_V (env_tags env tags))
      in if latest_tag = [] then VERSION_PREFIX @ ''0.0.0'' else latest_tag)"

section \<open>The repository, the operator and the exits of a script\<close>

text \<open>
  An annotated tag points at a commit and carries a message. The repository has the tags
  of the working copy and those of the remote \<^verbatim>\<open>origin\<close>, each a list of names with their
  tag objects (read as a map, the first entry of a name counts). \<open>git_log\<close> records the
  git commands that changed something, in the order the script ran them. Commits are
  opaque numbers.
\<close>

record tag_obj =
  tag_commit :: nat
  tag_message :: string

datatype git_cmd =
    Tag_create string nat string
  | Tag_force string nat string
  | Tag_delete string
  | Push_tag string
  | Push_force string
  | Push_delete string
  | Commit_bump string
  | Push_branch string

text \<open>
  The world a script runs in: the repository, the working tree (whether
  \<^verbatim>\<open>git status --porcelain\<close> prints anything, the current branch, the version in
  \<^verbatim>\<open>package.json\<close> if the file is there), the standard input, and the messages printed
  so far (without colours and pictograms; of the decoration only what the properties
  below speak of is kept). \<open>revisions\<close> are the names other than tags that git resolves
  to a commit: branches, \<^verbatim>\<open>HEAD\<close>, commit ids and the like. The standard input is the
  sequence of characters the operator will type, line ends included; every \<^verbatim>\<open>read\<close>
  takes its share from the front.
\<close>

record world =
  head_commit :: nat
  local_tags :: "(string \<times> tag_obj) list"
  remote_tags :: "(string \<times> tag_obj) list"
  revisions :: "(string \<times> nat) list"
  git_log :: "git_cmd list"
  dirty :: bool
  current_branch :: string
  package_json :: "string option"
  stdin :: string
  stdout :: "string list"

text \<open>A workflow run as \<^verbatim>\<open>gh run list --json databaseId,status,headBranch\<close> reports it.\<close>

record run =
  databaseId :: nat
  run_status :: string
  headBranch :: string

text \<open>
  What \<^verbatim>\<open>gh run view <id> --json status,conclusion\<close> gives: the command fails
  (\<open>View_error n\<close> stands for the exit status \<open>n + 1\<close>), or it reports the status of the
  run and its conclusion, as \<^verbatim>\<open>jq -r\<close> prints them. A run that has not finished has the
  status \<^verbatim>\<open>queued\<close> or \<^verbatim>\<open>in_progress\<close> and an empty conclusion; a finished run has
  the status \<^verbatim>\<open>completed\<close> and a conclusion such as \<^verbatim>\<open>success\<close>, \<^verbatim>\<open>failure\<close> or
  \<^verbatim>\<open>cancelled\<close>.
\<close>

datatype view = View_error nat | View string string

text \<open>
  The configuration of \<^verbatim>\<open>.deploy.config\<close> and what the scripts read from their
  surroundings and do not change: whether the \<^verbatim>\<open>gh\<close> tool is installed, the repository
  path it reports, the answer to the \<open>k\<close>-th \<^verbatim>\<open>gh run list\<close> query, the answer to the
  \<open>k\<close>-th \<^verbatim>\<open>gh run view\<close> query for a run, whether \<^verbatim>\<open>rollback.sh\<close> lies beside
  \<^verbatim>\<open>deploy.sh\<close>, the git user name and the clock (\<^verbatim>\<open>date +%s\<close>).
\<close>

record config =
  SERVICE_NAME :: string
  DEPLOY_BRANCHES :: "string list"
  ENABLE_HOTFIX :: bool
  ENABLE_PREVIEW :: bool
  MONITOR_DEPLOYMENT :: bool
  DEPLOY_TYPE :: string
  gh_installed :: bool
  github_repo :: string
  gh_run_list :: "nat \<Rightarrow> run list"
  gh_run_view :: "nat \<Rightarrow> nat \<Rightarrow> view"
  rollback_sh :: bool
  user_name :: string
  date_s :: nat

text \<open>
  How a stretch of a script ends: the script exits with a status (\<^verbatim>\<open>exit n\<close>, or
  \<^verbatim>\<open>set -e\<close> after a failed command), it replaces itself by \<^verbatim>\<open>rollback.sh\<close> with
  arguments (\<^verbatim>\<open>exec\<close>), or it goes on with a value.
\<close>

datatype 'a step = Exit nat world | Exec_rollback "string list" world | Next 'a world

fun then_step :: "'a step \<Rightarrow> ('a \<Rightarrow> world \<Rightarrow> 'b step) \<Rightarrow> 'b step" where
  "then_step (Exit c w) f = Exit c w"
| "then_step (Exec_rollback a w) f = Exec_rollback a w"
| "then_step (Next x w) f = f x w"

fun final_world :: "'a step \<Rightarrow> world" where
  "final_world (Exit c w) = w"
| "final_world (Exec_rollback a w) = w"
| "final_world (Next x w) = w"

definition say :: "string list \<Rightarrow> world \<Rightarrow> world" where
  "say ls w = w\<lparr>stdout := stdout w @ ls\<rparr>"

subsection \<open>The \<^verbatim>\<open>read\<close> of bash\<close>

text \<open>
  \<^verbatim>\<open>read variable\<close>, as bash does it (the scripts never pass \<^verbatim>\<open>-r\<close> to it, and
  \<^verbatim>\<open>IFS\<close> is blank, tab and newline). The shell takes characters up to the end of the
  line. A backslash takes the next character literally, and a backslash at the end of a
  line joins the next line to it. The shell keeps the line in a buffer in which a
  character taken literally follows the mark \<open>CTLESC\<close>; so do the two characters the
  shell uses as marks itself. NUL characters are dropped, but a NUL after a backslash
  ends the buffer. \<open>read_encode\<close> gives whether a whole line was there, the buffer, and
  what is left of the input.
\<close>

definition newline :: char where
  "newline = CHR 0x0A"

definition backslash :: char where
  "backslash = CHR 0x5C"

definition NUL :: char where
  "NUL = CHR 0x00"

definition CTLESC :: char where
  "CTLESC = CHR 0x01"

definition CTLNUL :: char where
  "CTLNUL = CHR 0x7F"

definition ifs_blank :: "char \<Rightarrow> bool" where
  "ifs_blank c = (c = CHR '' '' \<or> c = CHR 0x09 \<or> c = newline)"

fun read_encode :: "string \<Rightarrow> string \<Rightarrow> bool \<times> string \<times> string" where
  "read_encode [] acc = (False, rev acc, [])"
| "read_encode (c # cs) acc =
     (if c = backslash then
        (case cs of
           [] \<Rightarrow> (False, rev (CTLESC # acc), [])
         | d # ds \<Rightarrow> if d = newline then read_encode ds acc else read_encode ds (d # CTLESC # acc))
      else if c = newline then (True, rev acc, cs)
      else if c = NUL then read_encode cs acc
      else if c = CTLESC \<or> c = CTLNUL then read_encode cs (c # CTLESC # acc)
      else read_encode cs (c # acc))"

text \<open>
  The value of the variable. Blanks at the front of the buffer go. If the buffer then
  holds one word only (\<open>word_end\<close> is where the first word ends, a marked character
  never ends it), the variable gets the word; otherwise it gets the buffer without the
  blanks at its end, marked ones included. At last the marks are taken out.
\<close>

fun word_end :: "string \<Rightarrow> nat" where
  "word_end [] = 0"
| "word_end (c # cs) =
     (if c = CTLESC then (case cs of [] \<Rightarrow> 1 | d # ds \<Rightarrow> 2 + word_end ds)
      else if ifs_blank c then 0
      else 1 + word_end cs)"

fun strip_to :: "string \<Rightarrow> nat \<Rightarrow> nat" where
  "strip_to t 0 = 0"
| "strip_to t (Suc k) =
     (if ifs_blank (t ! Suc k) \<or>
         (t ! Suc k = CTLESC \<and> Suc (Suc k) < length t \<and> ifs_blank (t ! Suc (Suc k)))
      then strip_to t k
      else Suc k)"

definition strip_trailing_ifs_whitespace :: "string \<Rightarrow> string" where
  "strip_trailing_ifs_whitespace t = take (Suc (strip_to t (length t - 1))) t"

fun unquote :: "string \<Rightarrow> string" where
  "unquote [] = []"
| "unquote (c # cs) =
     (if c = CTLESC then (case cs of [] \<Rightarrow> [] | d # ds \<Rightarrow> d # unquote ds)
      else c # unquote cs)"

definition dequote_string :: "string \<Rightarrow> string" where
  "dequote_string s = (if s = [CTLNUL] then [] else if s = [CTLESC] then [CTLESC] else unquote s)"

definition read_value :: "string \<Rightarrow> string" where
  "read_value buffer =
     (let t = dropWhile ifs_blank (takeWhile (\<lambda>c. c \<noteq> NUL) buffer) in
      if t = [] then []
      else
        (let i = word_end t;
             further = dropWhile ifs_blank (drop (Suc i) t)
         in dequote_string (if further = [] then take i t else strip_trailing_ifs_whitespace t)))"

definition read_line :: "string \<Rightarrow> bool \<times> string \<times> string" where
  "read_line input = (case read_encode input [] of (whole, buffer, rest) \<Rightarrow> (whole, read_value buffer, rest))"

text \<open>
  \<^verbatim>\<open>read -n 1 -r\<close> takes one character, which stays in \<^verbatim>\<open>REPLY\<close> unless it is the end
  of a line; the rest of the line is left to the next \<^verbatim>\<open>read\<close>.
\<close>

fun read_n1 :: "string \<Rightarrow> bool \<times> string \<times> string" where
  "read_n1 [] = (False, [], [])"
| "read_n1 (c # cs) =
     (if c = NUL then read_n1 cs
      else if c = newline then (True, [], cs)
      else (True, [c], cs))"

text \<open>
  A \<^verbatim>\<open>read\<close> that finds the input at its end fails, and \<^verbatim>\<open>set -e\<close> ends the script
  with status 1. \<open>read_var\<close> is \<^verbatim>\<open>read variable\<close>, \<open>read_reply\<close> is \<^verbatim>\<open>read -n 1 -r\<close>.
  The reply counts as yes when it matches \<^verbatim>\<open>^[Yy]$\<close>.
\<close>

definition read_var :: "world \<Rightarrow> (string \<Rightarrow> world \<Rightarrow> 'a step) \<Rightarrow> 'a step" where
  "read_var w f =
     (case read_line (stdin w) of (whole, v, rest) \<Rightarrow>
        if whole then f v (w\<lparr>stdin := rest\<rparr>) else Exit 1 (w\<lparr>stdin := rest\<rparr>))"

definition read_reply :: "world \<Rightarrow> (string \<Rightarrow> world \<Rightarrow> 'a step) \<Rightarrow> 'a step" where
  "read_reply w f =
     (case read_n1 (stdin w) of (got, reply, rest) \<Rightarrow>
        if got then f reply (w\<lparr>stdin := rest\<rparr>) else Exit 1 (w\<lparr>stdin := rest\<rparr>))"

definition is_yes :: "string \<Rightarrow> bool" where
  "is_yes reply = (reply = ''y'' \<or> reply = ''Y'')"

subsection \<open>git commands on tags\<close>

text \<open>\<^verbatim>\<open>git tag -l\<close> lists the tag names in byte order.\<close>

definition git_tag_l :: "world \<Rightarrow> string list" where
  "git_tag_l w = sort (remdups (map fst (local_tags w)))"

text \<open>
  \<^verbatim>\<open>git rev-parse "$name"\<close> and \<^verbatim>\<open>git rev-list -n 1 "$name"\<close>: the commit that git
  resolves the name to, if any. A tag of the name comes first, then the other revisions.
\<close>

definition git_rev_parse :: "string \<Rightarrow> world \<Rightarrow> nat option" where
  "git_rev_parse name w =
     (case map_of (local_tags w) name of
        Some obj \<Rightarrow> Some (tag_commit obj)
      | None \<Rightarrow> map_of (revisions w) name)"

text \<open>\<^verbatim>\<open>git tag -d "$tag" 2>/dev/null || true\<close> and \<^verbatim>\<open>git push origin :refs/tags/"$tag" 2>/dev/null || true\<close>.\<close>

definition git_tag_d :: "string \<Rightarrow> world \<Rightarrow> world" where
  "git_tag_d t w =
     (if map_of (local_tags w) t = None then w
      else w\<lparr>local_tags := filter (\<lambda>p. fst p \<noteq> t) (local_tags w), git_log := git_log w @ [Tag_delete t]\<rparr>)"

definition git_push_delete :: "string \<Rightarrow> world \<Rightarrow> world" where
  "git_push_delete t w =
     (if map_of (remote_tags w) t = None then w
      else w\<lparr>remote_tags := filter (\<lambda>p. fst p \<noteq> t) (remote_tags w), git_log := git_log w @ [Push_delete t]\<rparr>)"

text \<open>\<^verbatim>\<open>git tag -a "$tag" -m "$message" -f\<close> puts the tag on the current commit, whether it exists or not.\<close>

definition git_tag_a_f :: "string \<Rightarrow> string \<Rightarrow> world \<Rightarrow> world" where
  "git_tag_a_f t msg w =
     w\<lparr>local_tags := filter (\<lambda>p. fst p \<noteq> t) (local_tags w) @ [(t, \<lparr>tag_commit = head_commit w, tag_message = msg\<rparr>)],
       git_log := git_log w @ [Tag_force t (head_commit w) msg]\<rparr>"

text \<open>
  \<^verbatim>\<open>git tag -a "$tag" [commit] -m "$message"\<close> fails when the name is empty or a tag of
  that name exists (\<open>None\<close>).
\<close>

definition git_tag_a :: "string \<Rightarrow> nat \<Rightarrow> string \<Rightarrow> world \<Rightarrow> world option" where
  "git_tag_a t c msg w =
     (if t = [] \<or> map_of (local_tags w) t \<noteq> None then None
      else Some (w\<lparr>local_tags := local_tags w @ [(t, \<lparr>tag_commit = c, tag_message = msg\<rparr>)],
                  git_log := git_log w @ [Tag_create t c msg]\<rparr>))"

text \<open>
  \<^verbatim>\<open>git push origin "$tag"\<close> fails when there is no such local tag, or when the remote has
  another tag object under the name; \<^verbatim>\<open>git push origin "$tag" -f\<close> overwrites it.
\<close>

definition git_push :: "string \<Rightarrow> world \<Rightarrow> world option" where
  "git_push t w =
     (case map_of (local_tags w) t of
        None \<Rightarrow> None
      | Some obj \<Rightarrow>
          (case map_of (remote_tags w) t of
             None \<Rightarrow> Some (w\<lparr>remote_tags := remote_tags w @ [(t, obj)], git_log := git_log w @ [Push_tag t]\<rparr>)
           | Some obj' \<Rightarrow> if obj' = obj then Some w else None))"

definition git_push_f :: "string \<Rightarrow> world \<Rightarrow> world option" where
  "git_push_f t w =
     (case map_of (local_tags w) t of
        None \<Rightarrow> None
      | Some obj \<Rightarrow>
          Some (w\<lparr>remote_tags := filter (\<lambda>p. fst p \<noteq> t) (remote_tags w) @ [(t, obj)],
                  git_log := git_log w @ [Push_force t]\<rparr>))"

section \<open>deploy.sh: monitoring, deploying, main\<close>

text \<open>
  \<^verbatim>\<open>monitor_github_actions\<close>. Up to ten times the script lists the five latest runs and
  takes the first whose head branch is the tag, as \<^verbatim>\<open>refs/tags/<tag>\<close> or bare. Without
  one it prints where to look and returns. With one it watches the run
  (\<^verbatim>\<open>gh run watch ... || true\<close>: the watch may end before the run does, and its failure
  is ignored), then asks for the run once more. If that query fails, \<^verbatim>\<open>set -e\<close> ends the
  script with the status of \<^verbatim>\<open>gh\<close>. Otherwise the conclusion decides: \<^verbatim>\<open>success\<close> is
  reported, anything else, the empty conclusion of an unfinished run included, is
  reported as a failure and ends the script with status 1.
\<close>

definition run_matches :: "string \<Rightarrow> run \<Rightarrow> bool" where
  "run_matches tag r = (headBranch r = ''refs/tags/'' @ tag \<or> headBranch r = tag)"

function await_start :: "(nat \<Rightarrow> run list) \<Rightarrow> string \<Rightarrow> nat \<Rightarrow> run option" where
  "await_start runs tag check_count =
     (if check_count < 10 then
        (case find (run_matches tag) (take 5 (runs (check_count + 1))) of
           Some r \<Rightarrow> Some r
         | None \<Rightarrow> await_start runs tag (check_count + 1))
      else None)"
  by pat_completeness auto
termination
  by (relation "measure (\<lambda>(runs, tag, check_count). 10 - check_count)") auto

declare await_start.simps [simp del]

definition actions_url :: "config \<Rightarrow> string" where
  "actions_url cfg = ''https://github.com/'' @ github_repo cfg @ ''/actions''"

definition monitor_github_actions :: "config \<Rightarrow> string \<Rightarrow> world \<Rightarrow> unit step" where
  "monitor_github_actions cfg tag w =
     (case await_start (gh_run_list cfg) tag 0 of
        None \<Rightarrow>
          Next () (say [''Workflow not found yet. You can monitor manually at:'',
                        ''   '' @ actions_url cfg] w)
      | Some r \<Rightarrow>
          (case gh_run_view cfg (databaseId r) 1 of
             View_error n \<Rightarrow> Exit (Suc n) w
           | View workflow_status workflow_conclusion \<Rightarrow>
               if workflow_conclusion = ''success'' then
                 Next () (say [''Deployment completed successfully!'',
                               ''   View run: '' @ actions_url cfg @ ''/runs/'' @ show_nat (databaseId r)] w)
               else
                 Exit 1 (say [''Deployment failed with status: '' @ workflow_conclusion,
                              ''   View logs: '' @ actions_url cfg @ ''/runs/'' @ show_nat (databaseId r)] w)))"

text \<open>The tag that \<^verbatim>\<open>deploy_version\<close> builds from the version and the environment.\<close>

definition deploy_tag :: "string \<Rightarrow> string \<Rightarrow> string" where
  "deploy_tag version env =
     (let tag = VERSION_PREFIX @ version in
      if env = ''staging'' then tag @ ''-staging''
      else if env \<noteq> ''production'' \<and> env \<noteq> ''prod'' then tag @ ''-dev''
      else tag)"

text \<open>The end of \<^verbatim>\<open>deploy_version\<close>: the report, and the monitoring when it is on and \<^verbatim>\<open>gh\<close> is there.\<close>

definition deploy_report :: "config \<Rightarrow> bool \<Rightarrow> string \<Rightarrow> world \<Rightarrow> unit step" where
  "deploy_report cfg monitor tag w =
     (let w1 = say [''Deployment initiated successfully!'', ''   Tag: '' @ tag] w in
      if monitor \<and> gh_installed cfg then monitor_github_actions cfg tag w1
      else Next () (say [''Monitor deployment:'', ''   GitHub Actions: '' @ actions_url cfg] w1))"

text \<open>The three resolutions \<^verbatim>\<open>deploy_version\<close> prints when the tag exists.\<close>

definition collision_options :: "string list" where
  "collision_options =
     [''  1) Force rebuild with same version (redeploy)'',
      ''  2) Choose a different version'',
      ''  3) Cancel'']"

text \<open>
  \<^verbatim>\<open>deploy_version\<close>. With \<open>rebuild\<close> the tag is deleted here and on the remote (failures
  ignored), made anew on the current commit and pushed with force. Otherwise, when git
  resolves the name of the tag (\<^verbatim>\<open>git rev-parse "$tag"\<close>), the script prints the three
  resolutions and reads the choice: 1 runs the rebuild, 2 and 3 end the script, and any
  other answer falls through to \<^verbatim>\<open>git tag -a\<close>, which fails on an existing tag and ends
  the script (status 128). A failed push ends it too.
\<close>

function deploy_version :: "config \<Rightarrow> bool \<Rightarrow> string \<Rightarrow> string \<Rightarrow> string \<Rightarrow> bool \<Rightarrow> world \<Rightarrow> unit step" where
  "deploy_version cfg monitor version env message0 rebuild w =
     (let tag = deploy_tag version env in
      if rebuild then
        (let message1 = (if message0 = [] then ''Rebuild '' @ SERVICE_NAME cfg @ '' '' @ version @ '' for '' @ env
                         else message0);
             w1 = git_tag_a_f tag message1 (git_push_delete tag (git_tag_d tag w))
         in case git_push_f tag w1 of
              None \<Rightarrow> Exit 1 w1
            | Some w2 \<Rightarrow> deploy_report cfg monitor tag w2)
      else
        (let message1 = (if message0 = [] then ''Deploy '' @ SERVICE_NAME cfg @ '' '' @ version @ '' to '' @ env
                         else message0);
             create = (\<lambda>w0. case git_tag_a tag (head_commit w0) message1 w0 of
                         None \<Rightarrow> Exit 128 w0
                       | Some w1 \<Rightarrow>
                           (case git_push tag w1 of
                              None \<Rightarrow> Exit 1 w1
                            | Some w2 \<Rightarrow> deploy_report cfg monitor tag w2))
         in if git_rev_parse tag w \<noteq> None then
              read_var (say ((''Tag '' @ tag @ '' already exists'') # ''Options:'' # collision_options) w)
                (\<lambda>choice w0.
                   if choice = ''1'' then deploy_version cfg monitor version env message1 True w0
                   else if choice = ''2'' then
                     Exit 0 (say [''Please run the script again with a different version''] w0)
                   else if choice = ''3'' then Exit 1 (say [''Deployment cancelled''] w0)
                   else create w0)
            else create w))"
  by pat_completeness auto
termination
  by (relation "measure (\<lambda>(cfg, monitor, version, env, message0, rebuild, w). if rebuild then 0 else 1)") auto

declare deploy_version.simps [simp del]

text \<open>The variables \<^verbatim>\<open>main\<close> fills from its arguments, and the version it settles on.\<close>

record options =
  opt_environment :: string
  opt_increment_type :: string
  opt_specific_version :: string
  opt_message :: string
  opt_preview_mode :: bool
  opt_rebuild_mode :: bool
  opt_monitor :: bool
  opt_new_version :: string

definition initial_options :: "config \<Rightarrow> options" where
  "initial_options cfg =
     \<lparr>opt_environment = [], opt_increment_type = ''patch'', opt_specific_version = [],
      opt_message = [], opt_preview_mode = False, opt_rebuild_mode = False,
      opt_monitor = MONITOR_DEPLOYMENT cfg, opt_new_version = []\<rparr>"

text \<open>
  The argument loop of \<^verbatim>\<open>main\<close>: \<open>parse_arg\<close> is one round of its \<^verbatim>\<open>case\<close>, giving
  the variables as set and the number of further arguments taken (\<^verbatim>\<open>shift\<close> or
  \<^verbatim>\<open>shift 2\<close>). \<^verbatim>\<open>--version\<close> and \<^verbatim>\<open>--message\<close> take the next argument as it is
  (\<^verbatim>\<open>shift 2\<close> fails without one); \<^verbatim>\<open>rollback\<close> hands all that is left of the
  arguments, itself included, over to \<^verbatim>\<open>rollback.sh\<close>.
\<close>

definition parse_arg :: "config \<Rightarrow> string \<Rightarrow> string list \<Rightarrow> options \<Rightarrow> world \<Rightarrow> (options \<times> nat) step" where
  "parse_arg cfg a rest opts w =
     (if a = ''dev'' \<or> a = ''development'' then Next (opts\<lparr>opt_environment := ''development''\<rparr>, 0) w
      else if a = ''staging'' then Next (opts\<lparr>opt_environment := ''staging''\<rparr>, 0) w
      else if a = ''prod'' \<or> a = ''production'' then Next (opts\<lparr>opt_environment := ''production''\<rparr>, 0) w
      else if a = ''hotfix'' then Next (opts\<lparr>opt_environment := ''hotfix''\<rparr>, 0) w
      else if a = ''rollback'' then
        (if rollback_sh cfg then Exec_rollback (a # rest) w
         else Exit 1 (say [''Rollback script not found''] w))
      else if a = ''--major'' then Next (opts\<lparr>opt_increment_type := ''major''\<rparr>, 0) w
      else if a = ''--minor'' then Next (opts\<lparr>opt_increment_type := ''minor''\<rparr>, 0) w
      else if a = ''--patch'' then Next (opts\<lparr>opt_increment_type := ''patch''\<rparr>, 0) w
      else if a = ''--version'' then
        (case rest of [] \<Rightarrow> Exit 1 w
         | v # rest' \<Rightarrow> Next (opts\<lparr>opt_specific_version := v\<rparr>, 1) w)
      else if a = ''--rebuild'' then Next (opts\<lparr>opt_rebuild_mode := True\<rparr>, 0) w
      else if a = ''--message'' then
        (case rest of [] \<Rightarrow> Exit 1 w
         | m # rest' \<Rightarrow> Next (opts\<lparr>opt_message := m\<rparr>, 1) w)
      else if a = ''--preview'' then Next (opts\<lparr>opt_preview_mode := True\<rparr>, 0) w
      else if a = ''--no-monitor'' then Next (opts\<lparr>opt_monitor := False\<rparr>, 0) w
      else if a = ''--help'' then Exit 0 w
      else Exit 1 (say [''Unknown option: '' @ a] w))"

fun parse_args :: "config \<Rightarrow> string list \<Rightarrow> options \<Rightarrow> world \<Rightarrow> options step" where
  "parse_args cfg [] opts w = Next opts w"
| "parse_args cfg (a # rest) opts w =
     (case parse_arg cfg a rest opts w of
        Exit c w' \<Rightarrow> Exit c w'
      | Exec_rollback args w' \<Rightarrow> Exec_rollback args w'
      | Next (opts', extra) w' \<Rightarrow> parse_args cfg (drop extra rest) opts' w')"

text \<open>
  The interactive choice of the action when no environment was given, the shortcuts
  \<^verbatim>\<open>dev\<close> and \<^verbatim>\<open>prod\<close>, and the hotfix, a production deployment with a patch increment.
\<close>

definition select_action :: "config \<Rightarrow> options \<Rightarrow> world \<Rightarrow> options step" where
  "select_action cfg opts w =
     (if opt_environment opts = [] then
        read_var w (\<lambda>choice w0.
          if choice = ''1'' then Next (opts\<lparr>opt_environment := ''development''\<rparr>) w0
          else if choice = ''2'' then Next (opts\<lparr>opt_environment := ''staging''\<rparr>) w0
          else if choice = ''3'' then Next (opts\<lparr>opt_environment := ''production''\<rparr>) w0
          else if choice = ''4'' then
            (if rollback_sh cfg then Exec_rollback [] w0
             else Exit 1 (say [''Rollback script not found''] w0))
          else if choice = ''5'' then Exit 0 (say [''Operation cancelled''] w0)
          else Exit 1 (say [''Invalid choice''] w0))
      else Next opts w)"

definition convert_environment :: "config \<Rightarrow> options \<Rightarrow> world \<Rightarrow> options step" where
  "convert_environment cfg opts0 w =
     (let opts = (if opt_environment opts0 = ''development'' then opts0\<lparr>opt_environment := ''dev''\<rparr>
                  else if opt_environment opts0 = ''production'' then opts0\<lparr>opt_environment := ''prod''\<rparr>
                  else opts0)
      in if opt_environment opts = ''hotfix'' then
           (if \<not> ENABLE_HOTFIX cfg then
              Exit 1 (say [''Hotfix deployments are disabled for this service''] w)
            else Next (opts\<lparr>opt_environment := ''production'', opt_increment_type := ''patch'',
                            opt_message := (if opt_message opts = [] then ''Hotfix deployment''
                                            else opt_message opts)\<rparr>) w)
         else Next opts w)"

definition is_prod :: "string \<Rightarrow> bool" where
  "is_prod env = (env = ''prod'' \<or> env = ''production'')"

text \<open>The warnings for uncommitted changes and, for production, for another branch than the deploy branches.\<close>

definition check_git_status :: "options \<Rightarrow> world \<Rightarrow> options step" where
  "check_git_status opts w =
     (if dirty w then
        read_reply (say [''Warning: You have uncommitted changes''] w) (\<lambda>reply w0.
          if \<not> is_yes reply then Exit 1 (say [''Deployment cancelled''] w0) else Next opts w0)
      else Next opts w)"

definition check_branch :: "config \<Rightarrow> options \<Rightarrow> world \<Rightarrow> options step" where
  "check_branch cfg opts w =
     (if is_prod (opt_environment opts) \<and> current_branch w \<notin> set (DEPLOY_BRANCHES cfg) then
        read_reply (say [''Warning: Production deployment from branch '' @ current_branch w] w) (\<lambda>reply w0.
          if \<not> is_yes reply then Exit 1 (say [''Deployment cancelled''] w0) else Next opts w0)
      else Next opts w)"

text \<open>
  The version: the one of the latest tag for a rebuild, the one given with
  \<^verbatim>\<open>--version\<close>, or the operator's choice from the menu (the increments, a custom
  version tested against \<^verbatim>\<open>^[0-9]+\.[0-9]+\.[0-9]+$\<close>, a rebuild, or giving up). The
  tags are those of the working copy after \<^verbatim>\<open>git fetch --tags\<close>.
\<close>

definition tag_version :: "string \<Rightarrow> string" where
  "tag_version latest_tag = strip_shortest_from CHR ''-'' (strip_prefix VERSION_PREFIX latest_tag)"

definition choose_increment :: "options \<Rightarrow> string \<Rightarrow> string \<Rightarrow> world \<Rightarrow> options step" where
  "choose_increment opts current_version kind w =
     (case increment_version current_version kind of
        Inl e \<Rightarrow> Exit 1 w
      | Inr v \<Rightarrow> Next (opts\<lparr>opt_new_version := v\<rparr>) w)"

definition determine_version :: "options \<Rightarrow> world \<Rightarrow> options step" where
  "determine_version opts w =
     (let latest_tag = get_latest_version (opt_environment opts) (git_tag_l w) in
      if opt_rebuild_mode opts then Next (opts\<lparr>opt_new_version := tag_version latest_tag\<rparr>) w
      else if opt_specific_version opts \<noteq> [] then
        Next (opts\<lparr>opt_new_version := opt_specific_version opts\<rparr>) w
      else
        (let current_version = tag_version latest_tag in
         read_var w (\<lambda>version_choice w0.
           if version_choice = ''1'' then choose_increment opts current_version ''patch'' w0
           else if version_choice = ''2'' then choose_increment opts current_version ''minor'' w0
           else if version_choice = ''3'' then choose_increment opts current_version ''major'' w0
           else if version_choice = ''4'' then
             read_var w0 (\<lambda>new_version w1.
               if \<not> match_xyz new_version then
                 Exit 1 (say [''Invalid version format. Must be X.Y.Z''] w1)
               else Next (opts\<lparr>opt_new_version := new_version\<rparr>) w1)
           else if version_choice = ''5'' then
             Next (opts\<lparr>opt_rebuild_mode := True, opt_new_version := current_version\<rparr>) w0
           else if version_choice = ''6'' then Exit 0 (say [''Deployment cancelled''] w0)
           else Exit 1 (say [''Invalid choice''] w0))))"

text \<open>Everything \<^verbatim>\<open>main\<close> does before the production confirmation.\<close>

definition main_resolve :: "config \<Rightarrow> string list \<Rightarrow> world \<Rightarrow> options step" where
  "main_resolve cfg args w =
     then_step (then_step (then_step (then_step (then_step
       (parse_args cfg args (initial_options cfg) w)
       (select_action cfg))
       (convert_environment cfg))
       check_git_status)
       (check_branch cfg))
       determine_version"

text \<open>
  The production confirmation: what \<^verbatim>\<open>read\<close> makes of the operator's line has to be
  \<^verbatim>\<open>DEPLOY\<close> and the tag, or the script ends with status 1.
\<close>

definition confirm_production :: "options \<Rightarrow> world \<Rightarrow> options step" where
  "confirm_production opts w =
     (if is_prod (opt_environment opts) then
        (let confirm_tag = VERSION_PREFIX @ opt_new_version opts in
         read_var w (\<lambda>confirmation w0.
           if confirmation \<noteq> ''DEPLOY '' @ confirm_tag then
             Exit 1 (say [''Production deployment cancelled''] w0)
           else Next opts w0))
      else Next opts w)"

text \<open>The preview, with its question when previews are enabled.\<close>

definition preview :: "config \<Rightarrow> options \<Rightarrow> world \<Rightarrow> options step" where
  "preview cfg opts w =
     (if opt_preview_mode opts \<or> ENABLE_PREVIEW cfg then
        (let w1 = say [''Deployment Preview:'',
                       ''   Tag: '' @ deploy_tag (opt_new_version opts) (opt_environment opts)] w
         in if opt_preview_mode opts then Exit 0 (say [''Preview mode - no changes made''] w1)
            else read_reply w1 (\<lambda>reply w0.
                   if \<not> is_yes reply then Exit 1 (say [''Deployment cancelled''] w0) else Next opts w0))
      else Next opts w)"

text \<open>
  The version bump of \<^verbatim>\<open>package.json\<close>, committed and pushed to the branch (a failed
  push is ignored), unless this is a rebuild. The commit is a new one on top of the
  current.
\<close>

definition update_package_json :: "options \<Rightarrow> world \<Rightarrow> options step" where
  "update_package_json opts w =
     (case package_json w of
        None \<Rightarrow> Next opts w
      | Some current_pkg_version \<Rightarrow>
          if \<not> opt_rebuild_mode opts \<and> current_pkg_version \<noteq> opt_new_version opts then
            Next opts (w\<lparr>package_json := Some (opt_new_version opts),
                         head_commit := Suc (head_commit w),
                         git_log := git_log w @ [Commit_bump (opt_new_version opts),
                                                 Push_branch (current_branch w)]\<rparr>)
          else Next opts w)"

definition main_deploy :: "config \<Rightarrow> options \<Rightarrow> world \<Rightarrow> unit step" where
  "main_deploy cfg opts w =
     then_step (then_step (preview cfg opts w) update_package_json)
       (\<lambda>opts' w'. then_step
          (deploy_version cfg (opt_monitor opts') (opt_new_version opts') (opt_environment opts')
             (opt_message opts') (opt_rebuild_mode opts') w')
          (\<lambda>u w''. Exit 0 (say [''Deployment script completed!''] w'')))"

definition main :: "config \<Rightarrow> string list \<Rightarrow> world \<Rightarrow> unit step" where
  "main cfg args w =
     then_step (then_step (main_resolve cfg args w) confirm_production) (main_deploy cfg)"

section \<open>scripts/deploy.sh, version 2.0\<close>

text \<open>
  The repository holds an older \<^verbatim>\<open>deploy.sh\<close>, version 2.0, under \<^verbatim>\<open>scripts/\<close>. Its
  functions are embedded here under their names with the suffix \<open>_v2\<close>. It has no
  rebuild, no check for an existing tag, no typed confirmation and no interactive menus.

  \<^verbatim>\<open>get_latest_version\<close> of version 2.0 knows the word \<^verbatim>\<open>production\<close> only; for any other
  word it lists the tags matching \<^verbatim>\<open>v*-<word>\<close>. \<^verbatim>\<open>main\<close> passes \<^verbatim>\<open>dev\<close>, \<^verbatim>\<open>staging\<close>
  or \<^verbatim>\<open>production\<close>, words without a wildcard character, so that the word stands for
  itself in the pattern.
\<close>

definition env_tags_v2 :: "string \<Rightarrow> string list \<Rightarrow> string list" where
  "env_tags_v2 env tags =
     (if env = ''production'' then filter grep_production (filter (tag_glob []) tags)
      else filter (tag_glob (''-'' @ env)) tags)"

definition get_latest_version_v2 :: "string \<Rightarrow> string list \<Rightarrow> string" where
  "get_latest_version_v2 env tags =
     (let latest_tag = tail_1 (sort_V (env_tags_v2 env tags)) in
      if latest_tag = [] then VERSION_PREFIX @ ''0.0.0'' else latest_tag)"

text \<open>\<^verbatim>\<open>increment_version\<close> of version 2.0 leaves the patch as \<^verbatim>\<open>read\<close> gave it.\<close>

definition increment_version_v2 :: "string \<Rightarrow> string \<Rightarrow> error + string" where
  "increment_version_v2 version0 increment_type =
     (let version = strip_shortest_from CHR ''-'' (strip_prefix VERSION_PREFIX version0);
          (major, minor, patch) = read_dot3 version;
          out = (\<lambda>ma mi pa. ma @ ''.'' @ mi @ ''.'' @ pa)
      in if increment_type = ''major'' then
           (case arith_succ major of Inl e \<Rightarrow> Inl e | Inr m \<Rightarrow> Inr (out m ''0'' ''0''))
         else if increment_type = ''minor'' then
           (case arith_succ minor of Inl e \<Rightarrow> Inl e | Inr m \<Rightarrow> Inr (out major m ''0''))
         else if increment_type = ''patch'' then
           (case arith_succ patch of Inl e \<Rightarrow> Inl e | Inr p \<Rightarrow> Inr (out major minor p))
         else Inr (out major minor patch))"

text \<open>
  \<^verbatim>\<open>monitor_github_actions\<close> of version 2.0. The search for the run asks \<^verbatim>\<open>gh\<close> only
  when it is installed and accepts the head branch \<^verbatim>\<open>refs/tags/<tag>\<close> only. A run
  that was found is polled, up to sixty times: a failing query ends the script
  (\<^verbatim>\<open>set -e\<close>; the test of \<^verbatim>\<open>$?\<close> after it is never reached); a completed run is
  reported, and ends the script with status 1 unless its conclusion is \<^verbatim>\<open>success\<close>;
  after the sixtieth query the script prints that the time is up and returns.
\<close>

definition actions_url_v2 :: "config \<Rightarrow> string" where
  "actions_url_v2 cfg = ''https://github.com/karmadev/'' @ SERVICE_NAME cfg @ ''/actions''"

function await_start_v2 :: "config \<Rightarrow> string \<Rightarrow> nat \<Rightarrow> run option" where
  "await_start_v2 cfg tag check_count =
     (if check_count < 10 then
        (case (if gh_installed cfg
               then find (\<lambda>r. headBranch r = ''refs/tags/'' @ tag) (take 5 (gh_run_list cfg (check_count + 1)))
               else None) of
           Some r \<Rightarrow> Some r
         | None \<Rightarrow> await_start_v2 cfg tag (check_count + 1))
      else None)"
  by pat_completeness auto
termination
  by (relation "measure (\<lambda>(cfg, tag, check_count). 10 - check_count)") auto

declare await_start_v2.simps [simp del]

function poll_v2 :: "config \<Rightarrow> nat \<Rightarrow> nat \<Rightarrow> world \<Rightarrow> unit step" where
  "poll_v2 cfg workflow_id check_count w =
     (if check_count < 60 then
        (case gh_run_view cfg workflow_id (check_count + 1) of
           View_error n \<Rightarrow> Exit (Suc n) w
         | View workflow_status workflow_conclusion \<Rightarrow>
             if workflow_status = ''completed'' then
               (if workflow_conclusion = ''success'' then
                  Next () (say ([''Deployment completed successfully!'',
                                 ''   View run: '' @ actions_url_v2 cfg @ ''/runs/'' @ show_nat workflow_id] @
                                (if check_count + 1 = 60
                                 then [''Monitoring timeout - deployment is still running''] else [])) w)
                else
                  Exit 1 (say [''Deployment failed with status: '' @ workflow_conclusion,
                               ''   View logs: '' @ actions_url_v2 cfg @ ''/runs/'' @ show_nat workflow_id] w))
             else poll_v2 cfg workflow_id (check_count + 1) w)
      else
        Next () (say [''Monitoring timeout - deployment is still running'',
                      ''   Continue monitoring at: '' @ actions_url_v2 cfg @ ''/runs/'' @ show_nat workflow_id] w))"
  by pat_completeness auto
termination
  by (relation "measure (\<lambda>(cfg, workflow_id, check_count, w). 60 - check_count)") auto

declare poll_v2.simps [simp del]

definition monitor_github_actions_v2 :: "config \<Rightarrow> string \<Rightarrow> world \<Rightarrow> unit step" where
  "monitor_github_actions_v2 cfg tag w =
     (case await_start_v2 cfg tag 0 of
        None \<Rightarrow>
          Next () (say [''GitHub CLI not available or workflow not found'',
                        ''   Monitor manually at: '' @ actions_url_v2 cfg] w)
      | Some r \<Rightarrow> poll_v2 cfg (databaseId r) 0 w)"

text \<open>
  \<^verbatim>\<open>deploy_version\<close> of version 2.0: the tag is the version with the prefix and, unless
  the environment is \<^verbatim>\<open>production\<close>, the environment as suffix. \<^verbatim>\<open>git tag -a\<close> fails on
  an existing tag and ends the script; nothing is asked.
\<close>

definition deploy_tag_v2 :: "string \<Rightarrow> string \<Rightarrow> string" where
  "deploy_tag_v2 version env =
     (let tag = VERSION_PREFIX @ version in
      if env \<noteq> ''production'' then tag @ ''-'' @ env else tag)"

definition deploy_version_v2 :: "config \<Rightarrow> string \<Rightarrow> string \<Rightarrow> string \<Rightarrow> world \<Rightarrow> unit step" where
  "deploy_version_v2 cfg version env message0 w =
     (let tag = deploy_tag_v2 version env;
          message1 = (if message0 = [] then ''Deploy '' @ SERVICE_NAME cfg @ '' '' @ version @ '' to '' @ env
                      else message0)
      in case git_tag_a tag (head_commit w) message1 w of
           None \<Rightarrow> Exit 128 w
         | Some w1 \<Rightarrow>
             (case git_push tag w1 of
                None \<Rightarrow> Exit 1 w1
              | Some w2 \<Rightarrow>
                  (let w3 = say [''Deployment initiated successfully!'', ''   Tag: '' @ tag] w2 in
                   if MONITOR_DEPLOYMENT cfg then monitor_github_actions_v2 cfg tag w3
                   else Next () (say [''Monitor deployment:'',
                                      ''   GitHub Actions: '' @ actions_url_v2 cfg] w3))))"

text \<open>
  \<^verbatim>\<open>main\<close> of version 2.0, with the variables of \<open>options\<close> that it has. The
  environment has to be given as an argument. The warnings for uncommitted changes and
  for another branch apply to every environment. Before deploying, the script asks
  \<^verbatim>\<open>Proceed with deployment? (y/N)\<close>, and that only when previews are enabled.
\<close>

definition parse_arg_v2 :: "string \<Rightarrow> string list \<Rightarrow> options \<Rightarrow> world \<Rightarrow> (options \<times> nat) step" where
  "parse_arg_v2 a rest opts w =
     (if a = ''dev'' \<or> a = ''development'' then Next (opts\<lparr>opt_environment := ''dev''\<rparr>, 0) w
      else if a = ''staging'' then Next (opts\<lparr>opt_environment := ''staging''\<rparr>, 0) w
      else if a = ''prod'' \<or> a = ''production'' then Next (opts\<lparr>opt_environment := ''production''\<rparr>, 0) w
      else if a = ''hotfix'' then Next (opts\<lparr>opt_environment := ''hotfix''\<rparr>, 0) w
      else if a = ''--major'' then Next (opts\<lparr>opt_increment_type := ''major''\<rparr>, 0) w
      else if a = ''--minor'' then Next (opts\<lparr>opt_increment_type := ''minor''\<rparr>, 0) w
      else if a = ''--patch'' then Next (opts\<lparr>opt_increment_type := ''patch''\<rparr>, 0) w
      else if a = ''--version'' then
        (case rest of [] \<Rightarrow> Exit 1 w
         | v # rest' \<Rightarrow> Next (opts\<lparr>opt_specific_version := v\<rparr>, 1) w)
      else if a = ''--message'' then
        (case rest of [] \<Rightarrow> Exit 1 w
         | m # rest' \<Rightarrow> Next (opts\<lparr>opt_message := m\<rparr>, 1) w)
      else if a = ''--preview'' then Next (opts\<lparr>opt_preview_mode := True\<rparr>, 0) w
      else if a = ''--help'' then Exit 0 w
      else Exit 1 (say [''Unknown option: '' @ a] w))"

fun parse_args_v2 :: "string list \<Rightarrow> options \<Rightarrow> world \<Rightarrow> options step" where
  "parse_args_v2 [] opts w = Next opts w"
| "parse_args_v2 (a # rest) opts w =
     (case parse_arg_v2 a rest opts w of
        Exit c w' \<Rightarrow> Exit c w'
      | Exec_rollback args w' \<Rightarrow> Exec_rollback args w'
      | Next (opts', extra) w' \<Rightarrow> parse_args_v2 (drop extra rest) opts' w')"

definition validate_environment_v2 :: "config \<Rightarrow> options \<Rightarrow> world \<Rightarrow> options step" where
  "validate_environment_v2 cfg opts w =
     (if opt_environment opts = [] then Exit 1 (say [''Error: No environment specified''] w)
      else if opt_environment opts = ''hotfix'' then
        (if \<not> ENABLE_HOTFIX cfg then
           Exit 1 (say [''Hotfix deployments are disabled for this service''] w)
         else Next (opts\<lparr>opt_environment := ''production'', opt_increment_type := ''patch'',
                         opt_message := (if opt_message opts = [] then ''Hotfix deployment''
                                         else opt_message opts)\<rparr>) w)
      else Next opts w)"

definition check_branch_v2 :: "config \<Rightarrow> options \<Rightarrow> world \<Rightarrow> options step" where
  "check_branch_v2 cfg opts w =
     (if current_branch w \<notin> set (DEPLOY_BRANCHES cfg) then
        read_reply (say [''Warning: You're on branch '' @ current_branch w] w) (\<lambda>reply w0.
          if \<not> is_yes reply then Exit 1 (say [''Deployment cancelled''] w0) else Next opts w0)
      else Next opts w)"

definition determine_version_v2 :: "options \<Rightarrow> world \<Rightarrow> options step" where
  "determine_version_v2 opts w =
     (if opt_specific_version opts \<noteq> [] then
        Next (opts\<lparr>opt_new_version := opt_specific_version opts\<rparr>) w
      else
        (let latest_version = get_latest_version_v2 (opt_environment opts) (git_tag_l w) in
         case increment_version_v2 latest_version (opt_increment_type opts) of
           Inl e \<Rightarrow> Exit 1 w
         | Inr v \<Rightarrow> Next (opts\<lparr>opt_new_version := v\<rparr>) w))"

definition preview_v2 :: "config \<Rightarrow> options \<Rightarrow> world \<Rightarrow> options step" where
  "preview_v2 cfg opts w =
     (if opt_preview_mode opts \<or> ENABLE_PREVIEW cfg then
        (let w1 = say [''Deployment Preview:'',
                       ''   Tag: '' @ deploy_tag_v2 (opt_new_version opts) (opt_environment opts)] w
         in if opt_preview_mode opts then Exit 0 (say [''Preview mode - no changes made''] w1)
            else read_reply w1 (\<lambda>reply w0.
                   if \<not> is_yes reply then Exit 1 (say [''Deployment cancelled''] w0) else Next opts w0))
      else Next opts w)"

text \<open>Everything \<^verbatim>\<open>main\<close> of version 2.0 does before the preview and its question.\<close>

definition main_resolve_v2 :: "config \<Rightarrow> string list \<Rightarrow> world \<Rightarrow> options step" where
  "main_resolve_v2 cfg args w =
     then_step (then_step (then_step (then_step
       (parse_args_v2 args (initial_options cfg) w)
       (validate_environment_v2 cfg))
       check_git_status)
       (check_branch_v2 cfg))
       determine_version_v2"

definition main_v2 :: "config \<Rightarrow> string list \<Rightarrow> world \<Rightarrow> unit step" where
  "main_v2 cfg args w =
     then_step (then_step (main_resolve_v2 cfg args w) (preview_v2 cfg))
       (\<lambda>opts' w'. then_step
          (deploy_version_v2 cfg (opt_new_version opts') (opt_environment opts') (opt_message opts') w')
          (\<lambda>u w''. Exit 0 (say [''Post-deployment checklist:''] w'')))"

section \<open>rollback.sh\<close>

text \<open>\<^verbatim>\<open>has_staging_environment\<close>: the service is one of the four that have a staging environment.\<close>

definition staging_services :: "string list" where
  "staging_services = [''karma-merchant-api'', ''karma-merchant-web'', ''storefront-service'', ''storefront-web'']"

definition has_staging_environment :: "string \<Rightarrow> bool" where
  "has_staging_environment service = (service \<in> set staging_services)"

text \<open>
  \<^verbatim>\<open>get_deployment_history\<close> lists the tags of an environment: for development and
  staging those matching \<^verbatim>\<open>v*-dev\<close> and \<^verbatim>\<open>v*-staging\<close>, for production and for any other
  word those matching \<^verbatim>\<open>v*\<close> that contain neither \<^verbatim>\<open>-dev\<close> nor \<^verbatim>\<open>-staging\<close>. The
  script has git order them by version, newest first, and shows the first
  \<^verbatim>\<open>MAX_VERSIONS_TO_SHOW\<close>; \<^verbatim>\<open>main\<close> only asks whether there is one and displays the
  first, so the order is left out here.
\<close>

fun contains :: "string \<Rightarrow> string \<Rightarrow> bool" where
  "contains sub [] = (sub = [])"
| "contains sub (c # cs) = (take (length sub) (c # cs) = sub \<or> contains sub cs)"

definition get_deployment_history :: "string \<Rightarrow> string list \<Rightarrow> string list" where
  "get_deployment_history env tags =
     (let env_suffix = (if env = ''development'' \<or> env = ''dev'' then ''-dev''
                        else if env = ''staging'' then ''-staging''
                        else [])
      in if env_suffix = [] then
           filter (\<lambda>t. \<not> (contains ''-dev'' t \<or> contains ''-staging'' t)) (filter (tag_glob []) tags)
         else filter (tag_glob env_suffix) tags)"

text \<open>
  \<^verbatim>\<open>select_environment\<close> runs inside \<^verbatim>\<open>environment=$(...)\<close>: what it prints, the menu
  with its colour codes and then the chosen word or the cancellation, is what the variable
  receives, and its \<^verbatim>\<open>exit 0\<close> leaves the substitution only. Inside the substitution
  \<^verbatim>\<open>set -e\<close> is off: when the input ends before the line does, the choice is what
  \<^verbatim>\<open>read\<close> made of the part that was there.
\<close>

definition esc :: char where
  "esc = char_of (27 :: nat)"

definition print_color :: "string \<Rightarrow> string \<Rightarrow> string" where
  "print_color color text = esc # color @ text @ esc # ''[0m'' @ [newline]"

definition strip_newlines :: "string \<Rightarrow> string" where
  "strip_newlines s = rev (dropWhile (\<lambda>c. c = newline) (rev s))"

definition select_environment :: "config \<Rightarrow> string \<Rightarrow> string" where
  "select_environment cfg choice =
     strip_newlines
       (print_color ''[0;36m'' ''Select environment to rollback:'' @ [newline] @
        print_color ''[0;36m'' ''  1) Development'' @
        (if has_staging_environment (SERVICE_NAME cfg) then
           print_color ''[1;33m'' ''  2) Staging'' @ print_color ''[0;31m'' ''  3) Production'' @
           ''  4) Cancel'' @ [newline] @ [newline] @
           (if choice = ''1'' then ''development'' @ [newline]
            else if choice = ''2'' then ''staging'' @ [newline]
            else if choice = ''3'' then ''production'' @ [newline]
            else print_color ''[0;31m'' ''Rollback cancelled'')
         else
           print_color ''[0;31m'' ''  2) Production'' @
           ''  3) Cancel'' @ [newline] @ [newline] @
           (if choice = ''1'' then ''development'' @ [newline]
            else if choice = ''2'' then ''production'' @ [newline]
            else print_color ''[0;31m'' ''Rollback cancelled'')))"

text \<open>The variables \<^verbatim>\<open>main\<close> of \<^verbatim>\<open>rollback.sh\<close> fills from its arguments.\<close>

record rb_options =
  rb_environment :: string
  rb_version :: string
  rb_skip_confirm :: bool
  rb_show_history :: bool

definition rb_initial :: rb_options where
  "rb_initial = \<lparr>rb_environment = [], rb_version = [], rb_skip_confirm = False, rb_show_history = False\<rparr>"

text \<open>
  One round of the argument loop. The script runs under \<^verbatim>\<open>set -u\<close>: \<^verbatim>\<open>--env\<close> or
  \<^verbatim>\<open>--version\<close> without a value ends it. Any other word becomes the environment.
\<close>

definition rb_parse_arg :: "string \<Rightarrow> string list \<Rightarrow> rb_options \<Rightarrow> world \<Rightarrow> (rb_options \<times> nat) step" where
  "rb_parse_arg a rest opts w =
     (if a = ''--env'' then
        (case rest of [] \<Rightarrow> Exit 1 w | e # rest' \<Rightarrow> Next (opts\<lparr>rb_environment := e\<rparr>, 1) w)
      else if a = ''--version'' then
        (case rest of [] \<Rightarrow> Exit 1 w | v # rest' \<Rightarrow> Next (opts\<lparr>rb_version := v\<rparr>, 1) w)
      else if a = ''--skip-confirm'' then Next (opts\<lparr>rb_skip_confirm := True\<rparr>, 0) w
      else if a = ''--history'' then Next (opts\<lparr>rb_show_history := True\<rparr>, 0) w
      else if a = ''--help'' then Exit 0 w
      else Next (opts\<lparr>rb_environment := a\<rparr>, 0) w)"

fun rb_parse_args :: "string list \<Rightarrow> rb_options \<Rightarrow> world \<Rightarrow> rb_options step" where
  "rb_parse_args [] opts w = Next opts w"
| "rb_parse_args (a # rest) opts w =
     (case rb_parse_arg a rest opts w of
        Exit c w' \<Rightarrow> Exit c w'
      | Exec_rollback args w' \<Rightarrow> Exec_rollback args w'
      | Next (opts', extra) w' \<Rightarrow> rb_parse_args (drop extra rest) opts' w')"

text \<open>
  \<^verbatim>\<open>perform_rollback\<close> with the tag method. The new tag is the version followed by
  \<^verbatim>\<open>-rollback-\<close> and the seconds of the clock, for the environment words the \<^verbatim>\<open>case\<close>
  knows; for any other word it stays empty and \<^verbatim>\<open>git tag\<close> fails. The tag is put on
  the commit that git resolves the version to, with a message that names the version,
  the environment and the user, and pushed. Then the script looks once for the run of the
  tag and reports on it; none of that ends the script (the queries are made in
  \<^verbatim>\<open>local\<close> declarations, which hide their failure from \<^verbatim>\<open>set -e\<close>).
\<close>

definition rollback_tag :: "config \<Rightarrow> string \<Rightarrow> string \<Rightarrow> string" where
  "rollback_tag cfg env version =
     (if env \<in> {''development'', ''dev'', ''staging'', ''production'', ''prod''}
      then version @ ''-rollback-'' @ show_nat (date_s cfg)
      else [])"

definition rollback_message :: "config \<Rightarrow> string \<Rightarrow> string \<Rightarrow> string" where
  "rollback_message cfg env version =
     ''Rollback to '' @ version @ '' on '' @ env @ '' by '' @ user_name cfg"

definition rollback_monitor :: "config \<Rightarrow> string \<Rightarrow> world \<Rightarrow> world" where
  "rollback_monitor cfg new_tag w =
     (if gh_installed cfg then
        (case find (run_matches new_tag) (take 5 (gh_run_list cfg 1)) of
           Some r \<Rightarrow>
             (case gh_run_view cfg (databaseId r) 1 of
                View workflow_status workflow_conclusion \<Rightarrow>
                  if workflow_conclusion = ''success''
                  then say [''Rollback completed successfully!''] w
                  else say [''Rollback deployment failed'', ''Check the logs for details''] w
              | View_error n \<Rightarrow>
                  say [''Rollback deployment failed'', ''Check the logs for details''] w)
         | None \<Rightarrow>
             say [''Could not find workflow run. Monitor manually at:'', ''   '' @ actions_url cfg] w)
      else w)"

definition perform_rollback :: "config \<Rightarrow> string \<Rightarrow> string \<Rightarrow> world \<Rightarrow> unit step" where
  "perform_rollback cfg env version w =
     (let new_tag = rollback_tag cfg env version;
          message = rollback_message cfg env version
      in case git_rev_parse version w of
           None \<Rightarrow> Exit 128 w
         | Some commit \<Rightarrow>
             (case git_tag_a new_tag commit message w of
                None \<Rightarrow> Exit 128 w
              | Some w1 \<Rightarrow>
                  (case git_push new_tag w1 of
                     None \<Rightarrow> Exit 1 w1
                   | Some w2 \<Rightarrow>
                       Next () (say [''Rollback initiated:'', ''   Rolled back to: '' @ version]
                                  (rollback_monitor cfg new_tag w2)))))"

text \<open>
  \<^verbatim>\<open>main\<close> of \<^verbatim>\<open>rollback.sh\<close>. After the arguments: the history on request; the
  environment from the menu when none was given; \<^verbatim>\<open>dev\<close> and \<^verbatim>\<open>prod\<close> written out;
  the refusal of staging for a service without it; the refusal when the environment has
  no tag. Without \<^verbatim>\<open>--version\<close> the version comes from \<^verbatim>\<open>version=$(select_version ...)\<close>,
  which hands over the whole display it prints or fails, so that either the substitution
  or the following \<^verbatim>\<open>git rev-parse\<close> ends the script with a failure. A given version has
  to be a name that git resolves; the operator confirms with \<^verbatim>\<open>yes\<close> (anything else ends the script with
  status 0) unless \<^verbatim>\<open>--skip-confirm\<close> was given; then the rollback is performed.
\<close>

definition normalize_environment :: "string \<Rightarrow> string" where
  "normalize_environment env =
     (if env = ''dev'' then ''development'' else if env = ''prod'' then ''production'' else env)"

definition rollback_run :: "config \<Rightarrow> rb_options \<Rightarrow> world \<Rightarrow> unit step" where
  "rollback_run cfg opts w =
     (if rb_show_history opts then Exit 0 w
      else
        (let picked = (if rb_environment opts = []
                       then (case read_line (stdin w) of (whole, choice, rest) \<Rightarrow>
                               (select_environment cfg choice, w\<lparr>stdin := rest\<rparr>))
                       else (rb_environment opts, w));
             env = normalize_environment (fst picked);
             w0 = snd picked
         in if env = ''staging'' \<and> \<not> has_staging_environment (SERVICE_NAME cfg) then
              Exit 1 (say [''Service '' @ SERVICE_NAME cfg @ '' does not support staging environment''] w0)
            else if get_deployment_history env (git_tag_l w0) = [] then
              Exit 1 (say [''No deployments found for '' @ env] w0)
            else if rb_version opts = [] then
              (case read_line (stdin w0) of (whole, choice, rest) \<Rightarrow> Exit 1 (w0\<lparr>stdin := rest\<rparr>))
            else if git_rev_parse (rb_version opts) w0 = None then
              Exit 1 (say [''Version '' @ rb_version opts @ '' does not exist''] w0)
            else
              then_step
                (if rb_skip_confirm opts then Next () w0
                 else read_var w0 (\<lambda>confirm w1.
                        if confirm \<noteq> ''yes'' then Exit 0 (say [''Rollback cancelled''] w1)
                        else Next () w1))
                (\<lambda>u w1. then_step (perform_rollback cfg env (rb_version opts) w1)
                           (\<lambda>u w2. Exit 0 (say [''Rollback Complete!''] w2)))))"

definition rollback_main :: "config \<Rightarrow> string list \<Rightarrow> world \<Rightarrow> unit step" where
  "rollback_main cfg args w = then_step (rb_parse_args args rb_initial w) (rollback_run cfg)"

section \<open>Scenarios\<close>

text \<open>
  A service without a staging environment, and a repository with production tags
  \<^verbatim>\<open>v2.5.0\<close> and \<^verbatim>\<open>v3.0.0\<close>, a development tag and a staging tag, all pushed. They
  serve as concrete instances of the properties below.
\<close>

definition example_config :: config where
  "example_config =
     \<lparr>SERVICE_NAME = ''karma-admin-api'', DEPLOY_BRANCHES = [''master'', ''main''],
      ENABLE_HOTFIX = True, ENABLE_PREVIEW = True, MONITOR_DEPLOYMENT = True,
      DEPLOY_TYPE = ''kubernetes'', gh_installed = True, github_repo = ''karmadev/karma-admin-api'',
      gh_run_list = (\<lambda>k. []), gh_run_view = (\<lambda>i k. View ''completed'' ''success''),
      rollback_sh = True, user_name = ''alice'', date_s = 1724850000\<rparr>"

definition example_tags :: "(string \<times> tag_obj) list" where
  "example_tags =
     [(''v2.5.0'', \<lparr>tag_commit = 5, tag_message = ''Deploy karma-admin-api 2.5.0 to prod''\<rparr>),
      (''v3.0.0'', \<lparr>tag_commit = 8, tag_message = ''Deploy karma-admin-api 3.0.0 to prod''\<rparr>),
      (''v1.1.0-dev'', \<lparr>tag_commit = 9, tag_message = ''Deploy karma-admin-api 1.1.0 to dev''\<rparr>),
      (''v2.0.0-staging'', \<lparr>tag_commit = 7, tag_message = ''Deploy karma-admin-api 2.0.0 to staging''\<rparr>)]"

definition example_world :: world where
  "example_world =
     \<lparr>head_commit = 10, local_tags = example_tags, remote_tags = example_tags,
      revisions = [(''HEAD'', 10), (''master'', 10)], git_log = [],
      dirty = False, current_branch = ''master'', package_json = None, stdin = [], stdout = []\<rparr>"

text \<open>The input of an operator who types these lines and ends each with the return key.\<close>

definition typed :: "string list \<Rightarrow> string" where
  "typed ls = concat (map (\<lambda>l. l @ [newline]) ls)"

text \<open>The same service when the third query finds a run for the tag \<^verbatim>\<open>v3.0.1\<close>, which then fails.\<close>

definition failing_run_config :: config where
  "failing_run_config =
     example_config
       \<lparr>gh_run_list := (\<lambda>k. if k = 3 then [\<lparr>databaseId = 42, run_status = ''queued'',
                                               headBranch = ''refs/tags/v3.0.1''\<rparr>] else []),
        gh_run_view := (\<lambda>i k. View ''completed'' ''failure'')\<rparr>"

text \<open>
  The same service when the watch of that run ends before the run does: the run is still
  in progress and has no conclusion.
\<close>

definition unfinished_run_config :: config where
  "unfinished_run_config =
     failing_run_config\<lparr>gh_run_view := (\<lambda>i k. View ''in_progress'' [])\<rparr>"

section \<open>The tag grammar and the version tracks of the specification\<close>

text \<open>
  These definitions follow the words of the specification, to be compared with the
  script. An environment is development, staging or production. A tag of an environment
  is \<^verbatim>\<open>v{M}.{N}.{P}\<close> followed by the qualifier of the environment: nothing for
  production, \<^verbatim>\<open>-staging\<close>, \<^verbatim>\<open>-dev\<close>. \<open>parse_tag\<close> decodes such a tag into its
  environment and its version triple, and fails on anything else. A rollback marker is a
  tag of an environment followed by \<^verbatim>\<open>-rollback-\<close> and digits. A valid tag is one or the
  other.
\<close>

datatype environment = Development | Staging | Production









text \<open>
  A run has reached a terminal conclusion other than success: it is completed, and its
  conclusion is not \<^verbatim>\<open>success\<close>.
\<close>

definition terminal_failure :: "view \<Rightarrow> bool" where
  "terminal_failure v =
     (case v of View_error n \<Rightarrow> False
      | View status conclusion \<Rightarrow> status = ''completed'' \<and> conclusion \<noteq> ''success'')"

section \<open>Auxiliary notions\<close>

text \<open>
  What a run of \<^verbatim>\<open>rollback.sh\<close> can do to the tags of the working copy: nothing, or add
  one tag whose name ends in \<^verbatim>\<open>-rollback-\<close> and the seconds of the clock.
\<close>

definition tags_kept_or_rollback_added :: "config \<Rightarrow> world \<Rightarrow> world \<Rightarrow> bool" where
  "tags_kept_or_rollback_added cfg w w' =
     (local_tags w' = local_tags w \<or>
      (\<exists>t obj. local_tags w' = local_tags w @ [(t @ ''-rollback-'' @ show_nat (date_s cfg), obj)]))"


text \<open>There is a tag of that name in the working copy.\<close>

definition tag_exists :: "string \<Rightarrow> world \<Rightarrow> bool" where
  "tag_exists t w = (map_of (local_tags w) t \<noteq> None)"

text \<open>
  Nothing happened to the tags: the tags of the working copy and of the remote are as
  they were, and no git command that changes anything has run.
\<close>

definition repo_unchanged :: "world \<Rightarrow> world \<Rightarrow> bool" where
  "repo_unchanged w w' =
     (local_tags w' = local_tags w \<and> remote_tags w' = remote_tags w \<and> git_log w' = git_log w)"

text \<open>Every tag that existed, here or on the remote, still points where it pointed.\<close>

definition existing_tags_kept :: "world \<Rightarrow> world \<Rightarrow> bool" where
  "existing_tags_kept w w' =
     ((\<forall>t obj. map_of (local_tags w) t = Some obj \<longrightarrow> map_of (local_tags w') t = Some obj) \<and>
      (\<forall>t obj. map_of (remote_tags w) t = Some obj \<longrightarrow> map_of (remote_tags w') t = Some obj))"

text \<open>The difference of the first two digits in which two digit strings differ, 0 when there is none.\<close>

fun first_diff :: "string \<Rightarrow> string \<Rightarrow> int" where
  "first_diff (x # xs) (y # ys) = (if x = y then first_diff xs ys else int (of_char x) - int (of_char y))"
| "first_diff xs ys = 0"

section \<open>Lemmas on digit strings and shell expansions\<close>

lemma digit_char_isdigit: "d < 10 \<Longrightarrow> isdigit (digit_char d)"
  by (simp add: isdigit_def digit_char_def)

lemma digit_of_digit_char: "d < 10 \<Longrightarrow> digit_of (digit_char d) = d"
  by (simp add: digit_of_def digit_char_def)

lemma show_nat_digits: "list_all isdigit (show_nat n)"
proof (induction n rule: show_nat.induct)
  case (1 n)
  show ?case
  proof (cases "n < 10")
    case True
    then show ?thesis by (simp add: show_nat.simps [of n] digit_char_isdigit)
  next
    case False
    with 1 show ?thesis by (simp add: show_nat.simps [of n] digit_char_isdigit)
  qed
qed

lemma show_nat_nonempty: "show_nat n \<noteq> []"
  by (subst show_nat.simps) simp

lemma dec_val_snoc: "dec_val (xs @ [c]) = 10 * dec_val xs + digit_of c"
  by (simp add: dec_val_def)

lemma dec_val_show_nat: "dec_val (show_nat n) = n"
proof (induction n rule: show_nat.induct)
  case (1 n)
  show ?case
  proof (cases "n < 10")
    case True
    then show ?thesis by (simp add: show_nat.simps [of n] dec_val_def digit_of_digit_char)
  next
    case False
    with 1 show ?thesis by (simp add: show_nat.simps [of n] dec_val_snoc digit_of_digit_char)
  qed
qed

lemma hd_show_nat: "0 < n \<Longrightarrow> hd (show_nat n) \<noteq> CHR ''0''"
proof (induction n rule: show_nat.induct)
  case (1 n)
  show ?case
  proof (cases "n < 10")
    case True
    have "digit_of (CHR ''0'') = 0" by (simp add: digit_of_def)
    with 1(2) True have "digit_char n \<noteq> CHR ''0''"
      using digit_of_digit_char [of n] by auto
    with True show ?thesis by (simp add: show_nat.simps [of n])
  next
    case False
    then have "0 < n div 10" by simp
    with 1(1) False have "hd (show_nat (n div 10)) \<noteq> CHR ''0''" by simp
    with False show ?thesis by (simp add: show_nat.simps [of n] show_nat_nonempty)
  qed
qed

lemma isdigit_not_special:
  "isdigit c \<Longrightarrow> c \<noteq> CHR ''.'' \<and> c \<noteq> CHR ''-'' \<and> c \<noteq> CHR ''+'' \<and> c \<noteq> CHR ''v''"
  by (auto simp: isdigit_def)

lemma digits_no_special:
  assumes "list_all isdigit s"
  shows "CHR ''.'' \<notin> set s" "CHR ''-'' \<notin> set s" "CHR ''+'' \<notin> set s"
  using assms isdigit_not_special by (auto simp: list_all_iff)

lemma read_dot3_render:
  assumes "CHR ''.'' \<notin> set a" "CHR ''.'' \<notin> set b"
  shows "read_dot3 (a @ ''.'' @ b @ ''.'' @ c) = (a, b, c)"
proof -
  have tw: "\<And>x r. CHR ''.'' \<notin> set x \<Longrightarrow> takeWhile (\<lambda>y. y \<noteq> CHR ''.'') (x @ CHR ''.'' # r) = x"
  proof -
    fix x :: string and r show "CHR ''.'' \<notin> set x \<Longrightarrow> takeWhile (\<lambda>y. y \<noteq> CHR ''.'') (x @ CHR ''.'' # r) = x"
      by (induction x) auto
  qed
  have dw: "\<And>x r. CHR ''.'' \<notin> set x \<Longrightarrow> dropWhile (\<lambda>y. y \<noteq> CHR ''.'') (x @ CHR ''.'' # r) = CHR ''.'' # r"
  proof -
    fix x :: string and r show "CHR ''.'' \<notin> set x \<Longrightarrow> dropWhile (\<lambda>y. y \<noteq> CHR ''.'') (x @ CHR ''.'' # r) = CHR ''.'' # r"
      by (induction x) auto
  qed
  show ?thesis using assms by (simp add: read_dot3_def Let_def tw dw)
qed

lemma wrap64_small: "- (2 ^ 63) \<le> i \<Longrightarrow> i < 2 ^ 63 \<Longrightarrow> wrap64 i = i"
  unfolding wrap64_def by (simp add: sint_sbintrunc' signed_take_bit_int_eq_self)

lemma arith_operand_show_nat: "n < 2 ^ 63 \<Longrightarrow> arith_operand (show_nat n) = Inr (int n)"
proof (cases "n = 0")
  case True
  have "show_nat 0 = ''0''" by code_simp
  with True show ?thesis
    by (simp add: arith_operand_def isdigit_def oct_val_def digit_of_def wrap64_def)
next
  case False
  assume b: "n < 2 ^ 63"
  from False have "hd (show_nat n) \<noteq> CHR ''0''" by (simp add: hd_show_nat)
  moreover have "wrap64 (int n) = int n"
  proof (rule wrap64_small)
    show "- (2 ^ 63) \<le> int n" by (rule order_trans [of _ 0]) simp_all
    from b show "int n < 2 ^ 63" 
      by (metis of_nat_less_iff of_nat_numeral of_nat_power)
  qed
  ultimately show ?thesis
    by (simp add: arith_operand_def show_nat_nonempty show_nat_digits dec_val_show_nat)
qed

lemma arith_succ_show_nat:
  assumes "n < 2 ^ 63 - 1"
  shows "arith_succ (show_nat n) = Inr (show_nat (Suc n))"
proof -
  from assms have b: "n < 2 ^ 63" and b1: "Suc n < 2 ^ 63" by simp_all
  have "wrap64 (int n + 1) = int (Suc n)"
  proof -
    have "wrap64 (int (Suc n)) = int (Suc n)"
    proof (rule wrap64_small)
      show "- (2 ^ 63) \<le> int (Suc n)" by (rule order_trans [of _ 0]) simp_all
      from b1 show "int (Suc n) < 2 ^ 63"
        by (metis of_nat_less_iff of_nat_numeral of_nat_power)
    qed
    then show ?thesis by (simp add: add.commute)
  qed
  then show ?thesis
    by (simp add: arith_succ_def arith_operand_show_nat [OF b] show_int_def del: of_nat_Suc)
qed

lemma strip_prefix_show_nat: "strip_prefix VERSION_PREFIX (show_nat n @ r) = show_nat n @ r"
proof -
  have "list_all isdigit (show_nat n)" by (rule show_nat_digits)
  then have "hd (show_nat n) \<noteq> CHR ''v''"
    using show_nat_nonempty [of n] isdigit_not_special
    by (cases "show_nat n") auto
  then show ?thesis
    using show_nat_nonempty [of n]
    by (cases "show_nat n") (auto simp: strip_prefix_def VERSION_PREFIX_def)
qed

lemma strip_shortest_absent: "c \<notin> set s \<Longrightarrow> strip_shortest_from c s = s"
  by (simp add: strip_shortest_from_def)

lemma strip_longest_absent: "c \<notin> set s \<Longrightarrow> strip_longest_from c s = s"
  by (auto simp: strip_longest_from_def takeWhile_eq_all_conv)

lemma increment_version_parts:
  "\<forall>k. increment_version (render_version (ma, mi, pa)) k =
     (if k = ''major'' then
           (case arith_succ (show_nat ma) of Inl e \<Rightarrow> Inl e | Inr m \<Rightarrow> Inr (m @ ''.'' @ ''0'' @ ''.'' @ ''0''))
         else if k = ''minor'' then
           (case arith_succ (show_nat mi) of Inl e \<Rightarrow> Inl e | Inr m \<Rightarrow> Inr (show_nat ma @ ''.'' @ m @ ''.'' @ ''0''))
         else if k = ''patch'' then
           (case arith_succ (show_nat pa) of Inl e \<Rightarrow> Inl e | Inr p \<Rightarrow> Inr (show_nat ma @ ''.'' @ show_nat mi @ ''.'' @ p))
         else Inr (render_version (ma, mi, pa)))"
proof -
  let ?v = "render_version (ma, mi, pa)"
  have d: "CHR ''.'' \<notin> set (show_nat ma)" "CHR ''.'' \<notin> set (show_nat mi)"
      "CHR ''-'' \<notin> set (show_nat ma)" "CHR ''-'' \<notin> set (show_nat mi)" "CHR ''-'' \<notin> set (show_nat pa)"
      "CHR ''+'' \<notin> set (show_nat pa)"
    using digits_no_special [OF show_nat_digits] by auto
  have 1: "strip_prefix VERSION_PREFIX ?v = ?v"
    using strip_prefix_show_nat [of ma] by (simp add: render_version_def)
  have 2: "strip_shortest_from CHR ''-'' ?v = ?v"
    by (rule strip_shortest_absent) (use d in \<open>simp add: render_version_def\<close>)
  have 3: "read_dot3 ?v = (show_nat ma, show_nat mi, show_nat pa)"
    using read_dot3_render [OF d(1) d(2)] by (simp add: render_version_def)
  have 4: "strip_longest_from CHR ''+'' (strip_longest_from CHR ''-'' (show_nat pa)) = show_nat pa"
    using d by (simp add: strip_longest_absent)
  show ?thesis
    by (simp only: increment_version_def 1 2 3 4 Let_def prod.case)
       (simp add: render_version_def split: sum.split)
qed

lemma digit_char_simps:
  "digit_char 0 = CHR ''0''" "digit_char 1 = CHR ''1''" "digit_char 2 = CHR ''2''"
  "digit_char 3 = CHR ''3''" "digit_char 4 = CHR ''4''" "digit_char 5 = CHR ''5''"
  "digit_char 6 = CHR ''6''" "digit_char 7 = CHR ''7''" "digit_char 8 = CHR ''8''"
  "digit_char 9 = CHR ''9''"
  by code_simp+

lemma show_nat_0: "show_nat 0 = ''0''"
  by code_simp

section \<open>Lemmas on the scripts\<close>

lemma rb_parse_args_world: "rb_parse_args args opts w = Next opts' w' \<Longrightarrow> w' = w"
proof (induction args arbitrary: opts rule: length_induct)
  case (1 args)
  show ?case
  proof (cases args)
    case Nil
    with 1(2) show ?thesis by simp
  next
    case (Cons a rest)
    show ?thesis
    proof (cases "rb_parse_arg a rest opts w")
      case (Exit c w1)
      with 1(2) Cons show ?thesis by simp
    next
      case (Exec_rollback x w1)
      with 1(2) Cons show ?thesis by simp
    next
      case (Next p w1)
      obtain o1 extra where p: "p = (o1, extra)" by (cases p)
      from Next have w1: "w1 = w"
        by (auto simp: rb_parse_arg_def split: if_splits list.splits)
      from 1(2) Cons Next p w1 have "rb_parse_args (drop extra rest) o1 w = Next opts' w'" by simp
      moreover have "length (drop extra rest) < length args" using Cons by simp
      ultimately show ?thesis using 1(1) by blast
    qed
  qed
qed


lemma set_split_dot:
  "set s \<subseteq> set (takeWhile (\<lambda>x. x \<noteq> CHR ''.'') s) \<union> {CHR ''.''} \<union>
     set (drop 1 (dropWhile (\<lambda>x. x \<noteq> CHR ''.'') s))"
  by (induction s) auto

lemma read_dot3_chars:
  assumes "read_dot3 s = (a, b, c)" and "x \<in> set s"
  shows "x \<in> set a \<or> x \<in> set b \<or> x \<in> set c \<or> x = CHR ''.''"
proof -
  let ?r1 = "drop 1 (dropWhile (\<lambda>x. x \<noteq> CHR ''.'') s)"
  from assms(1) have a: "a = takeWhile (\<lambda>x. x \<noteq> CHR ''.'') s"
    and b: "b = takeWhile (\<lambda>x. x \<noteq> CHR ''.'') ?r1"
    and c: "c = drop 1 (dropWhile (\<lambda>x. x \<noteq> CHR ''.'') ?r1)"
    by (simp_all add: read_dot3_def Let_def)
  have 1: "set s \<subseteq> set a \<union> {CHR ''.''} \<union> set ?r1"
    unfolding a by (rule set_split_dot)
  have 2: "set ?r1 \<subseteq> set b \<union> {CHR ''.''} \<union> set c"
    unfolding b c by (rule set_split_dot)
  from 1 2 assms(2) show ?thesis by blast
qed

lemma match_xyz_chars: "match_xyz s \<Longrightarrow> x \<in> set s \<Longrightarrow> isdigit x \<or> x = CHR ''.''"
proof -
  assume m: "match_xyz s" and x: "x \<in> set s"
  obtain a b c where r: "read_dot3 s = (a, b, c)" by (cases "read_dot3 s") auto
  with m have "list_all isdigit a" "list_all isdigit b" "list_all isdigit c"
    by (simp_all add: match_xyz_def digits1_def)
  with read_dot3_chars [OF r x] show ?thesis by (auto simp: list_all_iff)
qed

lemma ends_with_last: "ends_with suf s \<Longrightarrow> suf \<noteq> [] \<Longrightarrow> last s = last suf"
  unfolding ends_with_def
  by (metis append_take_drop_id last_appendR)

lemma rollback_name_last:
  "isdigit (last (drop (length VERSION_PREFIX) (t @ ''-rollback-'' @ show_nat n)))"
proof -
  have "last (show_nat n) \<in> set (show_nat n)" using show_nat_nonempty by simp
  then have d: "isdigit (last (show_nat n))" using show_nat_digits [of n] by (simp add: list_all_iff)
  have "drop (length VERSION_PREFIX) (t @ ''-rollback-'' @ show_nat n)
          = drop 1 (t @ ''-rollback-'') @ show_nat n"
    by (cases t) (simp_all add: VERSION_PREFIX_def)
  with d show ?thesis by (simp add: show_nat_nonempty)
qed

lemma rollback_name_not_dev: "\<not> tag_glob ''-dev'' (t @ ''-rollback-'' @ show_nat n)"
proof
  assume "tag_glob ''-dev'' (t @ ''-rollback-'' @ show_nat n)"
  then have "last (drop (length VERSION_PREFIX) (t @ ''-rollback-'' @ show_nat n)) = last ''-dev''"
    by (intro ends_with_last) (simp_all add: tag_glob_def)
  with rollback_name_last [of t n] show False by (simp add: isdigit_def)
qed

lemma rollback_name_not_staging: "\<not> tag_glob ''-staging'' (t @ ''-rollback-'' @ show_nat n)"
proof
  assume "tag_glob ''-staging'' (t @ ''-rollback-'' @ show_nat n)"
  then have "last (drop (length VERSION_PREFIX) (t @ ''-rollback-'' @ show_nat n)) = last ''-staging''"
    by (intro ends_with_last) (simp_all add: tag_glob_def)
  with rollback_name_last [of t n] show False by (simp add: isdigit_def)
qed

lemma rollback_name_not_production: "\<not> grep_production (t @ ''-rollback-'' @ show_nat n)"
proof
  assume "grep_production (t @ ''-rollback-'' @ show_nat n)"
  then have m: "match_xyz (drop (length VERSION_PREFIX) (t @ ''-rollback-'' @ show_nat n))"
    by (simp add: grep_production_def)
  have "CHR ''r'' \<in> set (drop (length VERSION_PREFIX) (t @ ''-rollback-'' @ show_nat n))"
    by (cases t) (simp_all add: VERSION_PREFIX_def)
  from match_xyz_chars [OF m this] show False by (simp add: isdigit_def)
qed

lemma filter_sort_remdups: "filter P (sort (remdups xs)) = sort (remdups (filter P xs))"
  by (rule sorted_distinct_set_unique) (auto intro: sorted_wrt_filter)

lemma env_tags_filter: "\<exists>P. \<forall>tags. env_tags env tags = filter P tags"
  unfolding env_tags_def
  by (cases "env = ''production'' \<or> env = ''prod''"; cases "env = ''staging''") (auto intro: exI [of _ "\<lambda>t. tag_glob [] t \<and> grep_production t"])

lemma say_fields [simp]:
  "local_tags (say ls w) = local_tags w" "remote_tags (say ls w) = remote_tags w"
  "git_log (say ls w) = git_log w" "stdin (say ls w) = stdin w" "head_commit (say ls w) = head_commit w"
  "dirty (say ls w) = dirty w" "current_branch (say ls w) = current_branch w"
  "package_json (say ls w) = package_json w" "stdout (say ls w) = stdout w @ ls"
  "revisions (say ls w) = revisions w"
  by (simp_all add: say_def)

lemma rollback_monitor_fields [simp]:
  "local_tags (rollback_monitor cfg t w) = local_tags w"
  "remote_tags (rollback_monitor cfg t w) = remote_tags w"
  "git_log (rollback_monitor cfg t w) = git_log w"
  by (simp_all add: rollback_monitor_def split: option.splits view.splits)

lemma digit_char_Suc_0: "digit_char (Suc 0) = CHR ''1''"
  using digit_char_simps(2) by simp

lemma show_nat_date: "show_nat 1724850000 = ''1724850000''"
  by (simp add: show_nat.simps digit_char_simps digit_char_Suc_0)

lemma git_tag_l_example: "git_tag_l example_world = [''v1.1.0-dev'', ''v2.0.0-staging'', ''v2.5.0'', ''v3.0.0'']"
  by code_simp

lemma latest_example: "get_latest_version ''production'' [''v1.1.0-dev'', ''v2.0.0-staging'', ''v2.5.0'', ''v3.0.0''] = ''v3.0.0''"
  by code_simp

lemma not_contains_example: "\<not> contains ''v3.0.0'' ''Rollback to v2.5.0 on production by alice''"
  by code_simp

lemma perform_rollback_effect:
  assumes "env \<in> {''development'', ''dev'', ''staging'', ''production'', ''prod''}"
    and "map_of (local_tags w) t = Some obj"
    and "map_of (local_tags w) (t @ ''-rollback-'' @ show_nat (date_s cfg)) = None"
    and "map_of (remote_tags w) (t @ ''-rollback-'' @ show_nat (date_s cfg)) = None"
  shows "\<exists>w'. perform_rollback cfg env t w = Next () w' \<and>
     git_log w' = git_log w @
       [Tag_create (t @ ''-rollback-'' @ show_nat (date_s cfg)) (tag_commit obj)
          (''Rollback to '' @ t @ '' on '' @ env @ '' by '' @ user_name cfg),
        Push_tag (t @ ''-rollback-'' @ show_nat (date_s cfg))] \<and>
     local_tags w' = local_tags w @
       [(t @ ''-rollback-'' @ show_nat (date_s cfg),
         \<lparr>tag_commit = tag_commit obj,
          tag_message = ''Rollback to '' @ t @ '' on '' @ env @ '' by '' @ user_name cfg\<rparr>)] \<and>
     remote_tags w' = remote_tags w @
       [(t @ ''-rollback-'' @ show_nat (date_s cfg),
         \<lparr>tag_commit = tag_commit obj,
          tag_message = ''Rollback to '' @ t @ '' on '' @ env @ '' by '' @ user_name cfg\<rparr>)]"
proof -
  have nt: "rollback_tag cfg env t = t @ ''-rollback-'' @ show_nat (date_s cfg)"
    using assms(1) by (simp add: rollback_tag_def)
  show ?thesis
    using assms(2-4)
    by (simp add: perform_rollback_def nt rollback_message_def git_rev_parse_def git_tag_a_def
        git_push_def Let_def map_add_def)
qed


lemma rb_parse_args_final_world: "final_world (rb_parse_args args opts w) = w"
proof (induction args arbitrary: opts rule: length_induct)
  case (1 args)
  show ?case
  proof (cases args)
    case Nil
    then show ?thesis by simp
  next
    case (Cons a rest)
    show ?thesis
    proof (cases "rb_parse_arg a rest opts w")
      case (Exit c w1)
      then have "w1 = w" by (auto simp: rb_parse_arg_def split: if_splits list.splits)
      with Exit Cons show ?thesis by simp
    next
      case (Exec_rollback x w1)
      then have "w1 = w" by (auto simp: rb_parse_arg_def split: if_splits list.splits)
      with Exec_rollback Cons show ?thesis by simp
    next
      case (Next p w1)
      obtain o1 extra where p: "p = (o1, extra)" by (cases p)
      from Next have w1: "w1 = w"
        by (auto simp: rb_parse_arg_def split: if_splits list.splits)
      have "length (drop extra rest) < length args" using Cons by simp
      with 1 have "final_world (rb_parse_args (drop extra rest) o1 w) = w" by blast
      with Cons Next p w1 show ?thesis by simp
    qed
  qed
qed

lemma git_push_local_tags: "git_push t w = Some w' \<Longrightarrow> local_tags w' = local_tags w"
  by (auto simp: git_push_def split: option.splits if_splits)

lemma git_tag_a_local_tags:
  "git_tag_a t c msg w = Some w' \<Longrightarrow>
     local_tags w' = local_tags w @ [(t, \<lparr>tag_commit = c, tag_message = msg\<rparr>)]"
  by (auto simp: git_tag_a_def split: if_splits)

lemma git_tag_a_nonempty: "git_tag_a [] c msg w = None"
  by (simp add: git_tag_a_def)

lemma perform_rollback_local_tags:
  "local_tags (final_world (perform_rollback cfg e t w)) = local_tags w \<or>
   (\<exists>obj. local_tags (final_world (perform_rollback cfg e t w)) =
      local_tags w @ [(t @ ''-rollback-'' @ show_nat (date_s cfg), obj)])"
proof (cases "rollback_tag cfg e t = []")
  case True
  then show ?thesis
    by (simp add: perform_rollback_def git_tag_a_nonempty Let_def split: option.splits)
next
  case False
  then have nt: "rollback_tag cfg e t = t @ ''-rollback-'' @ show_nat (date_s cfg)"
    by (simp add: rollback_tag_def split: if_splits)
  show ?thesis
    unfolding perform_rollback_def nt Let_def
    by (auto split: option.splits dest!: git_tag_a_local_tags git_push_local_tags)
qed

lemma then_step_final:
  assumes "\<And>c w'. s = Exit c w' \<Longrightarrow> Q w'"
    and "\<And>a w'. s = Exec_rollback a w' \<Longrightarrow> Q w'"
    and "\<And>x w'. s = Next x w' \<Longrightarrow> Q (final_world (f x w'))"
  shows "Q (final_world (then_step s f))"
  using assms by (cases s) auto

lemma tags_kept_cong:
  "local_tags w1 = local_tags w \<Longrightarrow> tags_kept_or_rollback_added cfg w1 w' \<Longrightarrow>
   tags_kept_or_rollback_added cfg w w'"
  by (simp add: tags_kept_or_rollback_added_def)

lemma tags_kept_same: "local_tags w' = local_tags w \<Longrightarrow> tags_kept_or_rollback_added cfg w w'"
  by (simp add: tags_kept_or_rollback_added_def)

lemma perform_rollback_kept:
  "tags_kept_or_rollback_added cfg w (final_world (perform_rollback cfg e t w))"
  using perform_rollback_local_tags [of cfg e t w]
  unfolding tags_kept_or_rollback_added_def by blast

lemma perform_then_exit_kept:
  "tags_kept_or_rollback_added cfg w
     (final_world (then_step (perform_rollback cfg e t w) (\<lambda>u w2. Exit 0 (say ls w2))))"
proof (cases "perform_rollback cfg e t w")
  case (Next x w2)
  with perform_rollback_kept [of cfg w e t] show ?thesis
    by (simp add: tags_kept_or_rollback_added_def)
qed (use perform_rollback_kept [of cfg w e t] in simp_all)

lemma rollback_run_kept:
  "tags_kept_or_rollback_added cfg w (final_world (rollback_run cfg opts w))"
proof -
  define picked where "picked = (if rb_environment opts = []
                       then (case read_line (stdin w) of (whole, choice, rest) \<Rightarrow>
                               (select_environment cfg choice, w\<lparr>stdin := rest\<rparr>))
                       else (rb_environment opts, w))"
  define env where "env = normalize_environment (fst picked)"
  define w0 where "w0 = snd picked"
  have w0: "local_tags w0 = local_tags w" by (simp add: w0_def picked_def split: prod.splits)
  define confirm where "confirm = (if rb_skip_confirm opts then Next () w0
                 else read_var w0 (\<lambda>confirm w1.
                        if confirm \<noteq> ''yes'' then Exit 0 (say [''Rollback cancelled''] w1)
                        else Next () w1))"
  define rest :: "unit \<Rightarrow> world \<Rightarrow> unit step"
    where "rest = (\<lambda>u w1. then_step (perform_rollback cfg env (rb_version opts) w1)
                           (\<lambda>u w2. Exit 0 (say [''Rollback Complete!''] w2)))"
  have run: "rollback_run cfg opts w =
     (if rb_show_history opts then (Exit 0 w :: unit step)
      else if env = ''staging'' \<and> \<not> has_staging_environment (SERVICE_NAME cfg) then
              Exit 1 (say [''Service '' @ SERVICE_NAME cfg @ '' does not support staging environment''] w0)
            else if get_deployment_history env (git_tag_l w0) = [] then
              Exit 1 (say [''No deployments found for '' @ env] w0)
            else if rb_version opts = [] then
              (case read_line (stdin w0) of (whole, choice, rest) \<Rightarrow> Exit 1 (w0\<lparr>stdin := rest\<rparr>))
            else if git_rev_parse (rb_version opts) w0 = None then
              Exit 1 (say [''Version '' @ rb_version opts @ '' does not exist''] w0)
            else then_step confirm rest)"
    unfolding rollback_run_def Let_def picked_def [symmetric] env_def [symmetric] w0_def [symmetric]
      confirm_def [symmetric] rest_def [symmetric] ..
  have tail: "tags_kept_or_rollback_added cfg w (final_world (then_step confirm rest))"
  proof (rule then_step_final)
    fix c w' assume "confirm = Exit c w'"
    then have "local_tags w' = local_tags w0"
      by (auto simp: confirm_def read_var_def split: if_splits prod.splits)
    with w0 show "tags_kept_or_rollback_added cfg w w'" by (simp add: tags_kept_same)
  next
    fix a w' assume "confirm = Exec_rollback a w'"
    then show "tags_kept_or_rollback_added cfg w w'"
      by (auto simp: confirm_def read_var_def split: if_splits prod.splits)
  next
    fix x w' assume "confirm = Next x w'"
    then have "local_tags w' = local_tags w0"
      by (auto simp: confirm_def read_var_def split: if_splits prod.splits)
    with w0 have "local_tags w' = local_tags w" by simp
    then show "tags_kept_or_rollback_added cfg w (final_world (rest x w'))"
      unfolding rest_def by (rule tags_kept_cong) (simp add: perform_then_exit_kept)
  qed
  show ?thesis
    unfolding run using tail w0 by (simp add: tags_kept_same split: prod.splits)
qed

lemma rollback_main_kept:
  "tags_kept_or_rollback_added cfg w (final_world (rollback_main cfg args w))"
  unfolding rollback_main_def
proof (rule then_step_final)
  fix c w' assume "rb_parse_args args rb_initial w = Exit c w'"
  then have "w' = w" using rb_parse_args_final_world [of args rb_initial w] by simp
  then show "tags_kept_or_rollback_added cfg w w'" by (simp add: tags_kept_same)
next
  fix a w' assume "rb_parse_args args rb_initial w = Exec_rollback a w'"
  then have "w' = w" using rb_parse_args_final_world [of args rb_initial w] by simp
  then show "tags_kept_or_rollback_added cfg w w'" by (simp add: tags_kept_same)
next
  fix x w' assume "rb_parse_args args rb_initial w = Next x w'"
  then have "w' = w" using rb_parse_args_final_world [of args rb_initial w] by simp
  then show "tags_kept_or_rollback_added cfg w (final_world (rollback_run cfg x w'))"
    by (simp add: rollback_run_kept)
qed

lemma git_tag_l_rollback_added:
  assumes "local_tags w' = local_tags w @ [(n, obj)]" and "\<not> P n"
  shows "filter P (git_tag_l w') = filter P (git_tag_l w)"
  using assms by (simp add: git_tag_l_def filter_sort_remdups)

lemma env_tags_rollback_added:
  assumes "local_tags w' = local_tags w @ [(t @ ''-rollback-'' @ show_nat n, obj)]"
  shows "env_tags env (git_tag_l w') = env_tags env (git_tag_l w)"
proof -
  have 1: "\<not> (tag_glob [] (t @ ''-rollback-'' @ show_nat n) \<and> grep_production (t @ ''-rollback-'' @ show_nat n))"
    using rollback_name_not_production by blast
  show ?thesis
    unfolding env_tags_def filter_filter
    using git_tag_l_rollback_added [where P = "\<lambda>x. tag_glob [] x \<and> grep_production x", OF assms 1]
      git_tag_l_rollback_added [where P = "tag_glob ''-dev''", OF assms rollback_name_not_dev]
      git_tag_l_rollback_added [where P = "tag_glob ''-staging''", OF assms rollback_name_not_staging]
    by simp
qed

lemma latest_kept:
  assumes "tags_kept_or_rollback_added cfg w w'"
  shows "get_latest_version env (git_tag_l w') = get_latest_version env (git_tag_l w)"
proof -
  from assms consider "local_tags w' = local_tags w"
    | t obj where "local_tags w' = local_tags w @ [(t @ ''-rollback-'' @ show_nat (date_s cfg), obj)]"
    unfolding tags_kept_or_rollback_added_def by blast
  then have "env_tags env (git_tag_l w') = env_tags env (git_tag_l w)"
  proof cases
    case 1
    then show ?thesis by (simp add: git_tag_l_def)
  next
    case 2
    then show ?thesis by (rule env_tags_rollback_added)
  qed
  then show ?thesis by (simp add: get_latest_version_def)
qed


lemma await_start_None:
  "await_start runs tag k = None \<longleftrightarrow>
     (\<forall>j. k < j \<and> j \<le> 10 \<longrightarrow> find (run_matches tag) (take 5 (runs j)) = None)"
proof (induction runs tag k rule: await_start.induct)
  case (1 runs tag k)
  show ?case
  proof (cases "k < 10")
    case False
    then show ?thesis by (auto simp: await_start.simps [of runs tag k])
  next
    case True
    show ?thesis
    proof (cases "find (run_matches tag) (take 5 (runs (k + 1)))")
      case (Some r)
      with True show ?thesis
        by (auto simp: await_start.simps [of runs tag k] intro!: exI [of _ "Suc k"])
    next
      case None
      have "(\<forall>j. k < j \<and> j \<le> 10 \<longrightarrow> find (run_matches tag) (take 5 (runs j)) = None) \<longleftrightarrow>
            (\<forall>j. k + 1 < j \<and> j \<le> 10 \<longrightarrow> find (run_matches tag) (take 5 (runs j)) = None)"
        using None by (metis Suc_eq_plus1 Suc_lessI less_SucI Suc_lessD)
      with 1 [OF True None] True None show ?thesis
        by (simp add: await_start.simps [of runs tag k])
    qed
  qed
qed

lemma await_start_Some:
  "await_start runs tag k = Some r \<Longrightarrow>
     run_matches tag r \<and> (\<exists>j. k < j \<and> j \<le> 10 \<and> r \<in> set (take 5 (runs j)))"
proof (induction runs tag k rule: await_start.induct)
  case (1 runs tag k)
  show ?case
  proof (cases "k < 10")
    case False
    with 1(2) show ?thesis by (simp add: await_start.simps [of runs tag k])
  next
    case True
    show ?thesis
    proof (cases "find (run_matches tag) (take 5 (runs (k + 1)))")
      case (Some r')
      with True 1(2) have "r' = r" by (simp add: await_start.simps [of runs tag k])
      with Some have "run_matches tag r" "r \<in> set (take 5 (runs (k + 1)))"
        by (auto simp: find_Some_iff in_set_conv_nth)
      with True show ?thesis by (intro conjI exI [of _ "k + 1"]) auto
    next
      case None
      with True 1(2) have "await_start runs tag (k + 1) = Some r"
        by (simp add: await_start.simps [of runs tag k])
      from 1(1) [OF True None this] obtain j where m: "run_matches tag r"
        and j: "k + 1 < j" "j \<le> 10" "r \<in> set (take 5 (runs j))" by blast
      from j have "k < j" by simp
      with m j show ?thesis by blast
    qed
  qed
qed

lemma monitor_cases:
  "monitor_github_actions cfg tag w =
     (case await_start (gh_run_list cfg) tag 0 of
        None \<Rightarrow> Next () (say [''Workflow not found yet. You can monitor manually at:'',
                             ''   https://github.com/'' @ github_repo cfg @ ''/actions''] w)
      | Some r \<Rightarrow>
          (case gh_run_view cfg (databaseId r) 1 of
             View_error n \<Rightarrow> Exit (Suc n) w
           | View workflow_status workflow_conclusion \<Rightarrow>
               if workflow_conclusion = ''success'' then
                 Next () (say [''Deployment completed successfully!'',
                               ''   View run: '' @ actions_url cfg @ ''/runs/'' @ show_nat (databaseId r)] w)
               else
                 Exit 1 (say [''Deployment failed with status: '' @ workflow_conclusion,
                              ''   View logs: '' @ actions_url cfg @ ''/runs/'' @ show_nat (databaseId r)] w)))"
  by (simp add: monitor_github_actions_def actions_url_def split: option.splits view.splits)

lemma example_rollback_run:
  "\<exists>w'. final_world (rollback_main example_config
       [''production'', ''--version'', ''v2.5.0'', ''--skip-confirm''] example_world) =
         say [''Rollback Complete!''] w' \<and>
     map_of (local_tags w') ''v2.5.0-rollback-1724850000'' =
       Some \<lparr>tag_commit = 5, tag_message = ''Rollback to v2.5.0 on production by alice''\<rparr>"
proof -
  have p: "rb_parse_args [''production'', ''--version'', ''v2.5.0'', ''--skip-confirm''] rb_initial example_world
     = Next \<lparr>rb_environment = ''production'', rb_version = ''v2.5.0'', rb_skip_confirm = True, rb_show_history = False\<rparr> example_world"
    by (simp add: rb_parse_arg_def rb_initial_def)
  have h: "get_deployment_history ''production'' [''v1.1.0-dev'', ''v2.0.0-staging'', ''v2.5.0'', ''v3.0.0''] \<noteq> []"
    by code_simp
  have e: "git_rev_parse ''v2.5.0'' example_world = Some 5"
    by (simp add: git_rev_parse_def example_world_def example_tags_def)
  have d: "date_s example_config = 1724850000" "user_name example_config = ''alice''"
    "SERVICE_NAME example_config = ''karma-admin-api''"
    by (simp_all add: example_config_def)
  have 1: "map_of (local_tags example_world) ''v2.5.0'' =
      Some \<lparr>tag_commit = 5, tag_message = ''Deploy karma-admin-api 2.5.0 to prod''\<rparr>"
    by (simp add: example_world_def example_tags_def)
  have 2: "map_of (local_tags example_world) (''v2.5.0'' @ ''-rollback-'' @ show_nat (date_s example_config)) = None"
    "map_of (remote_tags example_world) (''v2.5.0'' @ ''-rollback-'' @ show_nat (date_s example_config)) = None"
    by (simp_all add: d show_nat_date example_world_def example_tags_def)
  from perform_rollback_effect [OF _ 1 2, of "''production''"]
  obtain w' where w': "perform_rollback example_config ''production'' ''v2.5.0'' example_world = Next () w'"
     "map_of (local_tags w') ''v2.5.0-rollback-1724850000'' =
       Some \<lparr>tag_commit = 5, tag_message = ''Rollback to v2.5.0 on production by alice''\<rparr>"
    by (auto simp: d show_nat_date map_add_def example_world_def example_tags_def)
  have "final_world (rollback_main example_config
       [''production'', ''--version'', ''v2.5.0'', ''--skip-confirm''] example_world) = say [''Rollback Complete!''] w'"
    by (simp only: rollback_main_def p)
       (simp add: rollback_run_def normalize_environment_def git_tag_l_example h e w' Let_def)
  with w'(2) show ?thesis by blast
qed

lemma repo_unchanged_refl [simp]: "repo_unchanged w w"
  by (simp add: repo_unchanged_def)

lemma repo_unchanged_say [simp]: "repo_unchanged w (say ls w') = repo_unchanged w w'"
  by (simp add: repo_unchanged_def)

lemma repo_unchanged_stdin [simp]: "repo_unchanged w (w'\<lparr>stdin := x\<rparr>) = repo_unchanged w w'"
  by (simp add: repo_unchanged_def)

lemma repo_unchanged_trans: "repo_unchanged w w1 \<Longrightarrow> repo_unchanged w1 w2 \<Longrightarrow> repo_unchanged w w2"
  by (simp add: repo_unchanged_def)

lemma then_step_unchanged:
  assumes "repo_unchanged w (final_world s)"
    and "\<And>x w1. s = Next x w1 \<Longrightarrow> repo_unchanged w1 (final_world (f x w1))"
  shows "repo_unchanged w (final_world (then_step s f))"
  using assms by (cases s) (auto intro: repo_unchanged_trans)

lemma read_reply_unchanged:
  assumes "repo_unchanged w w0"
    and "\<And>l w1. repo_unchanged w1 (final_world (f l w1))"
  shows "repo_unchanged w (final_world (read_reply w0 f))"
proof -
  obtain got reply rest where r: "read_n1 (stdin w0) = (got, reply, rest)"
    by (cases "read_n1 (stdin w0)") auto
  have "repo_unchanged (w0\<lparr>stdin := rest\<rparr>) (final_world (f reply (w0\<lparr>stdin := rest\<rparr>)))" by (rule assms)
  with assms(1) have "repo_unchanged w (final_world (f reply (w0\<lparr>stdin := rest\<rparr>)))"
    by (simp add: repo_unchanged_def)
  with assms(1) r show ?thesis by (simp add: read_reply_def)
qed

lemma read_var_unchanged:
  assumes "repo_unchanged w w0"
    and "\<And>l w1. repo_unchanged w1 (final_world (f l w1))"
  shows "repo_unchanged w (final_world (read_var w0 f))"
proof -
  obtain whole v rest where r: "read_line (stdin w0) = (whole, v, rest)"
    by (cases "read_line (stdin w0)") auto
  have "repo_unchanged (w0\<lparr>stdin := rest\<rparr>) (final_world (f v (w0\<lparr>stdin := rest\<rparr>)))" by (rule assms)
  with assms(1) have "repo_unchanged w (final_world (f v (w0\<lparr>stdin := rest\<rparr>)))"
    by (simp add: repo_unchanged_def)
  with assms(1) r show ?thesis by (simp add: read_var_def)
qed

lemma parse_arg_unchanged: "repo_unchanged w (final_world (parse_arg cfg a rest opts w))"
  by (simp add: parse_arg_def split: list.splits)

lemma parse_args_unchanged: "repo_unchanged w (final_world (parse_args cfg args opts w))"
proof (induction args arbitrary: opts w rule: length_induct)
  case (1 args)
  show ?case
  proof (cases args)
    case Nil
    then show ?thesis by simp
  next
    case (Cons a rest)
    show ?thesis
    proof (cases "parse_arg cfg a rest opts w")
      case (Exit c w1)
      with parse_arg_unchanged [of w cfg a rest opts] Cons show ?thesis by simp
    next
      case (Exec_rollback x w1)
      with parse_arg_unchanged [of w cfg a rest opts] Cons show ?thesis by simp
    next
      case (Next p w1)
      obtain o1 extra where p: "p = (o1, extra)" by (cases p)
      from Next parse_arg_unchanged [of w cfg a rest opts] have u: "repo_unchanged w w1" by simp
      have "length (drop extra rest) < length args" using Cons by simp
      with 1 have "repo_unchanged w1 (final_world (parse_args cfg (drop extra rest) o1 w1))" by blast
      with u have "repo_unchanged w (final_world (parse_args cfg (drop extra rest) o1 w1))"
        by (rule repo_unchanged_trans)
      with Cons Next p show ?thesis by simp
    qed
  qed
qed

lemma select_action_unchanged: "repo_unchanged w (final_world (select_action cfg opts w))"
  unfolding select_action_def
  by (cases "opt_environment opts = []") (auto intro!: read_var_unchanged)

lemma convert_environment_unchanged: "repo_unchanged w (final_world (convert_environment cfg opts w))"
  by (simp add: convert_environment_def Let_def)

lemma check_git_status_unchanged: "repo_unchanged w (final_world (check_git_status opts w))"
  unfolding check_git_status_def
  by (cases "dirty w") (auto intro!: read_reply_unchanged)

lemma check_branch_unchanged: "repo_unchanged w (final_world (check_branch cfg opts w))"
  unfolding check_branch_def
  by (cases "is_prod (opt_environment opts) \<and> current_branch w \<notin> set (DEPLOY_BRANCHES cfg)")
     (auto intro!: read_reply_unchanged)

lemma choose_increment_unchanged: "repo_unchanged w (final_world (choose_increment opts v k w))"
  by (simp add: choose_increment_def split: sum.splits)

lemma determine_version_unchanged: "repo_unchanged w (final_world (determine_version opts w))"
proof -
  have inner: "repo_unchanged w0 (final_world (read_var w0 (\<lambda>new_version w1.
               if \<not> match_xyz new_version then
                 Exit 1 (say [''Invalid version format. Must be X.Y.Z''] w1)
               else Next (opts\<lparr>opt_new_version := new_version\<rparr>) w1)))" for w0
    by (rule read_var_unchanged) simp_all
  show ?thesis
    unfolding determine_version_def Let_def
    by (cases "opt_rebuild_mode opts"; cases "opt_specific_version opts \<noteq> []")
       (auto intro!: read_var_unchanged simp: choose_increment_unchanged inner)
qed

lemma main_resolve_unchanged: "repo_unchanged w (final_world (main_resolve cfg args w))"
  unfolding main_resolve_def
  by (intro then_step_unchanged parse_args_unchanged select_action_unchanged
      convert_environment_unchanged check_git_status_unchanged check_branch_unchanged
      determine_version_unchanged)

lemma deploy_tag_prod: "is_prod env \<Longrightarrow> deploy_tag version env = VERSION_PREFIX @ version"
  by (auto simp: is_prod_def deploy_tag_def)

lemma production_gate:
  assumes "main_resolve cfg args w = Next opts w1"
    and "is_prod (opt_environment opts)"
    and "read_line (stdin w1) = (whole, confirmation, rest)"
    and "\<not> whole \<or> confirmation \<noteq> ''DEPLOY '' @ deploy_tag (opt_new_version opts) (opt_environment opts)"
  shows "\<exists>w'. main cfg args w = Exit 1 w' \<and> repo_unchanged w w'"
proof -
  from main_resolve_unchanged [of w cfg args] assms(1) have u: "repo_unchanged w w1" by simp
  from assms(2-4) have "\<exists>w'. confirm_production opts w1 = Exit 1 w' \<and> repo_unchanged w1 w'"
    by (auto simp: confirm_production_def read_var_def deploy_tag_prod)
  then obtain w' where c: "confirm_production opts w1 = Exit 1 w'" and u': "repo_unchanged w1 w'" by blast
  from assms(1) c have "main cfg args w = Exit 1 w'" by (simp add: main_def)
  with u u' show ?thesis by (blast intro: repo_unchanged_trans)
qed

lemma production_pass:
  assumes "main_resolve cfg args w = Next opts w1"
    and "is_prod (opt_environment opts)"
    and "read_line (stdin w1) =
           (True, ''DEPLOY '' @ deploy_tag (opt_new_version opts) (opt_environment opts), rest)"
  shows "main cfg args w = main_deploy cfg opts (w1\<lparr>stdin := rest\<rparr>)"
  using assms by (simp add: main_def confirm_production_def read_var_def deploy_tag_prod)

lemma main_resolve_ends:
  "main_resolve cfg args w = Exit c w' \<Longrightarrow> main cfg args w = Exit c w' \<and> repo_unchanged w w'"
  "main_resolve cfg args w = Exec_rollback a w' \<Longrightarrow> main cfg args w = Exec_rollback a w' \<and> repo_unchanged w w'"
  using main_resolve_unchanged [of w cfg args] by (auto simp: main_def)

lemma monitor_fields [simp]:
  "local_tags (final_world (monitor_github_actions cfg tag w)) = local_tags w"
  "remote_tags (final_world (monitor_github_actions cfg tag w)) = remote_tags w"
  "git_log (final_world (monitor_github_actions cfg tag w)) = git_log w"
  "head_commit (final_world (monitor_github_actions cfg tag w)) = head_commit w"
  "stdin (final_world (monitor_github_actions cfg tag w)) = stdin w"
  by (simp_all add: monitor_github_actions_def Let_def split: option.splits view.splits)

lemma deploy_report_fields [simp]:
  "local_tags (final_world (deploy_report cfg mon tag w)) = local_tags w"
  "remote_tags (final_world (deploy_report cfg mon tag w)) = remote_tags w"
  "git_log (final_world (deploy_report cfg mon tag w)) = git_log w"
  "head_commit (final_world (deploy_report cfg mon tag w)) = head_commit w"
  "stdin (final_world (deploy_report cfg mon tag w)) = stdin w"
  by (simp_all add: deploy_report_def Let_def)

lemma deploy_report_not_exec: "deploy_report cfg mon tag w \<noteq> Exec_rollback a w'"
  by (simp add: deploy_report_def monitor_github_actions_def Let_def split: option.splits view.splits)

lemma deploy_tag_nonempty: "deploy_tag version env \<noteq> []"
  by (simp add: deploy_tag_def VERSION_PREFIX_def Let_def)

lemma map_of_filter_out [simp]: "map_of (filter (\<lambda>p. fst p \<noteq> t) xs) t = None"
  by (induction xs) auto

lemma map_of_filter_other [simp]: "t' \<noteq> t \<Longrightarrow> map_of (filter (\<lambda>p. fst p \<noteq> t) xs) t' = map_of xs t'"
  by (induction xs) auto

lemma rebuild_effect:
  fixes cfg mon version env msg w
  defines "tag \<equiv> deploy_tag version env"
    and "msg1 \<equiv> (if msg = [] then ''Rebuild '' @ SERVICE_NAME cfg @ '' '' @ version @ '' for '' @ env else msg)"
  defines "w' \<equiv> final_world (deploy_version cfg mon version env msg True w)"
  shows "local_tags w' = filter (\<lambda>p. fst p \<noteq> tag) (local_tags w) @
            [(tag, \<lparr>tag_commit = head_commit w, tag_message = msg1\<rparr>)]"
    and "remote_tags w' = filter (\<lambda>p. fst p \<noteq> tag) (remote_tags w) @
            [(tag, \<lparr>tag_commit = head_commit w, tag_message = msg1\<rparr>)]"
    and "git_log w' = git_log w @
            (if map_of (local_tags w) tag = None then [] else [Tag_delete tag]) @
            (if map_of (remote_tags w) tag = None then [] else [Push_delete tag]) @
            [Tag_force tag (head_commit w) msg1, Push_force tag]"
    and "stdin w' = stdin w"
proof -
  let ?w1 = "git_tag_a_f tag msg1 (git_push_delete tag (git_tag_d tag w))"
  have l1: "local_tags ?w1 = filter (\<lambda>p. fst p \<noteq> tag) (local_tags w) @
            [(tag, \<lparr>tag_commit = head_commit w, tag_message = msg1\<rparr>)]"
    by (simp add: git_tag_a_f_def git_push_delete_def git_tag_d_def)
  have r1: "remote_tags ?w1 = filter (\<lambda>p. fst p \<noteq> tag) (remote_tags w)"
    by (simp add: git_tag_a_f_def git_push_delete_def git_tag_d_def)
       (metis (mono_tags, lifting) filter_True map_of_eq_None_iff image_eqI fst_conv prod.collapse)
  have g1: "git_log ?w1 = git_log w @
            (if map_of (local_tags w) tag = None then [] else [Tag_delete tag]) @
            (if map_of (remote_tags w) tag = None then [] else [Push_delete tag]) @
            [Tag_force tag (head_commit w) msg1]"
    by (simp add: git_tag_a_f_def git_push_delete_def git_tag_d_def)
  have m1: "map_of (local_tags ?w1) tag = Some \<lparr>tag_commit = head_commit w, tag_message = msg1\<rparr>"
    unfolding l1 by (simp add: map_add_def)
  define w2 where "w2 = ?w1\<lparr>remote_tags := filter (\<lambda>p. fst p \<noteq> tag) (remote_tags ?w1) @
       [(tag, \<lparr>tag_commit = head_commit w, tag_message = msg1\<rparr>)], git_log := git_log ?w1 @ [Push_force tag]\<rparr>"
  have p: "git_push_f tag ?w1 = Some w2"
    by (simp add: git_push_f_def m1 w2_def)
  have dv: "deploy_version cfg mon version env msg True w = deploy_report cfg mon tag w2"
    by (subst deploy_version.simps) (simp add: Let_def tag_def [symmetric] msg1_def [symmetric] p)
  show "local_tags w' = filter (\<lambda>p. fst p \<noteq> tag) (local_tags w) @
            [(tag, \<lparr>tag_commit = head_commit w, tag_message = msg1\<rparr>)]"
    unfolding w'_def dv by (simp add: w2_def l1)
  show "remote_tags w' = filter (\<lambda>p. fst p \<noteq> tag) (remote_tags w) @
            [(tag, \<lparr>tag_commit = head_commit w, tag_message = msg1\<rparr>)]"
    unfolding w'_def dv by (simp add: w2_def r1)
  show "git_log w' = git_log w @
            (if map_of (local_tags w) tag = None then [] else [Tag_delete tag]) @
            (if map_of (remote_tags w) tag = None then [] else [Push_delete tag]) @
            [Tag_force tag (head_commit w) msg1, Push_force tag]"
    unfolding w'_def dv by (simp add: w2_def g1)
  show "stdin w' = stdin w"
    unfolding w'_def dv by (simp add: w2_def git_tag_a_f_def git_push_delete_def git_tag_d_def)
qed

lemma deploy_create_kept:
  "existing_tags_kept w (final_world
     (case git_tag_a tag c msg w of
        None \<Rightarrow> Exit 128 w
      | Some w1 \<Rightarrow> (case git_push tag w1 of None \<Rightarrow> Exit 1 w1
                    | Some w2 \<Rightarrow> deploy_report cfg mon tag w2)))"
proof (cases "git_tag_a tag c msg w")
  case None
  then show ?thesis by (simp add: existing_tags_kept_def)
next
  case (Some w1)
  then have l1: "local_tags w1 = local_tags w @ [(tag, \<lparr>tag_commit = c, tag_message = msg\<rparr>)]"
    and r1: "remote_tags w1 = remote_tags w"
    by (auto simp: git_tag_a_def split: if_splits)
  have k1: "existing_tags_kept w w1"
    unfolding existing_tags_kept_def l1 r1 by (simp add: map_add_def)
  show ?thesis
  proof (cases "git_push tag w1")
    case None
    with Some k1 show ?thesis by simp
  next
    case (Some w2)
    then have "local_tags w2 = local_tags w1"
      and "\<forall>t obj. map_of (remote_tags w1) t = Some obj \<longrightarrow> map_of (remote_tags w2) t = Some obj"
      by (auto simp: git_push_def map_add_def split: option.splits if_splits)
    with k1 have "existing_tags_kept w w2"
      unfolding existing_tags_kept_def by simp
    then have "existing_tags_kept w (final_world (deploy_report cfg mon tag w2))"
      unfolding existing_tags_kept_def by simp
    with \<open>git_tag_a tag c msg w = Some w1\<close> Some show ?thesis by simp
  qed
qed

lemma deploy_version_no_collision:
  assumes "git_rev_parse (deploy_tag version env) w = None"
  shows "existing_tags_kept w (final_world (deploy_version cfg mon version env msg False w))"
  by (subst deploy_version.simps) (simp add: Let_def assms deploy_create_kept)

lemma tag_exists_rev_parse: "tag_exists t w \<Longrightarrow> git_rev_parse t w \<noteq> None"
  by (auto simp: tag_exists_def git_rev_parse_def)

lemma deploy_version_collision_eof:
  assumes "git_rev_parse (deploy_tag version env) w \<noteq> None"
    and "read_line (stdin w) = (False, choice, rest)"
  shows "deploy_version cfg mon version env msg False w =
     Exit 1 (say ((''Tag '' @ deploy_tag version env @ '' already exists'') # ''Options:'' # collision_options) w
               \<lparr>stdin := rest\<rparr>)"
  by (subst deploy_version.simps) (simp add: Let_def assms read_var_def)

lemma deploy_version_collision_rebuild:
  assumes "git_rev_parse (deploy_tag version env) w \<noteq> None"
    and "read_line (stdin w) = (True, ''1'', rest)"
  shows "deploy_version cfg mon version env msg False w =
     deploy_version cfg mon version env
       (if msg = [] then ''Deploy '' @ SERVICE_NAME cfg @ '' '' @ version @ '' to '' @ env else msg) True
       (say ((''Tag '' @ deploy_tag version env @ '' already exists'') # ''Options:'' # collision_options) w
          \<lparr>stdin := rest\<rparr>)"
  by (subst deploy_version.simps) (simp add: Let_def assms read_var_def)

lemma deploy_version_collision_other:
  assumes "tag_exists (deploy_tag version env) w"
    and "read_line (stdin w) = (True, choice, rest)" and "choice \<noteq> ''1''"
  shows "\<exists>w'. deploy_version cfg mon version env msg False w =
           Exit (if choice = ''2'' then 0 else if choice = ''3'' then 1 else 128) w' \<and>
         repo_unchanged w w' \<and>
         take (length (stdout w) + 5) (stdout w') =
           stdout w @ (''Tag '' @ deploy_tag version env @ '' already exists'') # ''Options:'' # collision_options"
proof -
  let ?w0 = "say ((''Tag '' @ deploy_tag version env @ '' already exists'') # ''Options:'' # collision_options) w
          \<lparr>stdin := rest\<rparr>"
  have a: "git_tag_a (deploy_tag version env) c m (say ls w\<lparr>stdin := rest\<rparr>) = None" for c m ls
    using assms(1) by (simp add: git_tag_a_def tag_exists_def)
  have r: "deploy_version cfg mon version env msg False w =
      (if choice = ''2'' then Exit 0 (say [''Please run the script again with a different version''] ?w0)
       else if choice = ''3'' then Exit 1 (say [''Deployment cancelled''] ?w0)
       else Exit 128 ?w0)"
    by (subst deploy_version.simps)
       (simp add: Let_def assms(2,3) tag_exists_rev_parse [OF assms(1)] read_var_def a)
  show ?thesis
    unfolding r by (simp add: repo_unchanged_def collision_options_def)
qed

lemma insert_V_set: "set (insert_V x ys) = insert x (set ys)"
  by (induction ys) auto

lemma sort_V_set: "set (sort_V xs) = set xs"
  unfolding sort_V_def by (induction xs) (simp_all add: insert_V_set)

lemma tail_1_sort_V: "xs \<noteq> [] \<Longrightarrow> tail_1 (sort_V xs) \<in> set xs"
proof -
  assume "xs \<noteq> []"
  then have "sort_V xs \<noteq> []" using sort_V_set [of xs] by (metis set_empty)
  then have "last (sort_V xs) \<in> set (sort_V xs)" by simp
  with \<open>sort_V xs \<noteq> []\<close> show ?thesis by (simp add: tail_1_def sort_V_set)
qed

lemma env_tags_member:
  assumes "t \<in> set (env_tags env tags)"
  shows "t \<in> set tags"
    and "if is_prod env then grep_production t
         else if env = ''staging'' then tag_glob ''-staging'' t else tag_glob ''-dev'' t"
  using assms by (auto simp: env_tags_def is_prod_def split: if_splits)

lemma strip_shortest_last: "c \<notin> set r \<Longrightarrow> strip_shortest_from c (m @ c # r) = m"
proof -
  assume c: "c \<notin> set r"
  then have "dropWhile (\<lambda>x. x \<noteq> c) (rev r @ c # rev m) = c # rev m"
    by (induction r rule: rev_induct) auto
  then show ?thesis by (simp add: strip_shortest_from_def)
qed

lemma tag_glob_split:
  assumes "tag_glob suf t"
  shows "\<exists>mid. t = VERSION_PREFIX @ mid @ suf"
proof -
  from assms have p: "take (length VERSION_PREFIX) t = VERSION_PREFIX"
    and e: "ends_with suf (drop (length VERSION_PREFIX) t)"
    by (simp_all add: tag_glob_def)
  let ?d = "drop (length VERSION_PREFIX) t"
  from e have "?d = take (length ?d - length suf) ?d @ suf"
    unfolding ends_with_def by (metis append_take_drop_id)
  moreover from p have "t = VERSION_PREFIX @ ?d" by (metis append_take_drop_id)
  ultimately show ?thesis by metis
qed

lemma strip_prefix_append [simp]: "strip_prefix p (p @ s) = s"
  by (simp add: strip_prefix_def)

lemma rebuild_tag_suffix:
  assumes "tag_glob (CHR ''-'' # r) t" and "CHR ''-'' \<notin> set r"
  shows "VERSION_PREFIX @ tag_version t @ CHR ''-'' # r = t"
proof -
  from tag_glob_split [OF assms(1)] obtain mid where t: "t = VERSION_PREFIX @ mid @ CHR ''-'' # r" by blast
  have "tag_version t = mid"
    unfolding t tag_version_def by (simp add: strip_shortest_last assms(2))
  then show ?thesis using t by simp
qed

lemma rebuild_tag_production:
  assumes "grep_production t"
  shows "VERSION_PREFIX @ tag_version t = t"
proof -
  let ?d = "drop (length VERSION_PREFIX) t"
  from assms have p: "take (length VERSION_PREFIX) t = VERSION_PREFIX" and m: "match_xyz ?d"
    by (simp_all add: grep_production_def)
  from p have t: "t = VERSION_PREFIX @ ?d" by (metis append_take_drop_id)
  have "CHR ''-'' \<notin> set ?d"
  proof
    assume "CHR ''-'' \<in> set ?d"
    from match_xyz_chars [OF m this] show False by (simp add: isdigit_def)
  qed
  then have "strip_shortest_from CHR ''-'' ?d = ?d" by (rule strip_shortest_absent)
  then have "tag_version t = ?d"
    unfolding tag_version_def by (subst t) simp
  with t show ?thesis by simp
qed

lemma rebuild_tag:
  assumes "t \<in> set (env_tags env tags)"
  shows "deploy_tag (tag_version t) env = t"
proof -
  note m = env_tags_member(2) [OF assms]
  show ?thesis
  proof (cases "is_prod env")
    case True
    with m have "grep_production t" by simp
    with True show ?thesis by (simp add: deploy_tag_prod rebuild_tag_production)
  next
    case False
    show ?thesis
    proof (cases "env = ''staging''")
      case True
      with m False have "tag_glob ''-staging'' t" by simp
      from rebuild_tag_suffix [OF this] True show ?thesis by (simp add: deploy_tag_def)
    next
      case ns: False
      with m False have "tag_glob ''-dev'' t" by simp
      from rebuild_tag_suffix [OF this] ns False show ?thesis
        by (simp add: deploy_tag_def is_prod_def)
    qed
  qed
qed

lemma latest_in_env_tags:
  assumes "env_tags env tags \<noteq> []"
  shows "get_latest_version env tags \<in> set (env_tags env tags)"
proof -
  from tail_1_sort_V [OF assms] have i: "tail_1 (sort_V (env_tags env tags)) \<in> set (env_tags env tags)" .
  have "tail_1 (sort_V (env_tags env tags)) \<noteq> []"
  proof
    assume e: "tail_1 (sort_V (env_tags env tags)) = []"
    with i have "[] \<in> set (env_tags env tags)" by simp
    from env_tags_member(2) [OF this] show False
      by (auto simp: grep_production_def tag_glob_def VERSION_PREFIX_def split: if_splits)
  qed
  with i show ?thesis by (simp add: get_latest_version_def)
qed

lemma git_tag_l_set: "set (git_tag_l w) = fst ` set (local_tags w)"
  by (simp add: git_tag_l_def)

lemma git_tag_l_cong: "fst ` set (local_tags w') = fst ` set (local_tags w) \<Longrightarrow> git_tag_l w' = git_tag_l w"
  unfolding git_tag_l_def sorted_list_of_set_sort_remdups [symmetric] by simp

lemma example_world_fields:
  "dirty example_world = False" "current_branch example_world = ''master''"
  "package_json example_world = None" "local_tags example_world = example_tags"
  "remote_tags example_world = example_tags" "git_log example_world = []"
  "head_commit example_world = 10" "stdout example_world = []" "stdin example_world = []"
  "revisions example_world = [(''HEAD'', 10), (''master'', 10)]"
  by (simp_all add: example_world_def)

lemma read_key_y: "read_n1 ''y'' = (True, ''y'', [])"
  by code_simp

lemma example_config_fields:
  "SERVICE_NAME example_config = ''karma-admin-api''" "ENABLE_PREVIEW example_config = True"
  "ENABLE_HOTFIX example_config = True" "MONITOR_DEPLOYMENT example_config = True"
  "gh_installed example_config = True" "DEPLOY_BRANCHES example_config = [''master'', ''main'']"
  "github_repo example_config = ''karmadev/karma-admin-api''"
  by (simp_all add: example_config_def)

lemma example_no_run: "await_start (gh_run_list example_config) tag 0 = None"
  by (simp add: await_start_None example_config_def)

lemma git_tag_l_example_stdin:
  "git_tag_l (example_world\<lparr>stdin := x\<rparr>) = [''v1.1.0-dev'', ''v2.0.0-staging'', ''v2.5.0'', ''v3.0.0'']"
  using git_tag_l_example by (simp add: git_tag_l_def)

lemma example_version_argument:
  "\<exists>w'. main example_config [''dev'', ''--version'', ''1.0''] (example_world\<lparr>stdin := ''y''\<rparr>) = Exit 0 w' \<and>
      git_log w' = [Tag_create ''v1.0-dev'' 10 ''Deploy karma-admin-api 1.0 to dev'', Push_tag ''v1.0-dev'']"
proof -
  let ?w = "example_world\<lparr>stdin := ''y''\<rparr>"
  let ?opts = "initial_options example_config\<lparr>opt_environment := ''dev'', opt_specific_version := ''1.0'',
                 opt_new_version := ''1.0''\<rparr>"
  have p: "parse_args example_config [''dev'', ''--version'', ''1.0''] (initial_options example_config) ?w =
      Next (initial_options example_config\<lparr>opt_environment := ''development'', opt_specific_version := ''1.0''\<rparr>) ?w"
    by (simp add: parse_arg_def)
  have r: "main_resolve example_config [''dev'', ''--version'', ''1.0''] ?w = Next ?opts ?w"
    unfolding main_resolve_def p
    by (simp add: select_action_def convert_environment_def check_git_status_def check_branch_def
        determine_version_def is_prod_def Let_def example_world_fields initial_options_def)
  have c: "confirm_production ?opts ?w = Next ?opts ?w"
    by (simp add: confirm_production_def is_prod_def)
  let ?w2 = "say [''Deployment Preview:'', ''   Tag: '' @ deploy_tag ''1.0'' ''dev''] ?w\<lparr>stdin := []\<rparr>"
  have pv: "preview example_config ?opts ?w = Next ?opts ?w2"
    by (simp add: preview_def example_config_fields initial_options_def read_reply_def newline_def
        NUL_def is_yes_def Let_def)
  have up: "update_package_json ?opts ?w2 = Next ?opts ?w2"
    by (simp add: update_package_json_def example_world_fields)
  have t: "deploy_tag ''1.0'' ''dev'' = ''v1.0-dev''" by code_simp
  have ne: "map_of example_tags ''v1.0-dev'' = None" by (simp add: example_tags_def)
  have dv: "\<exists>w3. deploy_version example_config True ''1.0'' ''dev'' [] False ?w2 = Next () w3 \<and>
      git_log w3 = [Tag_create ''v1.0-dev'' 10 ''Deploy karma-admin-api 1.0 to dev'', Push_tag ''v1.0-dev'']"
    by (subst deploy_version.simps)
       (simp add: Let_def t git_rev_parse_def example_world_fields ne git_tag_a_def git_push_def map_add_def
          deploy_report_def monitor_github_actions_def example_no_run example_config_fields)
  then obtain w3 where w3: "deploy_version example_config True ''1.0'' ''dev'' [] False ?w2 = Next () w3"
    "git_log w3 = [Tag_create ''v1.0-dev'' 10 ''Deploy karma-admin-api 1.0 to dev'', Push_tag ''v1.0-dev'']"
    by blast
  have o: "opt_monitor ?opts = True" "opt_new_version ?opts = ''1.0''" "opt_environment ?opts = ''dev''"
    "opt_message ?opts = []" "opt_rebuild_mode ?opts = False"
    by (simp_all add: initial_options_def example_config_fields)
  have "main example_config [''dev'', ''--version'', ''1.0''] ?w = Exit 0 (say [''Deployment script completed!''] w3)"
    unfolding main_def r then_step.simps c main_deploy_def pv up o w3 ..
  with w3(2) show ?thesis by simp
qed

lemma example_custom_version:
  "main example_config [''dev''] (example_world\<lparr>stdin := typed [''4'', ''1.0'']\<rparr>) =
      Exit 1 (say [''Invalid version format. Must be X.Y.Z''] (example_world\<lparr>stdin := []\<rparr>))"
proof -
  let ?w = "example_world\<lparr>stdin := typed [''4'', ''1.0'']\<rparr>"
  have p: "parse_args example_config [''dev''] (initial_options example_config) ?w =
      Next (initial_options example_config\<lparr>opt_environment := ''development''\<rparr>) ?w"
    by (simp add: parse_arg_def)
  have m: "\<not> match_xyz ''1.0''" by code_simp
  have r1: "read_line (typed [''4'', ''1.0'']) = (True, ''4'', typed [''1.0''])" by code_simp
  have r2: "read_line (typed [''1.0'']) = (True, ''1.0'', [])" by code_simp
  have r: "main_resolve example_config [''dev''] ?w =
      Exit 1 (say [''Invalid version format. Must be X.Y.Z''] (example_world\<lparr>stdin := []\<rparr>))"
    unfolding main_resolve_def p
    by (simp add: select_action_def convert_environment_def check_git_status_def check_branch_def
        determine_version_def is_prod_def Let_def example_world_fields initial_options_def
        read_var_def r1 r2 m)
  show ?thesis unfolding main_def r by simp
qed


lemma example_resolve:
  "main_resolve example_config [''prod''] (example_world\<lparr>stdin := typed [''1''] @ rest\<rparr>) =
     Next \<lparr>opt_environment = ''prod'', opt_increment_type = ''patch'', opt_specific_version = [],
            opt_message = [], opt_preview_mode = False, opt_rebuild_mode = False, opt_monitor = True,
            opt_new_version = ''3.0.1''\<rparr>
          (example_world\<lparr>stdin := rest\<rparr>)"
proof -
  have p: "parse_args example_config [''prod''] (initial_options example_config) w =
      Next (initial_options example_config\<lparr>opt_environment := ''production''\<rparr>) w" for w
    by (simp add: parse_arg_def)
  have l: "get_latest_version ''prod'' [''v1.1.0-dev'', ''v2.0.0-staging'', ''v2.5.0'', ''v3.0.0''] = ''v3.0.0''"
    by code_simp
  have g: "git_tag_l (example_world\<lparr>stdin := x\<rparr>) = [''v1.1.0-dev'', ''v2.0.0-staging'', ''v2.5.0'', ''v3.0.0'']" for x
    using git_tag_l_example by (simp add: git_tag_l_def)
  have i: "increment_version (tag_version ''v3.0.0'') ''patch'' = Inr ''3.0.1''"
    by code_simp
  have r1: "read_line (typed [''1''] @ rest) = (True, ''1'', rest)"
    by (simp add: typed_def read_line_def read_value_def newline_def backslash_def NUL_def CTLESC_def
        CTLNUL_def ifs_blank_def dequote_string_def Let_def)
  show ?thesis
    unfolding main_resolve_def p
    by (simp add: select_action_def convert_environment_def check_git_status_def check_branch_def
        determine_version_def is_prod_def read_var_def r1 choose_increment_def g l i Let_def
        initial_options_def example_config_def)
       (simp add: example_world_def)
qed


lemma typed_Cons: "typed (l # ls) = l @ newline # typed ls"
  by (simp add: typed_def)

lemma typed_Nil [simp]: "typed [] = []"
  by (simp add: typed_def)

lemma example_no_run_v2: "await_start_v2 example_config tag 0 = None"
  by (simp add: example_config_def await_start_v2.simps)

lemma example_production_deploy:
  "\<exists>w'. main_deploy example_config
       \<lparr>opt_environment = ''prod'', opt_increment_type = ''patch'', opt_specific_version = [],
        opt_message = [], opt_preview_mode = False, opt_rebuild_mode = False, opt_monitor = True,
        opt_new_version = ''3.0.1''\<rparr>
       (example_world\<lparr>stdin := ''y''\<rparr>) = Exit 0 w' \<and>
     git_log w' = [Tag_create ''v3.0.1'' 10 ''Deploy karma-admin-api 3.0.1 to prod'', Push_tag ''v3.0.1'']"
proof -
  let ?opts = "\<lparr>opt_environment = ''prod'', opt_increment_type = ''patch'', opt_specific_version = [],
        opt_message = [], opt_preview_mode = False, opt_rebuild_mode = False, opt_monitor = True,
        opt_new_version = ''3.0.1''\<rparr>"
  let ?w = "example_world\<lparr>stdin := ''y''\<rparr>"
  let ?w2 = "say [''Deployment Preview:'', ''   Tag: '' @ deploy_tag ''3.0.1'' ''prod''] ?w\<lparr>stdin := []\<rparr>"
  have pv: "preview example_config ?opts ?w = Next ?opts ?w2"
    by (simp add: preview_def example_config_fields read_reply_def newline_def NUL_def is_yes_def Let_def)
  have up: "update_package_json ?opts ?w2 = Next ?opts ?w2"
    by (simp add: update_package_json_def example_world_fields)
  have t: "deploy_tag ''3.0.1'' ''prod'' = ''v3.0.1''" by code_simp
  have ne: "map_of example_tags ''v3.0.1'' = None" by (simp add: example_tags_def)
  have dv: "\<exists>w3. deploy_version example_config True ''3.0.1'' ''prod'' [] False ?w2 = Next () w3 \<and>
      git_log w3 = [Tag_create ''v3.0.1'' 10 ''Deploy karma-admin-api 3.0.1 to prod'', Push_tag ''v3.0.1'']"
    by (subst deploy_version.simps)
       (simp add: Let_def t git_rev_parse_def example_world_fields ne git_tag_a_def git_push_def map_add_def
          deploy_report_def monitor_github_actions_def example_no_run example_config_fields)
  then obtain w3 where w3: "deploy_version example_config True ''3.0.1'' ''prod'' [] False ?w2 = Next () w3"
    "git_log w3 = [Tag_create ''v3.0.1'' 10 ''Deploy karma-admin-api 3.0.1 to prod'', Push_tag ''v3.0.1'']"
    by blast
  have o: "opt_monitor ?opts = True" "opt_new_version ?opts = ''3.0.1''" "opt_environment ?opts = ''prod''"
    "opt_message ?opts = []" "opt_rebuild_mode ?opts = False"
    by simp_all
  have "main_deploy example_config ?opts ?w = Exit 0 (say [''Deployment script completed!''] w3)"
    unfolding main_deploy_def pv then_step.simps up o w3 ..
  with w3(2) show ?thesis by simp
qed

lemma example_main_v2:
  "\<exists>w'. main_v2 example_config [''prod''] (example_world\<lparr>stdin := ''y''\<rparr>) = Exit 0 w' \<and>
     git_log w' = [Tag_create ''v3.0.1'' 10 ''Deploy karma-admin-api 3.0.1 to production'', Push_tag ''v3.0.1'']"
proof -
  let ?w = "example_world\<lparr>stdin := ''y''\<rparr>"
  let ?start = "initial_options example_config\<lparr>opt_environment := ''production''\<rparr>"
  let ?opts = "initial_options example_config\<lparr>opt_environment := ''production'', opt_new_version := ''3.0.1''\<rparr>"
  have p: "parse_args_v2 [''prod''] (initial_options example_config) ?w = Next ?start ?w"
    by (simp add: parse_arg_v2_def)
  have va: "validate_environment_v2 example_config ?start ?w = Next ?start ?w"
    by (simp add: validate_environment_v2_def)
  have cg: "check_git_status ?start ?w = Next ?start ?w"
    by (simp add: check_git_status_def example_world_fields)
  have cb: "check_branch_v2 example_config ?start ?w = Next ?start ?w"
    by (simp add: check_branch_v2_def example_world_fields example_config_fields)
  have l: "get_latest_version_v2 ''production'' [''v1.1.0-dev'', ''v2.0.0-staging'', ''v2.5.0'', ''v3.0.0''] = ''v3.0.0''"
    by code_simp
  have i: "increment_version_v2 ''v3.0.0'' ''patch'' = Inr ''3.0.1''"
    by code_simp
  have dt: "determine_version_v2 ?start ?w = Next ?opts ?w"
    by (simp add: determine_version_v2_def initial_options_def git_tag_l_example_stdin l i Let_def)
  let ?w2 = "say [''Deployment Preview:'', ''   Tag: '' @ deploy_tag_v2 ''3.0.1'' ''production''] ?w\<lparr>stdin := []\<rparr>"
  have pv: "preview_v2 example_config ?opts ?w = Next ?opts ?w2"
    by (simp add: preview_v2_def example_config_fields initial_options_def read_reply_def newline_def
        NUL_def is_yes_def Let_def)
  have t: "deploy_tag_v2 ''3.0.1'' ''production'' = ''v3.0.1''" by code_simp
  have ne: "map_of example_tags ''v3.0.1'' = None" by (simp add: example_tags_def)
  have dv: "\<exists>w3. deploy_version_v2 example_config ''3.0.1'' ''production'' [] ?w2 = Next () w3 \<and>
      git_log w3 = [Tag_create ''v3.0.1'' 10 ''Deploy karma-admin-api 3.0.1 to production'', Push_tag ''v3.0.1'']"
    by (simp add: deploy_version_v2_def Let_def t example_world_fields ne git_tag_a_def git_push_def
          map_add_def monitor_github_actions_v2_def example_no_run_v2 example_config_fields)
  then obtain w3 where w3: "deploy_version_v2 example_config ''3.0.1'' ''production'' [] ?w2 = Next () w3"
    "git_log w3 = [Tag_create ''v3.0.1'' 10 ''Deploy karma-admin-api 3.0.1 to production'', Push_tag ''v3.0.1'']"
    by blast
  have o: "opt_new_version ?opts = ''3.0.1''" "opt_environment ?opts = ''production''" "opt_message ?opts = []"
    by (simp_all add: initial_options_def)
  have "main_v2 example_config [''prod''] ?w = Exit 0 (say [''Post-deployment checklist:''] w3)"
    unfolding main_v2_def main_resolve_v2_def p then_step.simps va cg cb dt pv o w3 ..
  with w3(2) show ?thesis by simp
qed

lemma parse_arg_v2_unchanged: "repo_unchanged w (final_world (parse_arg_v2 a rest opts w))"
  by (simp add: parse_arg_v2_def split: list.splits)

lemma parse_args_v2_unchanged: "repo_unchanged w (final_world (parse_args_v2 args opts w))"
proof (induction args arbitrary: opts w rule: length_induct)
  case (1 args)
  show ?case
  proof (cases args)
    case Nil
    then show ?thesis by simp
  next
    case (Cons a rest)
    show ?thesis
    proof (cases "parse_arg_v2 a rest opts w")
      case (Exit c w1)
      with parse_arg_v2_unchanged [of w a rest opts] Cons show ?thesis by simp
    next
      case (Exec_rollback x w1)
      with parse_arg_v2_unchanged [of w a rest opts] Cons show ?thesis by simp
    next
      case (Next p w1)
      obtain o1 extra where p: "p = (o1, extra)" by (cases p)
      from Next parse_arg_v2_unchanged [of w a rest opts] have u: "repo_unchanged w w1" by simp
      have "length (drop extra rest) < length args" using Cons by simp
      with 1 have "repo_unchanged w1 (final_world (parse_args_v2 (drop extra rest) o1 w1))" by blast
      with u have "repo_unchanged w (final_world (parse_args_v2 (drop extra rest) o1 w1))"
        by (rule repo_unchanged_trans)
      with Cons Next p show ?thesis by simp
    qed
  qed
qed

lemma validate_environment_v2_unchanged:
  "repo_unchanged w (final_world (validate_environment_v2 cfg opts w))"
  by (simp add: validate_environment_v2_def)

lemma check_branch_v2_unchanged: "repo_unchanged w (final_world (check_branch_v2 cfg opts w))"
  unfolding check_branch_v2_def
  by (cases "current_branch w \<notin> set (DEPLOY_BRANCHES cfg)") (auto intro!: read_reply_unchanged)

lemma determine_version_v2_unchanged: "repo_unchanged w (final_world (determine_version_v2 opts w))"
  by (simp add: determine_version_v2_def Let_def split: sum.splits)

lemma main_resolve_v2_unchanged: "repo_unchanged w (final_world (main_resolve_v2 cfg args w))"
  unfolding main_resolve_v2_def
  by (intro then_step_unchanged parse_args_v2_unchanged validate_environment_v2_unchanged
      check_git_status_unchanged check_branch_v2_unchanged determine_version_v2_unchanged)

lemma proceed_question_v2:
  assumes "main_resolve_v2 cfg args w = Next opts w1"
    and "ENABLE_PREVIEW cfg" and "\<not> opt_preview_mode opts"
    and "read_n1 (stdin w1) = (got, reply, rest)"
    and "\<not> got \<or> \<not> is_yes reply"
  shows "\<exists>w'. main_v2 cfg args w = Exit 1 w' \<and> repo_unchanged w w'"
proof -
  from main_resolve_v2_unchanged [of w cfg args] assms(1) have u: "repo_unchanged w w1" by simp
  from assms(2-5) have "\<exists>w'. preview_v2 cfg opts w1 = Exit 1 w' \<and> repo_unchanged w1 w'"
    by (auto simp: preview_v2_def read_reply_def Let_def)
  then obtain w' where c: "preview_v2 cfg opts w1 = Exit 1 w'" and u': "repo_unchanged w1 w'" by blast
  from assms(1) c have "main_v2 cfg args w = Exit 1 w'" by (simp add: main_v2_def)
  with u u' show ?thesis by (blast intro: repo_unchanged_trans)
qed

lemma example_resolve_v2:
  "main_resolve_v2 example_config [''prod''] (example_world\<lparr>stdin := x\<rparr>) =
     Next (initial_options example_config\<lparr>opt_environment := ''production'', opt_new_version := ''3.0.1''\<rparr>)
       (example_world\<lparr>stdin := x\<rparr>)"
proof -
  let ?w = "example_world\<lparr>stdin := x\<rparr>"
  let ?start = "initial_options example_config\<lparr>opt_environment := ''production''\<rparr>"
  have p: "parse_args_v2 [''prod''] (initial_options example_config) ?w = Next ?start ?w"
    by (simp add: parse_arg_v2_def)
  have va: "validate_environment_v2 example_config ?start ?w = Next ?start ?w"
    by (simp add: validate_environment_v2_def)
  have cg: "check_git_status ?start ?w = Next ?start ?w"
    by (simp add: check_git_status_def example_world_fields)
  have cb: "check_branch_v2 example_config ?start ?w = Next ?start ?w"
    by (simp add: check_branch_v2_def example_world_fields example_config_fields)
  have l: "get_latest_version_v2 ''production'' [''v1.1.0-dev'', ''v2.0.0-staging'', ''v2.5.0'', ''v3.0.0''] = ''v3.0.0''"
    by code_simp
  have i: "increment_version_v2 ''v3.0.0'' ''patch'' = Inr ''3.0.1''"
    by code_simp
  have dt: "determine_version_v2 ?start ?w =
      Next (initial_options example_config\<lparr>opt_environment := ''production'', opt_new_version := ''3.0.1''\<rparr>) ?w"
    by (simp add: determine_version_v2_def initial_options_def git_tag_l_example_stdin l i Let_def)
  show ?thesis
    unfolding main_resolve_v2_def p then_step.simps va cg cb dt ..
qed

section \<open>Lemmas on the version sort and the latest version\<close>



lemma dec_val_Nil [simp]: "dec_val [] = 0"
  by (simp add: dec_val_def)















lemma at_digit_append: "at_digit (z @ r) \<longleftrightarrow> (if z = [] then at_digit r else isdigit (hd z))"
  by (cases z) (auto simp: at_digit_def)





































section \<open>Claims\<close>

text \<open>
  Claim C5, as the code has it. For a version triple whose components are below
  \<open>2^63 - 1\<close> (shell arithmetic is 64-bit), \<^verbatim>\<open>increment_version\<close> with \<^verbatim>\<open>major\<close>
  gives \<open>(major+1, 0, 0)\<close>, with \<^verbatim>\<open>minor\<close> gives \<open>(major, minor+1, 0)\<close> and with
  \<^verbatim>\<open>patch\<close> gives \<open>(major, minor, patch+1)\<close>. With any other increment type it does
  not fail: it returns the version unchanged.
\<close>

theorem increment_version_kinds:
  "(ma < 2 ^ 63 - 1 \<longrightarrow>
      increment_version (render_version (ma, mi, pa)) ''major'' = Inr (render_version (ma + 1, 0, 0))) \<and>
   (mi < 2 ^ 63 - 1 \<longrightarrow>
      increment_version (render_version (ma, mi, pa)) ''minor'' = Inr (render_version (ma, mi + 1, 0))) \<and>
   (pa < 2 ^ 63 - 1 \<longrightarrow>
      increment_version (render_version (ma, mi, pa)) ''patch'' = Inr (render_version (ma, mi, pa + 1))) \<and>
   (kind \<notin> {''major'', ''minor'', ''patch''} \<longrightarrow>
      increment_version (render_version (ma, mi, pa)) kind = Inr (render_version (ma, mi, pa)))"
  using increment_version_parts [of ma mi pa]
  by (auto simp: arith_succ_show_nat render_version_def show_nat_0)

text \<open>The theorem at the version 1.2.3 of the specification's example.\<close>

theorem increment_version_kinds_witness:
  "increment_version ''1.2.3'' ''major'' = Inr ''2.0.0'' \<and>
   increment_version ''1.2.3'' ''minor'' = Inr ''1.3.0'' \<and>
   increment_version ''1.2.3'' ''patch'' = Inr ''1.2.4'' \<and>
   increment_version ''1.2.3'' ''hotfix'' = Inr ''1.2.3''"
proof -
  have r: "render_version (1, 2, 3) = ''1.2.3''" "render_version (1 + 1, 0, 0) = ''2.0.0''"
     "render_version (1, 2 + 1, 0) = ''1.3.0''" "render_version (1, 2, 3 + 1) = ''1.2.4''"
    by code_simp+
  show ?thesis
    using increment_version_kinds [of 1 2 3 "''hotfix''"] unfolding r by simp
qed

text \<open>
  Claim C5 as stated fails: an unrecognised increment type yields a version, not an
  error; and at the top of the 64-bit range the increment wraps around.
\<close>

theorem increment_version_unknown_kind_counterexample:
  "increment_version ''1.2.3'' ''bogus'' = Inr ''1.2.3'' \<and>
   increment_version ''9223372036854775807.0.0'' ''major'' = Inr ''-9223372036854775808.0.0''"
proof
  show "increment_version ''1.2.3'' ''bogus'' = Inr ''1.2.3''" by code_simp
  have 1: "arith_operand ''9223372036854775807'' = Inr 9223372036854775807"
    by (simp add: arith_operand_def isdigit_def dec_val_def digit_of_def wrap64_def sint_sbintrunc' signed_take_bit_int_eq_self)
  have 2: "wrap64 9223372036854775808 = - 9223372036854775808"
    by (simp add: wrap64_def sint_sbintrunc')
  have 3: "show_nat 9223372036854775808 = ''9223372036854775808''"
    by (simp add: show_nat.simps digit_char_simps)
  show "increment_version ''9223372036854775807.0.0'' ''major'' = Inr ''-9223372036854775808.0.0''"
    by (simp add: increment_version_def VERSION_PREFIX_def strip_prefix_def strip_shortest_from_def
          read_dot3_def strip_longest_from_def arith_succ_def 1 2 show_int_def 3)
qed

text \<open>
  Claim C7. For a service that is not one of the four staging services, a rollback whose
  arguments name the staging environment (and do not ask for the history) ends with
  status 1 before anything else happens: no tag is made, deleted or pushed, whatever tags
  the repository has.
\<close>

theorem staging_guard:
  assumes "SERVICE_NAME cfg \<notin> set staging_services"
    and "rb_parse_args args rb_initial w = Next opts w0"
    and "rb_environment opts = ''staging''"
    and "\<not> rb_show_history opts"
  shows "\<exists>w'. rollback_main cfg args w = Exit 1 w' \<and>
           local_tags w' = local_tags w \<and> remote_tags w' = remote_tags w \<and> git_log w' = git_log w"
proof -
  from assms(2) have "w0 = w" by (rule rb_parse_args_world)
  with assms show ?thesis
    by (simp add: rollback_main_def rollback_run_def has_staging_environment_def
        normalize_environment_def say_def Let_def)
qed



text \<open>The service \<^verbatim>\<open>karma-admin-api\<close>, with a staging tag in the repository.\<close>

theorem staging_guard_witness:
  "tag_exists ''v2.0.0-staging'' example_world \<and>
   (\<exists>w'. rollback_main example_config [''staging'', ''--version'', ''v2.0.0-staging''] example_world = Exit 1 w' \<and>
      local_tags w' = local_tags example_world \<and> remote_tags w' = remote_tags example_world \<and>
      git_log w' = git_log example_world)"
proof -
  have p: "rb_parse_args [''staging'', ''--version'', ''v2.0.0-staging''] rb_initial example_world
     = Next \<lparr>rb_environment = ''staging'', rb_version = ''v2.0.0-staging'', rb_skip_confirm = False,
              rb_show_history = False\<rparr> example_world"
    by (simp add: rb_parse_arg_def rb_initial_def)
  have s: "SERVICE_NAME example_config \<notin> set staging_services"
    by (simp add: example_config_def staging_services_def)
  have e: "tag_exists ''v2.0.0-staging'' example_world"
    by (simp add: tag_exists_def example_world_def example_tags_def)
  from staging_guard [OF s p] e show ?thesis by simp
qed

text \<open>
  Claim C8, as the code has it. A rollback of a known environment to an existing tag
  \<open>t\<close>, when no tag of the new name exists yet, creates and pushes exactly one tag, named
  \<open>t\<close> followed by \<^verbatim>\<open>-rollback-\<close> and the seconds of the clock, on the commit of \<open>t\<close>.
  Its message names the version rolled back to, the environment and the user.
\<close>

theorem perform_rollback_creates_tag:
  assumes "env \<in> {''development'', ''dev'', ''staging'', ''production'', ''prod''}"
    and "map_of (local_tags w) t = Some obj"
    and "map_of (local_tags w) (t @ ''-rollback-'' @ show_nat (date_s cfg)) = None"
    and "map_of (remote_tags w) (t @ ''-rollback-'' @ show_nat (date_s cfg)) = None"
  shows "\<exists>w'. perform_rollback cfg env t w = Next () w' \<and>
     git_log w' = git_log w @
       [Tag_create (t @ ''-rollback-'' @ show_nat (date_s cfg)) (tag_commit obj)
          (''Rollback to '' @ t @ '' on '' @ env @ '' by '' @ user_name cfg),
        Push_tag (t @ ''-rollback-'' @ show_nat (date_s cfg))] \<and>
     local_tags w' = local_tags w @
       [(t @ ''-rollback-'' @ show_nat (date_s cfg),
         \<lparr>tag_commit = tag_commit obj,
          tag_message = ''Rollback to '' @ t @ '' on '' @ env @ '' by '' @ user_name cfg\<rparr>)] \<and>
     remote_tags w' = remote_tags w @
       [(t @ ''-rollback-'' @ show_nat (date_s cfg),
         \<lparr>tag_commit = tag_commit obj,
          tag_message = ''Rollback to '' @ t @ '' on '' @ env @ '' by '' @ user_name cfg\<rparr>)]"
  using assms by (rule perform_rollback_effect)

text \<open>The rollback of production to \<^verbatim>\<open>v2.5.0\<close>.\<close>

theorem perform_rollback_creates_tag_witness:
  "\<exists>w'. perform_rollback example_config ''production'' ''v2.5.0'' example_world = Next () w' \<and>
     git_log w' = [Tag_create ''v2.5.0-rollback-1724850000'' 5 ''Rollback to v2.5.0 on production by alice'',
                   Push_tag ''v2.5.0-rollback-1724850000''] \<and>
     map_of (local_tags w') ''v2.5.0-rollback-1724850000'' =
       Some \<lparr>tag_commit = 5, tag_message = ''Rollback to v2.5.0 on production by alice''\<rparr>"
proof -
  have d: "date_s example_config = 1724850000" "user_name example_config = ''alice''"
    by (simp_all add: example_config_def)
  have l: "local_tags example_world = example_tags" "remote_tags example_world = example_tags"
    "git_log example_world = []"
    by (simp_all add: example_world_def)
  have 1: "map_of example_tags ''v2.5.0'' = Some \<lparr>tag_commit = 5, tag_message = ''Deploy karma-admin-api 2.5.0 to prod''\<rparr>"
    by (simp add: example_tags_def)
  have 2: "map_of example_tags ''v2.5.0-rollback-1724850000'' = None"
    by (simp add: example_tags_def)
  from perform_rollback_creates_tag [of "''production''" example_world "''v2.5.0''" _ example_config]
  show ?thesis
    unfolding d l show_nat_date using 1 2 by (auto simp: example_tags_def)
qed

text \<open>
  Claim C8 as stated fails in its last part: production is at \<^verbatim>\<open>v3.0.0\<close>, and the
  message of the rollback tag to \<^verbatim>\<open>v2.5.0\<close> does not name \<^verbatim>\<open>v3.0.0\<close>.
\<close>

theorem rollback_message_counterexample:
  "map_of (local_tags (final_world (rollback_main example_config
       [''production'', ''--version'', ''v2.5.0'', ''--skip-confirm''] example_world)))
     ''v2.5.0-rollback-1724850000'' =
     Some \<lparr>tag_commit = 5, tag_message = ''Rollback to v2.5.0 on production by alice''\<rparr> \<and>
   get_latest_version ''production'' (git_tag_l example_world) = ''v3.0.0'' \<and>
   \<not> contains ''v3.0.0'' ''Rollback to v2.5.0 on production by alice''"
  using example_rollback_run
  by (auto simp: git_tag_l_example latest_example not_contains_example)

text \<open>
  Claim C9 as stated fails in its ``only if'': the third query finds the run of
  \<^verbatim>\<open>v3.0.1\<close>, the watch ends while the run is in progress, and the script ends with
  status 1 although the run has reached no conclusion.
\<close>

theorem monitor_unfinished_run_counterexample:
  "await_start (gh_run_list unfinished_run_config) ''v3.0.1'' 0 =
     Some \<lparr>databaseId = 42, run_status = ''queued'', headBranch = ''refs/tags/v3.0.1''\<rparr> \<and>
   gh_run_view unfinished_run_config 42 1 = View ''in_progress'' [] \<and>
   \<not> terminal_failure (gh_run_view unfinished_run_config 42 1) \<and>
   monitor_github_actions unfinished_run_config ''v3.0.1'' example_world =
     Exit 1 (say [''Deployment failed with status: '',
                  ''   View logs: https://github.com/karmadev/karma-admin-api/actions/runs/42'']
               example_world)"
proof -
  have f: "await_start (gh_run_list unfinished_run_config) ''v3.0.1'' 0 =
      Some \<lparr>databaseId = 42, run_status = ''queued'', headBranch = ''refs/tags/v3.0.1''\<rparr>"
    by (simp add: unfinished_run_config_def failing_run_config_def await_start.simps run_matches_def)
  have v: "gh_run_view unfinished_run_config 42 1 = View ''in_progress'' []"
    by (simp add: unfinished_run_config_def)
  have g: "github_repo unfinished_run_config = ''karmadev/karma-admin-api''"
    by (simp add: unfinished_run_config_def failing_run_config_def example_config_def)
  have n: "show_nat 42 = ''42''"
    by (simp add: show_nat.simps digit_char_simps)
  from f v g n show ?thesis
    by (simp add: monitor_cases terminal_failure_def actions_url_def)
qed

text \<open>
  Claim C9, as the code has it. \<^verbatim>\<open>monitor_github_actions\<close> of \<^verbatim>\<open>deploy.sh\<close> 3.0 ends
  the script with a non-zero status if and only if one of its ten queries finds a run
  for the tag and the query made after the watch does not report the conclusion
  \<^verbatim>\<open>success\<close>: the query fails (the script ends with the status of \<^verbatim>\<open>gh\<close>), or it
  reports another conclusion, be it that of a finished run or the empty one of a run that
  has not finished (status 1). In particular a run that has reached a terminal
  conclusion other than success ends the script with status 1. The run the monitor finds
  has the tag as its head branch and comes from one of the ten queries; it finds none
  exactly when none of the ten answers holds such a run, and then it returns normally
  after printing the address of the Actions page for monitoring by hand. So does the
  monitor of version 2.0 when its search finds no run.
\<close>

theorem monitor_exit_status:
  "((\<exists>c w'. monitor_github_actions cfg tag w = Exit c w' \<and> c \<noteq> 0) \<longleftrightarrow>
      (\<exists>r. await_start (gh_run_list cfg) tag 0 = Some r \<and>
           (\<forall>status. gh_run_view cfg (databaseId r) 1 \<noteq> View status ''success''))) \<and>
   (\<forall>r n. await_start (gh_run_list cfg) tag 0 = Some r \<and>
          gh_run_view cfg (databaseId r) 1 = View_error n \<longrightarrow>
      monitor_github_actions cfg tag w = Exit (Suc n) w) \<and>
   (\<forall>r status conclusion. await_start (gh_run_list cfg) tag 0 = Some r \<and>
          gh_run_view cfg (databaseId r) 1 = View status conclusion \<and> conclusion \<noteq> ''success'' \<longrightarrow>
      monitor_github_actions cfg tag w =
        Exit 1 (say [''Deployment failed with status: '' @ conclusion,
                     ''   View logs: '' @ actions_url cfg @ ''/runs/'' @ show_nat (databaseId r)] w)) \<and>
   (\<forall>r. await_start (gh_run_list cfg) tag 0 = Some r \<and>
          terminal_failure (gh_run_view cfg (databaseId r) 1) \<longrightarrow>
      (\<exists>w'. monitor_github_actions cfg tag w = Exit 1 w')) \<and>
   (\<forall>r status. await_start (gh_run_list cfg) tag 0 = Some r \<and>
          gh_run_view cfg (databaseId r) 1 = View status ''success'' \<longrightarrow>
      (\<exists>w'. monitor_github_actions cfg tag w = Next () w')) \<and>
   (\<forall>r. await_start (gh_run_list cfg) tag 0 = Some r \<longrightarrow>
      (headBranch r = ''refs/tags/'' @ tag \<or> headBranch r = tag) \<and>
      (\<exists>k\<in>{1..10}. r \<in> set (take 5 (gh_run_list cfg k)))) \<and>
   (await_start (gh_run_list cfg) tag 0 = None \<longleftrightarrow>
      (\<forall>k\<in>{1..10}. \<forall>r\<in>set (take 5 (gh_run_list cfg k)).
          \<not> (headBranch r = ''refs/tags/'' @ tag \<or> headBranch r = tag))) \<and>
   (await_start (gh_run_list cfg) tag 0 = None \<longrightarrow>
      monitor_github_actions cfg tag w =
        Next () (say [''Workflow not found yet. You can monitor manually at:'',
                      ''   https://github.com/'' @ github_repo cfg @ ''/actions''] w)) \<and>
   (await_start_v2 cfg tag 0 = None \<longrightarrow>
      monitor_github_actions_v2 cfg tag w =
        Next () (say [''GitHub CLI not available or workflow not found'',
                      ''   Monitor manually at: https://github.com/karmadev/'' @ SERVICE_NAME cfg @ ''/actions''] w))"
proof (intro conjI)
  show "(\<exists>c w'. monitor_github_actions cfg tag w = Exit c w' \<and> c \<noteq> 0) \<longleftrightarrow>
      (\<exists>r. await_start (gh_run_list cfg) tag 0 = Some r \<and>
           (\<forall>status. gh_run_view cfg (databaseId r) 1 \<noteq> View status ''success''))"
  proof (cases "await_start (gh_run_list cfg) tag 0")
    case None
    then show ?thesis unfolding monitor_cases by simp
  next
    case (Some r)
    then show ?thesis
      unfolding monitor_cases by (cases "gh_run_view cfg (databaseId r) 1") auto
  qed
next
  show "\<forall>r n. await_start (gh_run_list cfg) tag 0 = Some r \<and>
          gh_run_view cfg (databaseId r) 1 = View_error n \<longrightarrow>
      monitor_github_actions cfg tag w = Exit (Suc n) w"
    unfolding monitor_cases by simp
next
  show "\<forall>r status conclusion. await_start (gh_run_list cfg) tag 0 = Some r \<and>
          gh_run_view cfg (databaseId r) 1 = View status conclusion \<and> conclusion \<noteq> ''success'' \<longrightarrow>
      monitor_github_actions cfg tag w =
        Exit 1 (say [''Deployment failed with status: '' @ conclusion,
                     ''   View logs: '' @ actions_url cfg @ ''/runs/'' @ show_nat (databaseId r)] w)"
    unfolding monitor_cases by simp
next
  show "\<forall>r. await_start (gh_run_list cfg) tag 0 = Some r \<and>
          terminal_failure (gh_run_view cfg (databaseId r) 1) \<longrightarrow>
      (\<exists>w'. monitor_github_actions cfg tag w = Exit 1 w')"
    unfolding monitor_cases terminal_failure_def by (auto split: view.splits)
next
  show "\<forall>r status. await_start (gh_run_list cfg) tag 0 = Some r \<and>
          gh_run_view cfg (databaseId r) 1 = View status ''success'' \<longrightarrow>
      (\<exists>w'. monitor_github_actions cfg tag w = Next () w')"
    unfolding monitor_cases by simp
next
  show "\<forall>r. await_start (gh_run_list cfg) tag 0 = Some r \<longrightarrow>
      (headBranch r = ''refs/tags/'' @ tag \<or> headBranch r = tag) \<and>
      (\<exists>k\<in>{1..10}. r \<in> set (take 5 (gh_run_list cfg k)))"
  proof (intro allI impI)
    fix r assume "await_start (gh_run_list cfg) tag 0 = Some r"
    from await_start_Some [OF this]
    show "(headBranch r = ''refs/tags/'' @ tag \<or> headBranch r = tag) \<and>
      (\<exists>k\<in>{1..10}. r \<in> set (take 5 (gh_run_list cfg k)))"
      unfolding run_matches_def by (auto simp: Bex_def) (metis Suc_leI One_nat_def)+
  qed
next
  show "await_start (gh_run_list cfg) tag 0 = None \<longleftrightarrow>
      (\<forall>k\<in>{1..10}. \<forall>r\<in>set (take 5 (gh_run_list cfg k)).
          \<not> (headBranch r = ''refs/tags/'' @ tag \<or> headBranch r = tag))"
    unfolding await_start_None find_None_iff run_matches_def
    by (auto simp: Ball_def) (metis Suc_leI One_nat_def le_eq_less_or_eq less_Suc_eq_le not_less_eq_eq zero_less_Suc less_eq_Suc_le)+
next
  show "await_start (gh_run_list cfg) tag 0 = None \<longrightarrow>
      monitor_github_actions cfg tag w =
        Next () (say [''Workflow not found yet. You can monitor manually at:'',
                      ''   https://github.com/'' @ github_repo cfg @ ''/actions''] w)"
    unfolding monitor_cases by simp
next
  show "await_start_v2 cfg tag 0 = None \<longrightarrow>
      monitor_github_actions_v2 cfg tag w =
        Next () (say [''GitHub CLI not available or workflow not found'',
                      ''   Monitor manually at: https://github.com/karmadev/'' @ SERVICE_NAME cfg @ ''/actions''] w)"
    by (simp add: monitor_github_actions_v2_def actions_url_v2_def)
qed

text \<open>
  A run that fails ends the script with status 1; without a run the monitors of both
  versions return.
\<close>

theorem monitor_exit_status_witness:
  "terminal_failure (gh_run_view failing_run_config 42 1) \<and>
   (\<exists>w'. monitor_github_actions failing_run_config ''v3.0.1'' example_world = Exit 1 w') \<and>
   monitor_github_actions example_config ''v3.0.1'' example_world =
     Next () (say [''Workflow not found yet. You can monitor manually at:'',
                   ''   https://github.com/karmadev/karma-admin-api/actions''] example_world) \<and>
   monitor_github_actions_v2 example_config ''v3.0.1'' example_world =
     Next () (say [''GitHub CLI not available or workflow not found'',
                   ''   Monitor manually at: https://github.com/karmadev/karma-admin-api/actions''] example_world)"
proof -
  have f: "await_start (gh_run_list failing_run_config) ''v3.0.1'' 0 =
      Some \<lparr>databaseId = 42, run_status = ''queued'', headBranch = ''refs/tags/v3.0.1''\<rparr>"
    by (simp add: failing_run_config_def await_start.simps run_matches_def)
  have c: "terminal_failure (gh_run_view failing_run_config 42 1)"
    by (simp add: failing_run_config_def terminal_failure_def)
  have n: "await_start (gh_run_list example_config) ''v3.0.1'' 0 = None"
    by (simp add: example_config_def await_start.simps)
  have n2: "await_start_v2 example_config ''v3.0.1'' 0 = None"
    by (simp add: example_config_def await_start_v2.simps)
  have g: "github_repo example_config = ''karmadev/karma-admin-api''"
    "SERVICE_NAME example_config = ''karma-admin-api''"
    by (simp_all add: example_config_def)
  note m = monitor_exit_status [of failing_run_config "''v3.0.1''" example_world]
  from m f c
  have 1: "\<exists>w'. monitor_github_actions failing_run_config ''v3.0.1'' example_world = Exit 1 w'"
    by (metis run.select_convs(1))
  note e = monitor_exit_status [of example_config "''v3.0.1''" example_world]
  from e n g
  have 2: "monitor_github_actions example_config ''v3.0.1'' example_world =
     Next () (say [''Workflow not found yet. You can monitor manually at:'',
                   ''   https://github.com/karmadev/karma-admin-api/actions''] example_world)"
    by simp
  from e n2 g
  have 3: "monitor_github_actions_v2 example_config ''v3.0.1'' example_world =
     Next () (say [''GitHub CLI not available or workflow not found'',
                   ''   Monitor manually at: https://github.com/karmadev/karma-admin-api/actions''] example_world)"
    by simp
  from c 1 2 3 show ?thesis by blast
qed
text \<open>
  Claim C10. A name that ends in \<^verbatim>\<open>-rollback-\<close> and a timestamp passes neither the
  production \<^verbatim>\<open>grep\<close> nor the \<^verbatim>\<open>-staging\<close> and \<^verbatim>\<open>-dev\<close> wildcards of
  \<^verbatim>\<open>get_latest_version\<close>; and whatever \<^verbatim>\<open>perform_rollback\<close> or a whole run of
  \<^verbatim>\<open>rollback.sh\<close> does, \<^verbatim>\<open>get_latest_version\<close> gives afterwards, for every environment
  word, what it gave before.
\<close>

theorem rollback_keeps_latest_version:
  "\<not> grep_production (t @ ''-rollback-'' @ show_nat n) \<and>
   \<not> tag_glob ''-staging'' (t @ ''-rollback-'' @ show_nat n) \<and>
   \<not> tag_glob ''-dev'' (t @ ''-rollback-'' @ show_nat n) \<and>
   get_latest_version env (git_tag_l (final_world (perform_rollback cfg renv t w))) =
     get_latest_version env (git_tag_l w) \<and>
   get_latest_version env (git_tag_l (final_world (rollback_main cfg args w))) =
     get_latest_version env (git_tag_l w)"
  using rollback_name_not_production rollback_name_not_staging rollback_name_not_dev
    latest_kept [OF perform_rollback_kept] latest_kept [OF rollback_main_kept]
  by blast

text \<open>After the rollback of production to \<^verbatim>\<open>v2.5.0\<close> the latest production version is still \<^verbatim>\<open>v3.0.0\<close>.\<close>

theorem rollback_keeps_latest_version_witness:
  "tag_exists ''v2.5.0-rollback-1724850000'' (final_world (rollback_main example_config
       [''production'', ''--version'', ''v2.5.0'', ''--skip-confirm''] example_world)) \<and>
   get_latest_version ''production'' (git_tag_l (final_world (rollback_main example_config
       [''production'', ''--version'', ''v2.5.0'', ''--skip-confirm''] example_world))) = ''v3.0.0''"
  using example_rollback_run
    rollback_keeps_latest_version [of "''v2.5.0''" 1724850000 "''production''" example_config
      "''production''" example_world "[''production'', ''--version'', ''v2.5.0'', ''--skip-confirm'']"]
  by (auto simp: tag_exists_def git_tag_l_example latest_example)

text \<open>
  Claim C2 as stated fails on both scripts. In version 3.0 the operator chooses the patch
  increment, types \<^verbatim>\<open>DEPLOY v3.0.1\<close> with a blank after it, which is not the
  confirmation string, and answers the last question with \<^verbatim>\<open>y\<close>: \<^verbatim>\<open>read\<close> drops the
  blank, and the tag \<^verbatim>\<open>v3.0.1\<close> is created and pushed. Version 2.0 has no typed
  confirmation: \<^verbatim>\<open>deploy.sh prod\<close> creates and pushes the tag after a single \<^verbatim>\<open>y\<close>.
\<close>

theorem production_confirmation_counterexample:
  "''DEPLOY v3.0.1 '' \<noteq> ''DEPLOY v3.0.1'' \<and>
   (\<exists>w'. main example_config [''prod'']
            (example_world\<lparr>stdin := typed [''1''] @ typed [''DEPLOY v3.0.1 ''] @ ''y''\<rparr>) = Exit 0 w' \<and>
      git_log w' = [Tag_create ''v3.0.1'' 10 ''Deploy karma-admin-api 3.0.1 to prod'', Push_tag ''v3.0.1'']) \<and>
   (\<exists>w'. main_v2 example_config [''prod''] (example_world\<lparr>stdin := ''y''\<rparr>) = Exit 0 w' \<and>
      git_log w' = [Tag_create ''v3.0.1'' 10 ''Deploy karma-admin-api 3.0.1 to production'',
                    Push_tag ''v3.0.1''])"
proof -
  let ?opts = "\<lparr>opt_environment = ''prod'', opt_increment_type = ''patch'', opt_specific_version = [],
        opt_message = [], opt_preview_mode = False, opt_rebuild_mode = False, opt_monitor = True,
        opt_new_version = ''3.0.1''\<rparr>"
  have r: "read_line (typed [''DEPLOY v3.0.1 ''] @ ''y'') = (True, ''DEPLOY v3.0.1'', ''y'')"
    by code_simp
  have t: "deploy_tag ''3.0.1'' ''prod'' = ''v3.0.1''" by code_simp
  have "main example_config [''prod'']
            (example_world\<lparr>stdin := typed [''1''] @ typed [''DEPLOY v3.0.1 ''] @ ''y''\<rparr>) =
        main_deploy example_config ?opts (example_world\<lparr>stdin := ''y''\<rparr>)"
    using production_pass [OF example_resolve, of "typed [''DEPLOY v3.0.1 ''] @ ''y''" "''y''"]
    by (simp add: is_prod_def t r)
  with example_production_deploy example_main_v2 show ?thesis by simp
qed

text \<open>
  Claim C2, as the code has it. Whenever \<^verbatim>\<open>main\<close> of \<^verbatim>\<open>deploy.sh\<close> 3.0 comes to the
  confirmation with a production environment, nothing has happened to the tags so far.
  The confirmation is what \<^verbatim>\<open>read\<close> makes of the operator's line (blanks at both ends
  dropped, backslashes resolved). If it is not \<^verbatim>\<open>DEPLOY\<close> followed by the tag to be
  created, or if the input ends before the line does, the script ends with status 1 and
  no tag has been created, deleted or pushed; if it is, the script goes on to the
  deployment. Version 2.0 asks its one question, \<^verbatim>\<open>Proceed with deployment? (y/N)\<close>,
  when previews are enabled: any key but \<^verbatim>\<open>y\<close> or \<^verbatim>\<open>Y\<close>, or no input, ends the script
  with status 1 and no tag has been created, deleted or pushed.
\<close>

theorem production_confirmation_gate:
  "(main_resolve cfg args w = Next opts w1 \<and> is_prod (opt_environment opts) \<and>
    read_line (stdin w1) = (whole, confirmation, rest) \<longrightarrow>
      repo_unchanged w w1 \<and>
      (\<not> whole \<or> confirmation \<noteq> ''DEPLOY '' @ deploy_tag (opt_new_version opts) (opt_environment opts) \<longrightarrow>
         (\<exists>w'. main cfg args w = Exit 1 w' \<and> repo_unchanged w w')) \<and>
      (whole \<and> confirmation = ''DEPLOY '' @ deploy_tag (opt_new_version opts) (opt_environment opts) \<longrightarrow>
         main cfg args w = main_deploy cfg opts (w1\<lparr>stdin := rest\<rparr>))) \<and>
   (main_resolve_v2 cfg args w = Next opts2 w2 \<and> ENABLE_PREVIEW cfg \<and> \<not> opt_preview_mode opts2 \<and>
    read_n1 (stdin w2) = (got, reply, rest2) \<and> (\<not> got \<or> \<not> is_yes reply) \<longrightarrow>
      (\<exists>w'. main_v2 cfg args w = Exit 1 w' \<and> repo_unchanged w w'))"
proof (intro conjI impI)
  assume a: "main_resolve cfg args w = Next opts w1 \<and> is_prod (opt_environment opts) \<and>
    read_line (stdin w1) = (whole, confirmation, rest)"
  with main_resolve_unchanged [of w cfg args] show "repo_unchanged w w1" by simp
  {
    assume "\<not> whole \<or> confirmation \<noteq> ''DEPLOY '' @ deploy_tag (opt_new_version opts) (opt_environment opts)"
    with a show "\<exists>w'. main cfg args w = Exit 1 w' \<and> repo_unchanged w w'"
      using production_gate [of cfg args w opts w1 whole confirmation rest] by blast
  }
  {
    assume "whole \<and> confirmation = ''DEPLOY '' @ deploy_tag (opt_new_version opts) (opt_environment opts)"
    with a show "main cfg args w = main_deploy cfg opts (w1\<lparr>stdin := rest\<rparr>)"
      by (simp add: production_pass)
  }
next
  assume "main_resolve_v2 cfg args w = Next opts2 w2 \<and> ENABLE_PREVIEW cfg \<and> \<not> opt_preview_mode opts2 \<and>
    read_n1 (stdin w2) = (got, reply, rest2) \<and> (\<not> got \<or> \<not> is_yes reply)"
  then show "\<exists>w'. main_v2 cfg args w = Exit 1 w' \<and> repo_unchanged w w'"
    using proceed_question_v2 [of cfg args w opts2 w2 got reply rest2] by blast
qed

text \<open>
  A production deployment of \<^verbatim>\<open>v3.0.1\<close>: confirmed with the tag of the last release it
  ends; confirmed with its own tag, blanks around it, it goes on. Version 2.0 ends on the
  key \<^verbatim>\<open>n\<close>.
\<close>

theorem production_confirmation_gate_witness:
  "(\<exists>w'. main example_config [''prod''] (example_world\<lparr>stdin := typed [''1''] @ typed [''DEPLOY v3.0.0'']\<rparr>) =
           Exit 1 w' \<and>
         repo_unchanged (example_world\<lparr>stdin := typed [''1''] @ typed [''DEPLOY v3.0.0'']\<rparr>) w') \<and>
   main example_config [''prod''] (example_world\<lparr>stdin := typed [''1''] @ typed ['' DEPLOY v3.0.1 '']\<rparr>) =
     main_deploy example_config
       \<lparr>opt_environment = ''prod'', opt_increment_type = ''patch'', opt_specific_version = [],
        opt_message = [], opt_preview_mode = False, opt_rebuild_mode = False, opt_monitor = True,
        opt_new_version = ''3.0.1''\<rparr>
       example_world \<and>
   (\<exists>w'. main_v2 example_config [''prod''] (example_world\<lparr>stdin := ''n''\<rparr>) = Exit 1 w' \<and>
         repo_unchanged (example_world\<lparr>stdin := ''n''\<rparr>) w')"
proof -
  let ?opts = "\<lparr>opt_environment = ''prod'', opt_increment_type = ''patch'', opt_specific_version = [],
        opt_message = [], opt_preview_mode = False, opt_rebuild_mode = False, opt_monitor = True,
        opt_new_version = ''3.0.1''\<rparr>"
  let ?old = "initial_options example_config\<lparr>opt_environment := ''production'', opt_new_version := ''3.0.1''\<rparr>"
  have t: "deploy_tag ''3.0.1'' ''prod'' = ''v3.0.1''" by code_simp
  have r0: "read_line (typed [''DEPLOY v3.0.0'']) = (True, ''DEPLOY v3.0.0'', [])" by code_simp
  have r1: "read_line (typed ['' DEPLOY v3.0.1 '']) = (True, ''DEPLOY v3.0.1'', [])" by code_simp
  have rn: "read_n1 ''n'' = (True, ''n'', [])" by code_simp
  have s: "example_world\<lparr>stdin := []\<rparr> = example_world" by (simp add: example_world_def)
  have f: "ENABLE_PREVIEW example_config" "\<not> opt_preview_mode ?old" "\<not> is_yes ''n''"
    by (simp_all add: example_config_def initial_options_def is_yes_def)
  from production_confirmation_gate [of example_config "[''prod'']"
      "example_world\<lparr>stdin := typed [''1''] @ typed [''DEPLOY v3.0.0'']\<rparr>" ?opts
      "example_world\<lparr>stdin := typed [''DEPLOY v3.0.0'']\<rparr>" True "''DEPLOY v3.0.0''" "[]"]
    example_resolve [of "typed [''DEPLOY v3.0.0'']"]
  have 1: "\<exists>w'. main example_config [''prod''] (example_world\<lparr>stdin := typed [''1''] @ typed [''DEPLOY v3.0.0'']\<rparr>) =
           Exit 1 w' \<and>
         repo_unchanged (example_world\<lparr>stdin := typed [''1''] @ typed [''DEPLOY v3.0.0'']\<rparr>) w'"
    by (simp add: is_prod_def t r0)
  from production_confirmation_gate [of example_config "[''prod'']"
      "example_world\<lparr>stdin := typed [''1''] @ typed ['' DEPLOY v3.0.1 '']\<rparr>" ?opts
      "example_world\<lparr>stdin := typed ['' DEPLOY v3.0.1 '']\<rparr>" True "''DEPLOY v3.0.1''" "[]"]
    example_resolve [of "typed ['' DEPLOY v3.0.1 '']"]
  have 2: "main example_config [''prod''] (example_world\<lparr>stdin := typed [''1''] @ typed ['' DEPLOY v3.0.1 '']\<rparr>) =
     main_deploy example_config ?opts example_world"
    by (simp add: is_prod_def t r1 s)
  from production_confirmation_gate [where cfg = example_config and args = "[''prod'']"
      and w = "example_world\<lparr>stdin := ''n''\<rparr>" and ?opts2.0 = ?old
      and ?w2.0 = "example_world\<lparr>stdin := ''n''\<rparr>" and got = True and reply = "''n''"
      and ?rest2.0 = "[]"]
    example_resolve_v2 [of "''n''"] f rn
  have 3: "\<exists>w'. main_v2 example_config [''prod''] (example_world\<lparr>stdin := ''n''\<rparr>) = Exit 1 w' \<and>
         repo_unchanged (example_world\<lparr>stdin := ''n''\<rparr>) w'"
    by simp
  from 1 2 3 show ?thesis by blast
qed
text \<open>
  Claim C3 as stated fails in two places. The collision path is not the only one that
  moves an existing tag: with a rebuild requested, \<^verbatim>\<open>deploy_version\<close> of version 3.0
  puts the existing tag \<^verbatim>\<open>v1.1.0-dev\<close> on the current commit without printing the
  resolutions and without reading an answer. And \<^verbatim>\<open>deploy_version\<close> of version 2.0
  offers no resolutions: \<^verbatim>\<open>git tag\<close> fails on the existing tag and the script ends.
\<close>

theorem collision_path_counterexample:
  "map_of (local_tags example_world) ''v1.1.0-dev'' =
     Some \<lparr>tag_commit = 9, tag_message = ''Deploy karma-admin-api 1.1.0 to dev''\<rparr> \<and>
   map_of (local_tags (final_world (deploy_version example_config True ''1.1.0'' ''dev'' [] True
       (example_world\<lparr>stdin := typed [''3'']\<rparr>)))) ''v1.1.0-dev'' =
     Some \<lparr>tag_commit = 10, tag_message = ''Rebuild karma-admin-api 1.1.0 for dev''\<rparr> \<and>
   stdin (final_world (deploy_version example_config True ''1.1.0'' ''dev'' [] True
       (example_world\<lparr>stdin := typed [''3'']\<rparr>))) = typed [''3''] \<and>
   deploy_version_v2 example_config ''1.1.0'' ''dev'' [] (example_world\<lparr>stdin := typed [''3'']\<rparr>) =
     Exit 128 (example_world\<lparr>stdin := typed [''3'']\<rparr>)"
proof -
  let ?w = "example_world\<lparr>stdin := typed [''3'']\<rparr>"
  have t: "deploy_tag ''1.1.0'' ''dev'' = ''v1.1.0-dev''" "deploy_tag_v2 ''1.1.0'' ''dev'' = ''v1.1.0-dev''"
    by code_simp+
  have b: "map_of (local_tags example_world) ''v1.1.0-dev'' =
     Some \<lparr>tag_commit = 9, tag_message = ''Deploy karma-admin-api 1.1.0 to dev''\<rparr>"
    by (simp add: example_world_def example_tags_def)
  have a: "map_of (local_tags (final_world (deploy_version example_config True ''1.1.0'' ''dev'' [] True ?w)))
      ''v1.1.0-dev'' = Some \<lparr>tag_commit = 10, tag_message = ''Rebuild karma-admin-api 1.1.0 for dev''\<rparr>"
    unfolding rebuild_effect(1) t
    by (simp add: map_add_def example_world_fields example_config_fields)
  have s: "stdin (final_world (deploy_version example_config True ''1.1.0'' ''dev'' [] True ?w)) = typed [''3'']"
    unfolding rebuild_effect(4) by simp
  have v: "deploy_version_v2 example_config ''1.1.0'' ''dev'' [] ?w = Exit 128 ?w"
    using b by (simp add: deploy_version_v2_def t git_tag_a_def Let_def)
  from b a s v show ?thesis by blast
qed

text \<open>
  Claim C3, as the code has it. \<^verbatim>\<open>deploy_version\<close> of version 3.0 prints three
  resolutions when the tag to deploy exists and no rebuild was asked for, and reads the
  choice. With no complete line of input, and with any choice but 1 (the choice being
  what \<^verbatim>\<open>read\<close> makes of the line), the script ends (status 0 for 2, 1 for 3 and for
  no input, and 128 otherwise, by the failing \<^verbatim>\<open>git tag\<close>) and no tag has been created,
  deleted or pushed. With 1 the tag is deleted here and, if it is there, on the remote,
  made again on the current commit with the message of the deployment, and pushed with
  force. When git does not resolve the name of the tag, every tag that existed, here or
  on the remote, is left as it was. A requested rebuild moves the tag to the current
  commit, here and on the remote, without reading anything. \<^verbatim>\<open>deploy_version\<close> of
  version 2.0 ends the script on an existing tag, with nothing changed.
\<close>

theorem collision_resolutions:
  "length collision_options = 3 \<and>
   (tag_exists (deploy_tag version env) w \<longrightarrow>
      (\<forall>choice rest. read_line (stdin w) = (False, choice, rest) \<longrightarrow>
         (\<exists>w'. deploy_version cfg mon version env msg False w = Exit 1 w' \<and> repo_unchanged w w')) \<and>
      (\<forall>choice rest. read_line (stdin w) = (True, choice, rest) \<and> choice \<noteq> ''1'' \<longrightarrow>
         (\<exists>w'. deploy_version cfg mon version env msg False w =
                  Exit (if choice = ''2'' then 0 else if choice = ''3'' then 1 else 128) w' \<and>
               repo_unchanged w w' \<and>
               take (length (stdout w) + 5) (stdout w') =
                 stdout w @ (''Tag '' @ deploy_tag version env @ '' already exists'') # ''Options:'' #
                   collision_options)) \<and>
      (\<forall>rest. read_line (stdin w) = (True, ''1'', rest) \<longrightarrow>
         local_tags (final_world (deploy_version cfg mon version env msg False w)) =
           filter (\<lambda>p. fst p \<noteq> deploy_tag version env) (local_tags w) @
             [(deploy_tag version env,
               \<lparr>tag_commit = head_commit w,
                tag_message = (if msg = [] then ''Deploy '' @ SERVICE_NAME cfg @ '' '' @ version @ '' to '' @ env
                               else msg)\<rparr>)] \<and>
         remote_tags (final_world (deploy_version cfg mon version env msg False w)) =
           filter (\<lambda>p. fst p \<noteq> deploy_tag version env) (remote_tags w) @
             [(deploy_tag version env,
               \<lparr>tag_commit = head_commit w,
                tag_message = (if msg = [] then ''Deploy '' @ SERVICE_NAME cfg @ '' '' @ version @ '' to '' @ env
                               else msg)\<rparr>)] \<and>
         git_log (final_world (deploy_version cfg mon version env msg False w)) =
           git_log w @ [Tag_delete (deploy_tag version env)] @
           (if map_of (remote_tags w) (deploy_tag version env) = None then []
            else [Push_delete (deploy_tag version env)]) @
           [Tag_force (deploy_tag version env) (head_commit w)
              (if msg = [] then ''Deploy '' @ SERVICE_NAME cfg @ '' '' @ version @ '' to '' @ env else msg),
            Push_force (deploy_tag version env)])) \<and>
   (git_rev_parse (deploy_tag version env) w = None \<longrightarrow>
      existing_tags_kept w (final_world (deploy_version cfg mon version env msg False w))) \<and>
   local_tags (final_world (deploy_version cfg mon version env msg True w)) =
     filter (\<lambda>p. fst p \<noteq> deploy_tag version env) (local_tags w) @
       [(deploy_tag version env,
         \<lparr>tag_commit = head_commit w,
          tag_message = (if msg = [] then ''Rebuild '' @ SERVICE_NAME cfg @ '' '' @ version @ '' for '' @ env
                         else msg)\<rparr>)] \<and>
   remote_tags (final_world (deploy_version cfg mon version env msg True w)) =
     filter (\<lambda>p. fst p \<noteq> deploy_tag version env) (remote_tags w) @
       [(deploy_tag version env,
         \<lparr>tag_commit = head_commit w,
          tag_message = (if msg = [] then ''Rebuild '' @ SERVICE_NAME cfg @ '' '' @ version @ '' for '' @ env
                         else msg)\<rparr>)] \<and>
   stdin (final_world (deploy_version cfg mon version env msg True w)) = stdin w \<and>
   (tag_exists (deploy_tag_v2 version env) w \<longrightarrow>
      deploy_version_v2 cfg version env msg w = Exit 128 w)"
proof -
  define tag where "tag = deploy_tag version env"
  define msg1 where "msg1 = (if msg = [] then ''Deploy '' @ SERVICE_NAME cfg @ '' '' @ version @ '' to '' @ env
                             else msg)"
  have m1: "msg1 \<noteq> []" by (simp add: msg1_def)
  have 1: "length collision_options = 3" by (simp add: collision_options_def)
  have 2: "\<exists>w'. deploy_version cfg mon version env msg False w = Exit 1 w' \<and> repo_unchanged w w'"
    if "tag_exists tag w" "read_line (stdin w) = (False, choice, rest)" for choice rest
    using deploy_version_collision_eof [OF tag_exists_rev_parse, of version env w choice rest cfg mon msg] that
    by (simp add: tag_def)
  have 3: "\<exists>w'. deploy_version cfg mon version env msg False w =
                  Exit (if choice = ''2'' then 0 else if choice = ''3'' then 1 else 128) w' \<and>
               repo_unchanged w w' \<and>
               take (length (stdout w) + 5) (stdout w') =
                 stdout w @ (''Tag '' @ tag @ '' already exists'') # ''Options:'' # collision_options"
    if "tag_exists tag w" "read_line (stdin w) = (True, choice, rest) \<and> choice \<noteq> ''1''" for choice rest
    using deploy_version_collision_other [of version env w choice rest cfg mon msg] that
    by (simp add: tag_def)
  have 4: "local_tags (final_world (deploy_version cfg mon version env msg False w)) =
           filter (\<lambda>p. fst p \<noteq> tag) (local_tags w) @
             [(tag, \<lparr>tag_commit = head_commit w, tag_message = msg1\<rparr>)] \<and>
         remote_tags (final_world (deploy_version cfg mon version env msg False w)) =
           filter (\<lambda>p. fst p \<noteq> tag) (remote_tags w) @
             [(tag, \<lparr>tag_commit = head_commit w, tag_message = msg1\<rparr>)] \<and>
         git_log (final_world (deploy_version cfg mon version env msg False w)) =
           git_log w @ [Tag_delete tag] @
           (if map_of (remote_tags w) tag = None then [] else [Push_delete tag]) @
           [Tag_force tag (head_commit w) msg1, Push_force tag]"
    if e: "tag_exists tag w" and s: "read_line (stdin w) = (True, ''1'', rest)" for rest
  proof -
    from e have e': "git_rev_parse (deploy_tag version env) w \<noteq> None"
      unfolding tag_def by (rule tag_exists_rev_parse)
    from e have l: "map_of (local_tags w) tag \<noteq> None" by (simp add: tag_exists_def)
    show ?thesis
      unfolding deploy_version_collision_rebuild [OF e' s] rebuild_effect
        tag_def [symmetric] msg1_def [symmetric]
      using m1 l by simp
  qed
  have 5: "existing_tags_kept w (final_world (deploy_version cfg mon version env msg False w))"
    if "git_rev_parse tag w = None"
    using that unfolding tag_def by (rule deploy_version_no_collision)
  have 6: "tag_exists (deploy_tag_v2 version env) w \<Longrightarrow> deploy_version_v2 cfg version env msg w = Exit 128 w"
    by (simp add: deploy_version_v2_def tag_exists_def git_tag_a_def Let_def)
  from 1 2 3 4 5 6 rebuild_effect(1,2,4) [of cfg mon version env msg w]
  show ?thesis
    unfolding tag_def msg1_def by blast
qed

text \<open>
  The development tag \<^verbatim>\<open>v1.1.0-dev\<close> exists: the operator cancels, or types 1 with a
  blank before it, or the input is at its end; \<^verbatim>\<open>v1.2.0-dev\<close> is new.
\<close>

theorem collision_resolutions_witness:
  "tag_exists (deploy_tag ''1.1.0'' ''dev'') example_world \<and>
   (\<exists>w'. deploy_version example_config True ''1.1.0'' ''dev'' [] False
            (example_world\<lparr>stdin := typed [''3'']\<rparr>) = Exit 1 w' \<and>
         repo_unchanged (example_world\<lparr>stdin := typed [''3'']\<rparr>) w') \<and>
   map_of (local_tags (final_world (deploy_version example_config True ''1.1.0'' ''dev'' [] False
       (example_world\<lparr>stdin := typed ['' 1'']\<rparr>)))) ''v1.1.0-dev'' =
     Some \<lparr>tag_commit = 10, tag_message = ''Deploy karma-admin-api 1.1.0 to dev''\<rparr> \<and>
   (\<exists>w'. deploy_version example_config True ''1.1.0'' ''dev'' [] False example_world = Exit 1 w' \<and>
         repo_unchanged example_world w') \<and>
   existing_tags_kept example_world
     (final_world (deploy_version example_config True ''1.2.0'' ''dev'' [] False example_world)) \<and>
   deploy_version_v2 example_config ''1.1.0'' ''dev'' [] example_world = Exit 128 example_world"
proof -
  let ?w3 = "example_world\<lparr>stdin := typed [''3'']\<rparr>"
  let ?w1 = "example_world\<lparr>stdin := typed ['' 1'']\<rparr>"
  have t: "deploy_tag ''1.1.0'' ''dev'' = ''v1.1.0-dev''" "deploy_tag_v2 ''1.1.0'' ''dev'' = ''v1.1.0-dev''"
    "deploy_tag ''1.2.0'' ''dev'' = ''v1.2.0-dev''"
    by code_simp+
  have e: "tag_exists ''v1.1.0-dev'' (example_world\<lparr>stdin := x\<rparr>)" "tag_exists ''v1.1.0-dev'' example_world" for x
    by (simp_all add: tag_exists_def example_world_def example_tags_def)
  have n: "git_rev_parse ''v1.2.0-dev'' example_world = None"
    by (simp add: git_rev_parse_def example_world_def example_tags_def)
  have r3: "read_line (stdin ?w3) = (True, ''3'', [])" by code_simp
  have r1: "read_line (stdin ?w1) = (True, ''1'', [])" by code_simp
  have r0: "read_line (stdin example_world) = (False, [], [])" by code_simp
  have f: "local_tags ?w1 = example_tags" "head_commit ?w1 = 10"
    "SERVICE_NAME example_config = ''karma-admin-api''"
    by (simp_all add: example_world_def example_config_def)
  note c3 = collision_resolutions [of "''1.1.0''" "''dev''" ?w3 example_config True "[]", unfolded t]
  note c1 = collision_resolutions [of "''1.1.0''" "''dev''" ?w1 example_config True "[]", unfolded t]
  note c0 = collision_resolutions [of "''1.1.0''" "''dev''" example_world example_config True "[]", unfolded t]
  note c2 = collision_resolutions [of "''1.2.0''" "''dev''" example_world example_config True "[]", unfolded t]
  from c3 e(1) r3
  have 1: "\<exists>w'. deploy_version example_config True ''1.1.0'' ''dev'' [] False ?w3 = Exit 1 w' \<and>
         repo_unchanged ?w3 w'"
    by (auto simp del: deploy_version.simps)
  from c1 e(1) r1
  have "local_tags (final_world (deploy_version example_config True ''1.1.0'' ''dev'' [] False ?w1)) =
      filter (\<lambda>p. fst p \<noteq> ''v1.1.0-dev'') (local_tags ?w1) @
        [(''v1.1.0-dev'', \<lparr>tag_commit = head_commit ?w1,
            tag_message = ''Deploy '' @ SERVICE_NAME example_config @ '' '' @ ''1.1.0'' @ '' to '' @ ''dev''\<rparr>)]"
    by simp
  then have 2: "map_of (local_tags (final_world (deploy_version example_config True ''1.1.0'' ''dev'' [] False ?w1)))
      ''v1.1.0-dev'' = Some \<lparr>tag_commit = 10, tag_message = ''Deploy karma-admin-api 1.1.0 to dev''\<rparr>"
    by (simp add: f map_add_def)
  from c0 e(2) r0
  have 3: "\<exists>w'. deploy_version example_config True ''1.1.0'' ''dev'' [] False example_world = Exit 1 w' \<and>
         repo_unchanged example_world w'"
    by (auto simp del: deploy_version.simps)
  from c2 n
  have 4: "existing_tags_kept example_world
     (final_world (deploy_version example_config True ''1.2.0'' ''dev'' [] False example_world))"
    by blast
  from c0 e(2)
  have 5: "deploy_version_v2 example_config ''1.1.0'' ''dev'' [] example_world = Exit 128 example_world"
    by blast
  from e(2) 1 2 3 4 5 show ?thesis unfolding t by blast
qed
text \<open>
  Claim C4 as stated fails in ``only the commit it points at changes'': the rebuild of
  staging, whose latest tag is \<^verbatim>\<open>v2.0.0-staging\<close>, puts the tag on the current commit
  and gives it a new message as well.
\<close>

theorem rebuild_changes_message_counterexample:
  "get_latest_version ''staging'' (git_tag_l example_world) = ''v2.0.0-staging'' \<and>
   tag_version ''v2.0.0-staging'' = ''2.0.0'' \<and>
   map_of (local_tags example_world) ''v2.0.0-staging'' =
     Some \<lparr>tag_commit = 7, tag_message = ''Deploy karma-admin-api 2.0.0 to staging''\<rparr> \<and>
   map_of (local_tags (final_world (deploy_version example_config True ''2.0.0'' ''staging'' [] True
       example_world))) ''v2.0.0-staging'' =
     Some \<lparr>tag_commit = 10, tag_message = ''Rebuild karma-admin-api 2.0.0 for staging''\<rparr>"
proof -
  have l: "get_latest_version ''staging'' (git_tag_l example_world) = ''v2.0.0-staging''"
    unfolding git_tag_l_example by code_simp
  have v: "tag_version ''v2.0.0-staging'' = ''2.0.0''" by code_simp
  have t: "deploy_tag ''2.0.0'' ''staging'' = ''v2.0.0-staging''" by code_simp
  have b: "map_of (local_tags example_world) ''v2.0.0-staging'' =
     Some \<lparr>tag_commit = 7, tag_message = ''Deploy karma-admin-api 2.0.0 to staging''\<rparr>"
    by (simp add: example_world_def example_tags_def)
  have a: "map_of (local_tags (final_world (deploy_version example_config True ''2.0.0'' ''staging'' [] True
       example_world))) ''v2.0.0-staging'' =
     Some \<lparr>tag_commit = 10, tag_message = ''Rebuild karma-admin-api 2.0.0 for staging''\<rparr>"
    unfolding rebuild_effect(1) t
    by (simp add: map_add_def example_world_fields example_config_fields)
  from l v b a show ?thesis by blast
qed

text \<open>
  Claim C4, as the code has it. When the environment has a tag, a rebuild takes the
  version of the latest tag, and the tag \<^verbatim>\<open>deploy_version\<close> builds from it is that latest
  tag again, character for character. After the rebuild the repository has the same tag
  names; the latest tag, here and on the remote, points at the current commit and carries
  the message given with \<^verbatim>\<open>--message\<close> or else \<^verbatim>\<open>Rebuild <service> <version> for
  <environment>\<close>; every other tag is as it was; and \<^verbatim>\<open>get_latest_version\<close> gives the same
  tag as before.
\<close>

theorem rebuild_keeps_tag:
  assumes "env_tags env (git_tag_l w) \<noteq> []"
  shows "tag_exists (get_latest_version env (git_tag_l w)) w \<and>
     determine_version (opts\<lparr>opt_environment := env, opt_rebuild_mode := True\<rparr>) w =
       Next (opts\<lparr>opt_environment := env, opt_rebuild_mode := True,
                  opt_new_version := tag_version (get_latest_version env (git_tag_l w))\<rparr>) w \<and>
     deploy_tag (tag_version (get_latest_version env (git_tag_l w))) env = get_latest_version env (git_tag_l w) \<and>
     git_tag_l (final_world (deploy_version cfg mon (tag_version (get_latest_version env (git_tag_l w))) env msg True w))
       = git_tag_l w \<and>
     get_latest_version env
       (git_tag_l (final_world (deploy_version cfg mon (tag_version (get_latest_version env (git_tag_l w))) env msg True w)))
       = get_latest_version env (git_tag_l w) \<and>
     map_of (local_tags (final_world (deploy_version cfg mon (tag_version (get_latest_version env (git_tag_l w))) env msg True w)))
         (get_latest_version env (git_tag_l w)) =
       Some \<lparr>tag_commit = head_commit w,
             tag_message = (if msg = [] then ''Rebuild '' @ SERVICE_NAME cfg @ '' '' @
                                  tag_version (get_latest_version env (git_tag_l w)) @ '' for '' @ env
                            else msg)\<rparr> \<and>
     map_of (remote_tags (final_world (deploy_version cfg mon (tag_version (get_latest_version env (git_tag_l w))) env msg True w)))
         (get_latest_version env (git_tag_l w)) =
       Some \<lparr>tag_commit = head_commit w,
             tag_message = (if msg = [] then ''Rebuild '' @ SERVICE_NAME cfg @ '' '' @
                                  tag_version (get_latest_version env (git_tag_l w)) @ '' for '' @ env
                            else msg)\<rparr> \<and>
     (\<forall>t. t \<noteq> get_latest_version env (git_tag_l w) \<longrightarrow>
          map_of (local_tags (final_world (deploy_version cfg mon (tag_version (get_latest_version env (git_tag_l w))) env msg True w))) t
            = map_of (local_tags w) t \<and>
          map_of (remote_tags (final_world (deploy_version cfg mon (tag_version (get_latest_version env (git_tag_l w))) env msg True w))) t
            = map_of (remote_tags w) t)"
proof -
  define latest where "latest = get_latest_version env (git_tag_l w)"
  define w' where "w' = final_world (deploy_version cfg mon (tag_version latest) env msg True w)"
  define msg1 where "msg1 = (if msg = [] then ''Rebuild '' @ SERVICE_NAME cfg @ '' '' @
                                  tag_version latest @ '' for '' @ env
                            else msg)"
  from latest_in_env_tags [OF assms] have i: "latest \<in> set (env_tags env (git_tag_l w))"
    by (simp add: latest_def)
  from env_tags_member(1) [OF i] have m: "latest \<in> fst ` set (local_tags w)" by (simp add: git_tag_l_set)
  then have e: "tag_exists latest w" by (simp add: tag_exists_def map_of_eq_None_iff)
  have t: "deploy_tag (tag_version latest) env = latest" by (rule rebuild_tag [OF i])
  note r = rebuild_effect [of cfg mon "tag_version latest" env msg w, unfolded t, folded w'_def msg1_def]
  have "fst ` set (local_tags w') = fst ` set (local_tags w)"
    unfolding r(1) using m by auto
  then have g: "git_tag_l w' = git_tag_l w" by (rule git_tag_l_cong)
  have l: "get_latest_version env (git_tag_l w') = latest" by (simp add: g latest_def)
  have p: "map_of (local_tags w') latest = Some \<lparr>tag_commit = head_commit w, tag_message = msg1\<rparr>"
    "map_of (remote_tags w') latest = Some \<lparr>tag_commit = head_commit w, tag_message = msg1\<rparr>"
    unfolding r(1) r(2) by (simp_all add: map_add_def)
  have o: "\<forall>t. t \<noteq> latest \<longrightarrow> map_of (local_tags w') t = map_of (local_tags w) t \<and>
                            map_of (remote_tags w') t = map_of (remote_tags w) t"
    unfolding r(1) r(2) by (auto simp: map_add_def split: option.splits)
  have d: "determine_version (opts\<lparr>opt_environment := env, opt_rebuild_mode := True\<rparr>) w =
       Next (opts\<lparr>opt_environment := env, opt_rebuild_mode := True,
                  opt_new_version := tag_version latest\<rparr>) w"
    by (simp add: determine_version_def Let_def latest_def)
  from e d t g l p o show ?thesis
    unfolding w'_def latest_def msg1_def by blast
qed

text \<open>The rebuild of staging, whose latest tag is \<^verbatim>\<open>v2.0.0-staging\<close>, with a message of its own.\<close>

theorem rebuild_keeps_tag_witness:
  "get_latest_version ''staging'' (git_tag_l example_world) = ''v2.0.0-staging'' \<and>
   deploy_tag (tag_version ''v2.0.0-staging'') ''staging'' = ''v2.0.0-staging'' \<and>
   get_latest_version ''staging''
     (git_tag_l (final_world (deploy_version example_config True (tag_version ''v2.0.0-staging'') ''staging''
        ''again'' True example_world)))
     = ''v2.0.0-staging'' \<and>
   map_of (local_tags (final_world (deploy_version example_config True (tag_version ''v2.0.0-staging'') ''staging''
        ''again'' True example_world)))
      ''v2.0.0-staging'' = Some \<lparr>tag_commit = 10, tag_message = ''again''\<rparr>"
proof -
  have l: "get_latest_version ''staging'' (git_tag_l example_world) = ''v2.0.0-staging''"
    unfolding git_tag_l_example by code_simp
  have n: "env_tags ''staging'' (git_tag_l example_world) \<noteq> []"
    unfolding git_tag_l_example by code_simp
  have h: "head_commit example_world = 10" by (simp add: example_world_def)
  from rebuild_keeps_tag [OF n, of undefined example_config True "''again''", unfolded l h] l
  show ?thesis by simp
qed
text \<open>
  Claim C6 at \<^verbatim>\<open>deploy.sh dev --version 1.0\<close>. The version \<^verbatim>\<open>1.0\<close> does not match
  \<^verbatim>\<open>^[0-9]+\.[0-9]+\.[0-9]+$\<close>, yet the script creates and pushes the tag
  \<^verbatim>\<open>v1.0-dev\<close> and ends with status 0: the \<^verbatim>\<open>--version\<close> argument is taken as it is.
  The same version typed in as a custom version is refused before any tag is made.
\<close>

theorem version_argument_not_validated:
  "\<not> match_xyz ''1.0'' \<and>
   (\<exists>w'. main example_config [''dev'', ''--version'', ''1.0''] (example_world\<lparr>stdin := ''y''\<rparr>) = Exit 0 w' \<and>
      git_log w' = [Tag_create ''v1.0-dev'' 10 ''Deploy karma-admin-api 1.0 to dev'', Push_tag ''v1.0-dev'']) \<and>
   (\<exists>w'. main example_config [''dev''] (example_world\<lparr>stdin := typed [''4'', ''1.0'']\<rparr>) = Exit 1 w' \<and>
      git_log w' = [] \<and> stdout w' = [''Invalid version format. Must be X.Y.Z''])"
proof -
  have 1: "\<not> match_xyz ''1.0''" by code_simp
  have 3: "\<exists>w'. main example_config [''dev''] (example_world\<lparr>stdin := typed [''4'', ''1.0'']\<rparr>) = Exit 1 w' \<and>
      git_log w' = [] \<and> stdout w' = [''Invalid version format. Must be X.Y.Z'']"
    unfolding example_custom_version by (simp add: example_world_fields)
  from 1 example_version_argument 3 show ?thesis by blast
qed



end
